theory Spec2Isabelle
  imports Complex_Main
begin

section \<open>JavaScript values\<close>

text \<open>
  The style function of ol-mapbox-style (stylefunction.js) works on JSON style documents
  and on the values the compiled style expressions return. A JavaScript string is a
  sequence of UTF-16 code units. A number is a real (\<open>JNum\<close>) or NaN (\<open>JNaN\<close>); the
  infinities are not represented, and a quotient by zero is given as \<open>JNaN\<close>.
\<close>

type_synonym jstring = "nat list"

definition u :: "string \<Rightarrow> jstring" where
  "u s = map of_char s"

datatype color = Color (col_r: real) (col_g: real) (col_b: real) (col_a: real)

datatype jsval =
    JUndef
  | JNull
  | JBool bool
  | JNum real
  | JNaN
  | JStr jstring
  | JCol color
  | JArr "jsval list"
  | JObj "(jstring \<times> jsval) list"

text \<open>ToBoolean: what \<^verbatim>\<open>if (v)\<close>, \<^verbatim>\<open>!v\<close> and \<^verbatim>\<open>v || w\<close> test.\<close>

fun truthy :: "jsval \<Rightarrow> bool" where
  "truthy JUndef = False"
| "truthy JNull = False"
| "truthy (JBool b) = b"
| "truthy (JNum x) = (x \<noteq> 0)"
| "truthy JNaN = False"
| "truthy (JStr s) = (s \<noteq> [])"
| "truthy (JCol c) = True"
| "truthy (JArr xs) = True"
| "truthy (JObj kvs) = True"

text \<open>
  \<^verbatim>\<open>v[i]\<close>: an element of an array, a code unit of a string, \<^verbatim>\<open>undefined\<close> on any
  other value but \<^verbatim>\<open>undefined\<close> and \<^verbatim>\<open>null\<close>, on which the read throws (\<open>nullish\<close>).
\<close>

definition nullish :: "jsval \<Rightarrow> bool" where
  "nullish v = (v = JUndef \<or> v = JNull)"

fun idx :: "jsval \<Rightarrow> nat \<Rightarrow> jsval" where
  "idx (JArr xs) i = (if i < length xs then xs ! i else JUndef)"
| "idx (JStr s) i = (if i < length s then JStr [s ! i] else JUndef)"
| "idx _ i = JUndef"

text \<open>\<^verbatim>\<open>Math.round\<close>: to the nearest integer, halves towards plus infinity.\<close>

definition math_round :: "real \<Rightarrow> int" where
  "math_round x = \<lfloor>x + 1 / 2\<rfloor>"

subsection \<open>Strings\<close>

text \<open>\<^verbatim>\<open>s.split(sep)\<close> for a one-unit separator: always at least one piece.\<close>

fun split_on :: "nat \<Rightarrow> jstring \<Rightarrow> jstring list" where
  "split_on sep [] = [[]]"
| "split_on sep (c # cs) =
     (if c = sep then [] # split_on sep cs
      else (case split_on sep cs of [] \<Rightarrow> [[c]] | w # ws \<Rightarrow> (c # w) # ws))"

text \<open>\<^verbatim>\<open>xs.join(sep)\<close>.\<close>

fun join :: "jstring \<Rightarrow> jstring list \<Rightarrow> jstring" where
  "join sep [] = []"
| "join sep [x] = x"
| "join sep (x # y # ys) = x @ sep @ join sep (y # ys)"

text \<open>\<^verbatim>\<open>s.indexOf(t) !== -1\<close> and \<^verbatim>\<open>s.indexOf(t) == 0\<close> on strings.\<close>

fun contains :: "jstring \<Rightarrow> jstring \<Rightarrow> bool" where
  "contains [] t = (t = [])"
| "contains (c # cs) t = (take (length t) (c # cs) = t \<or> contains cs t)"

definition starts_with :: "jstring \<Rightarrow> jstring \<Rightarrow> bool" where
  "starts_with s t = (take (length t) s = t)"

section \<open>Icon anchors\<close>

record anchor_result =
  anchorOffset :: "real \<times> real"
  iconAnchor :: jsval

definition covertIconAnchor :: "jsval \<Rightarrow> anchor_result" where
  "covertIconAnchor iconAnchor0 =
     (let anchorOffset0 = (1 / 2, 1 / 2);
          anchorOffset1 =
            (if iconAnchor0 \<in> set [JStr (u ''top-left''), JStr (u ''top-right''),
                                   JStr (u ''bottom-left''), JStr (u ''bottom-right'')]
             then (0, 0) else anchorOffset0);
          (iconAnchor1, anchorOffset2) =
            (if iconAnchor0 = JStr (u ''left'') then (JStr (u ''top-left''), (0, 1 / 2))
             else (iconAnchor0, anchorOffset1));
          (iconAnchor2, anchorOffset3) =
            (if iconAnchor1 = JStr (u ''right'') then (JStr (u ''top-left''), (1, 1 / 2))
             else (iconAnchor1, anchorOffset2));
          (iconAnchor3, anchorOffset4) =
            (if iconAnchor2 = JStr (u ''bottom'') then (JStr (u ''top-left''), (1 / 2, 1))
             else (iconAnchor2, anchorOffset3));
          (iconAnchor4, anchorOffset5) =
            (if iconAnchor3 = JStr (u ''top'') then (JStr (u ''top-left''), (1 / 2, 0))
             else (iconAnchor3, anchorOffset4))
      in \<lparr>anchorOffset = anchorOffset5, iconAnchor = iconAnchor4\<rparr>)"

section \<open>Style documents\<close>

text \<open>
  A style layer. \<open>minzoom\<close> and \<open>maxzoom\<close> are \<open>None\<close> when the key is not in the layer
  object; \<open>layout\<close> and \<open>paint\<close> are \<open>None\<close> when the layer has no such bag
  (the source then uses its shared empty object). The bags are indexed by the property
  names written in the source, so their keys are kept as literals.
\<close>

type_synonym bag = "string \<rightharpoonup> jsval"

record layer =
  layer_id :: jstring
  layer_type :: jstring
  layer_source :: jsval
  source_layer :: jsval
  minzoom :: "real option"
  maxzoom :: "real option"
  layout :: "bag option"
  paint :: "bag option"
  layer_filter :: jsval

record style_doc =
  version :: jsval
  doc_layers :: "layer list"

definition bag_or_empty :: "bag option \<Rightarrow> bag" where
  "bag_or_empty b = (case b of None \<Rightarrow> Map.empty | Some m \<Rightarrow> m)"

definition lookup :: "bag \<Rightarrow> string \<Rightarrow> jsval" where
  "lookup m k = (case m k of None \<Rightarrow> JUndef | Some v \<Rightarrow> v)"

section \<open>Features\<close>

text \<open>
  What a compiled expression or filter is called with: the view
  \<^verbatim>\<open>{properties: properties, type: type}\<close> the style function builds, or (for
  \<^verbatim>\<open>fill-outline-color\<close>) the bare properties object.
\<close>

type_synonym props = "jstring \<rightharpoonup> jsval"

datatype farg = FView props "nat option" | FProps props

type_synonym evaluator = "real \<Rightarrow> farg \<Rightarrow> jsval"

record geometry =
  geom_type :: jstring
  geom_extent :: "real \<times> real \<times> real \<times> real"
  flatMidpoint :: "real list option"

record feature =
  getProperties :: props
  getGeometry :: geometry

text \<open>The table \<^verbatim>\<open>types\<close>; \<open>None\<close> is the \<^verbatim>\<open>undefined\<close> of any other geometry type.\<close>

definition types :: "jstring \<Rightarrow> nat option" where
  "types t =
     (if t = u ''Point'' \<or> t = u ''MultiPoint'' then Some 1
      else if t = u ''LineString'' \<or> t = u ''MultiLineString'' then Some 2
      else if t = u ''Polygon'' \<or> t = u ''MultiPolygon'' then Some 3
      else None)"

section \<open>Errors and the environment\<close>

text \<open>
  \<open>Error msg\<close> is \<^verbatim>\<open>new Error(msg)\<close>, \<open>TypeError\<close> what the engine throws on a
  property read of \<^verbatim>\<open>undefined\<close> or a call of a non-function, \<open>SyntaxError\<close> what
  \<^verbatim>\<open>JSON.parse\<close> throws, and \<open>Diverges\<close> the outcome of a call whose template
  substitution loop never ends.
\<close>

datatype error = Error jstring | TypeError | SyntaxError | Diverges

record propspec =
  ps_default :: jsval
  ps_type :: jsval

text \<open>
  The collaborators the source imports or is handed by the browser: the engine's
  conversions, the style-spec library (\<^verbatim>\<open>@mapbox/mapbox-gl-style-spec\<close>),
  \<^verbatim>\<open>mapbox-to-css-font\<close>, \<^verbatim>\<open>./util\<close> and the canvas text measurement.
  \<open>measureText env font s\<close> is \<^verbatim>\<open>ctx.measureText(s).width\<close> after
  \<^verbatim>\<open>ctx.font = font\<close>.
\<close>

record env =
  tostr :: "jsval \<Rightarrow> jstring"
  str_to_num :: "jstring \<Rightarrow> real option"
  to_upper :: "jstring \<Rightarrow> jstring"
  to_lower :: "jstring \<Rightarrow> jstring"
  measureText :: "jstring \<Rightarrow> jstring \<Rightarrow> real"
  mb2css :: "jsval \<Rightarrow> jsval \<Rightarrow> jstring"
  deg2rad :: "real \<Rightarrow> real"
  getZoomForResolution :: "real \<Rightarrow> real list \<Rightarrow> real"
  spec_lookup :: "jstring \<Rightarrow> string \<Rightarrow> propspec option"
  isExpression :: "jsval \<Rightarrow> bool"
  isFunction :: "jsval \<Rightarrow> bool"
  convertFunction :: "jsval \<Rightarrow> propspec \<Rightarrow> jsval"
  createPropertyExpression :: "jsval \<Rightarrow> propspec \<Rightarrow> (jstring \<times> jstring) list + evaluator"
  color_parse :: "jsval \<Rightarrow> jsval"
  createFilter :: "jsval \<Rightarrow> error + evaluator"
  derefLayers :: "layer list \<Rightarrow> layer list"
  json_parse :: "jstring \<Rightarrow> error + style_doc option"

text \<open>String conversion (\<^verbatim>\<open>'' + v\<close>, \<^verbatim>\<open>v.toString()\<close>, a value used as an object key).\<close>

definition to_string :: "env \<Rightarrow> jsval \<Rightarrow> jstring" where
  "to_string env v = (case v of JStr s \<Rightarrow> s | _ \<Rightarrow> tostr env v)"

text \<open>ToNumber; \<open>None\<close> is NaN.\<close>

definition to_number :: "env \<Rightarrow> jsval \<Rightarrow> real option" where
  "to_number env v =
     (case v of
        JNum x \<Rightarrow> Some x
      | JStr s \<Rightarrow> str_to_num env s
      | JBool b \<Rightarrow> Some (if b then 1 else 0)
      | JNull \<Rightarrow> Some 0
      | JUndef \<Rightarrow> None
      | JNaN \<Rightarrow> None
      | _ \<Rightarrow> str_to_num env (tostr env v))"

text \<open>The loose comparisons \<^verbatim>\<open>v == n\<close> with a number and \<^verbatim>\<open>v == s\<close> with a string.\<close>

definition loose_eq_num :: "env \<Rightarrow> jsval \<Rightarrow> real \<Rightarrow> bool" where
  "loose_eq_num env v n =
     (case v of
        JUndef \<Rightarrow> False
      | JNull \<Rightarrow> False
      | _ \<Rightarrow> to_number env v = Some n)"

definition loose_eq_str :: "env \<Rightarrow> jsval \<Rightarrow> jstring \<Rightarrow> bool" where
  "loose_eq_str env v s =
     (case v of
        JUndef \<Rightarrow> False
      | JNull \<Rightarrow> False
      | JStr t \<Rightarrow> t = s
      | JNum x \<Rightarrow> str_to_num env s = Some x
      | JBool b \<Rightarrow> str_to_num env s = Some (if b then 1 else 0)
      | JNaN \<Rightarrow> False
      | _ \<Rightarrow> tostr env v = s)"

section \<open>Arithmetic\<close>

text \<open>
  The arithmetic operators convert their operands with ToNumber, and the result is NaN
  as soon as one of them is: \<^verbatim>\<open>a * b\<close>, \<^verbatim>\<open>a - b\<close>, \<^verbatim>\<open>a / b\<close> and \<^verbatim>\<open>-a\<close>.
\<close>

definition js_mul :: "env \<Rightarrow> jsval \<Rightarrow> jsval \<Rightarrow> jsval" where
  "js_mul env a b =
     (case to_number env a of
        None \<Rightarrow> JNaN
      | Some x \<Rightarrow> (case to_number env b of None \<Rightarrow> JNaN | Some y \<Rightarrow> JNum (x * y)))"

definition js_sub :: "env \<Rightarrow> jsval \<Rightarrow> jsval \<Rightarrow> jsval" where
  "js_sub env a b =
     (case to_number env a of
        None \<Rightarrow> JNaN
      | Some x \<Rightarrow> (case to_number env b of None \<Rightarrow> JNaN | Some y \<Rightarrow> JNum (x - y)))"

definition js_div :: "env \<Rightarrow> jsval \<Rightarrow> jsval \<Rightarrow> jsval" where
  "js_div env a b =
     (case to_number env a of
        None \<Rightarrow> JNaN
      | Some x \<Rightarrow>
          (case to_number env b of
             None \<Rightarrow> JNaN
           | Some y \<Rightarrow> if y = 0 then JNaN else JNum (x / y)))"

definition js_neg :: "env \<Rightarrow> jsval \<Rightarrow> jsval" where
  "js_neg env a = (case to_number env a of None \<Rightarrow> JNaN | Some x \<Rightarrow> JNum (- x))"

text \<open>
  \<^verbatim>\<open>a + b\<close>: when an operand is a string, or an object (whose primitive value is its
  string), the operator concatenates the strings of both.
\<close>

definition concatenates :: "jsval \<Rightarrow> bool" where
  "concatenates v =
     (case v of JStr s \<Rightarrow> True | JCol c \<Rightarrow> True | JArr xs \<Rightarrow> True | JObj kvs \<Rightarrow> True
      | _ \<Rightarrow> False)"

definition js_add :: "env \<Rightarrow> jsval \<Rightarrow> jsval \<Rightarrow> jsval" where
  "js_add env a b =
     (if concatenates a \<or> concatenates b then JStr (to_string env a @ to_string env b)
      else (case to_number env a of
              None \<Rightarrow> JNaN
            | Some x \<Rightarrow> (case to_number env b of None \<Rightarrow> JNaN | Some y \<Rightarrow> JNum (x + y))))"

text \<open>
  The comparisons \<^verbatim>\<open>v > x\<close>, \<^verbatim>\<open>x > v\<close> and \<^verbatim>\<open>x <= v\<close> of a value with a number:
  the value is converted, and a comparison with NaN is false.
\<close>

definition js_gt :: "env \<Rightarrow> jsval \<Rightarrow> real \<Rightarrow> bool" where
  "js_gt env v x = (case to_number env v of None \<Rightarrow> False | Some y \<Rightarrow> x < y)"

definition js_lt :: "env \<Rightarrow> jsval \<Rightarrow> real \<Rightarrow> bool" where
  "js_lt env v x = (case to_number env v of None \<Rightarrow> False | Some y \<Rightarrow> y < x)"

definition js_ge :: "env \<Rightarrow> jsval \<Rightarrow> real \<Rightarrow> bool" where
  "js_ge env v x = (case to_number env v of None \<Rightarrow> False | Some y \<Rightarrow> x \<le> y)"

section \<open>Resolved colours\<close>

text \<open>
  \<^verbatim>\<open>colorWithOpacity\<close> returns the CSS string
  \<^verbatim>\<open>'rgba(' + R + ',' + G + ',' + B + ',' + A + ')'\<close>; the model keeps its four numbers,
  the last one \<^verbatim>\<open>a * opacity\<close> with the opacity converted as the product does.
  \<open>NaNColor\<close> is the string the source builds from a truthy value that is not a
  colour object (every channel NaN). \<open>None\<close> is a falsy result
  (\<^verbatim>\<open>undefined\<close>, or the falsy argument handed back).
\<close>

datatype css = Rgba int int int jsval | NaNColor

fun colorWithOpacity :: "env \<Rightarrow> jsval \<Rightarrow> jsval \<Rightarrow> css option" where
  "colorWithOpacity env (JCol c) opacity =
     (if col_a c = 0 \<or> opacity = JNum 0 then None
      else
        let a = col_a c;
            opacity' = (if opacity = JUndef then JNum 1 else opacity)
        in Some (Rgba (math_round (col_r c * 255 / a)) (math_round (col_g c * 255 / a))
                      (math_round (col_b c * 255 / a)) (js_mul env (JNum a) opacity')))"
| "colorWithOpacity env color opacity =
     (if truthy color then (if opacity = JNum 0 then None else Some NaNColor) else None)"

section \<open>The renderer's style objects\<close>

text \<open>
  The OpenLayers objects the style function fills in. A field is \<open>None\<close> (or \<open>JUndef\<close>)
  as long as no setter has been called on it.
\<close>

type_synonym image = nat

record sprite_entry =
  sp_x :: real
  sp_y :: real
  sp_width :: real
  sp_height :: real
  sp_pixelRatio :: real

text \<open>The repeating pattern drawn from a sprite rectangle with a global alpha.\<close>

datatype pattern = Pattern image sprite_entry jsval

datatype fill_paint = FCss css | FPattern pattern

record fill_style =
  fill_color :: "fill_paint option"

record stroke_style =
  stroke_color :: "css option"
  stroke_width :: jsval
  lineCap :: jsval
  lineJoin :: jsval
  miterLimit :: jsval
  lineDash :: "jsval list option"

record text_style =
  t_text :: "jstring option"
  t_font :: "jstring option"
  t_rotation :: "real option"
  t_placement :: jsval
  t_textAlign :: "jstring option"
  t_maxAngle :: "real option"
  t_textBaseline :: "jstring option"
  t_offsetX :: "jsval option"
  t_offsetY :: "jsval option"
  t_fill :: "fill_style option"
  t_stroke :: "stroke_style option"

text \<open>The off-screen canvas an icon is cut out to: the sprite rectangle, tinted or not.\<close>

datatype canvas = Canvas image sprite_entry "css option"

record icon =
  i_img :: canvas
  i_anchorOrigin :: jsval
  i_anchor :: "jsval \<times> jsval"
  i_imgSize :: "real \<times> real"
  i_scale :: jsval
  i_rotation :: "real option"
  i_opacity :: jsval

record circle =
  c_radius :: jsval
  c_stroke :: "stroke_style option"
  c_fill :: fill_style

text \<open>
  A style's image is a reference to an object of the icon cache (shared by every style
  that looked the same key up) or a circle of its own.
\<close>

datatype image_ref = CachedImage jstring | OwnCircle circle

record style =
  s_fill :: "fill_style option"
  s_stroke :: "stroke_style option"
  s_image :: "image_ref option"
  s_text :: "text_style option"
  s_geometry :: "real list option"
  s_zIndex :: "int option"

definition new_Fill :: fill_style where
  "new_Fill = \<lparr>fill_color = None\<rparr>"

definition new_Stroke :: stroke_style where
  "new_Stroke = \<lparr>stroke_color = None, stroke_width = JUndef, lineCap = JUndef,
                  lineJoin = JUndef, miterLimit = JUndef, lineDash = None\<rparr>"

definition new_Text :: text_style where
  "new_Text = \<lparr>t_text = None, t_font = None, t_rotation = None, t_placement = JUndef,
                t_textAlign = None, t_maxAngle = None, t_textBaseline = None,
                t_offsetX = None, t_offsetY = None, t_fill = None, t_stroke = None\<rparr>"

definition new_Style :: style where
  "new_Style = \<lparr>s_fill = None, s_stroke = None, s_image = None, s_text = None,
                 s_geometry = None, s_zIndex = None\<rparr>"

section \<open>State\<close>

text \<open>
  The module-level caches (\<open>functionCache\<close>, \<open>filterCache\<close>, \<open>fontMap\<close>), the caches and
  the reused \<open>styles\<close> array of one constructed style function, the sprite image (set when
  its load completes), the counter \<open>stylesLength\<close> of the call in progress and the
  \<open>styleIds\<close> field of the feature being styled. A JavaScript array is a list whose holes
  are \<open>None\<close>.
\<close>

record st =
  functionCache :: "jstring \<rightharpoonup> (string \<rightharpoonup> evaluator)"
  filterCache :: "jstring \<rightharpoonup> evaluator"
  fontMap :: "jstring \<rightharpoonup> jsval"
  measureCache :: "jstring \<rightharpoonup> jstring"
  iconImageCache :: "jstring \<rightharpoonup> icon"
  patternCache :: "jstring \<rightharpoonup> pattern"
  styles :: "style option list"
  stylesLength :: int
  styleIds :: "(real \<rightharpoonup> jstring list) option"
  spriteImage :: "image option"

text \<open>
  A computation of the source: it ends in a value or in a thrown error, and leaves the
  state as changed up to that point.
\<close>

type_synonym 'a js = "st \<Rightarrow> (error + 'a) \<times> st"

definition ret :: "'a \<Rightarrow> 'a js" where
  "ret x = (\<lambda>s. (Inr x, s))"

definition throw :: "error \<Rightarrow> 'a js" where
  "throw e = (\<lambda>s. (Inl e, s))"

definition bnd :: "'a js \<Rightarrow> ('a \<Rightarrow> 'b js) \<Rightarrow> 'b js" where
  "bnd m k = (\<lambda>s. case m s of (Inl e, s') \<Rightarrow> (Inl e, s') | (Inr x, s') \<Rightarrow> k x s')"

definition modify :: "(st \<Rightarrow> st) \<Rightarrow> unit js" where
  "modify g = (\<lambda>s. (Inr (), g s))"

definition lift :: "error + 'a \<Rightarrow> 'a js" where
  "lift r = (\<lambda>s. (r, s))"

section \<open>getValue\<close>

definition expressionData :: "env \<Rightarrow> jsval \<Rightarrow> propspec \<Rightarrow> error + evaluator" where
  "expressionData env rawExpression propertySpec =
     (case createPropertyExpression env rawExpression propertySpec of
        Inl errs \<Rightarrow> Inl (Error (join (u '', '') (map (\<lambda>(k, m). k @ u '': '' @ m) errs)))
      | Inr compiledExpression \<Rightarrow> Inr compiledExpression)"

text \<open>
  The body of \<^verbatim>\<open>if (!functions[property])\<close>: from the raw value of the property to the
  function stored in the cache. A property the specification table does not list makes
  the property read on \<^verbatim>\<open>undefined\<close> throw.
\<close>

definition compile_property :: "env \<Rightarrow> layer \<Rightarrow> string \<Rightarrow> string \<Rightarrow> error + evaluator" where
  "compile_property env layer layoutOrPaint property =
     (let value0 =
            lookup (bag_or_empty (if layoutOrPaint = ''layout'' then layout layer
                                  else if layoutOrPaint = ''paint'' then paint layer
                                  else None)) property
      in case spec_lookup env (u layoutOrPaint @ u ''_'' @ layer_type layer) property of
           None \<Rightarrow> Inl TypeError
         | Some propertySpec \<Rightarrow>
             (let value1 = (if value0 = JUndef then ps_default propertySpec else value0);
                  isExpr = isExpression env value1
              in if \<not> isExpr \<and> isFunction env value1
                 then expressionData env (convertFunction env value1 propertySpec) propertySpec
                 else if isExpr then expressionData env value1 propertySpec
                 else Inr (let value2 = (if loose_eq_str env (ps_type propertySpec) (u ''color'')
                                         then color_parse env value1 else value1)
                           in (\<lambda>zoomObj feature. value2))))"

text \<open>
  The evaluator is called with the shared object \<^verbatim>\<open>zoomObj\<close> after its \<^verbatim>\<open>zoom\<close> field
  has been set; the model hands the zoom over.
\<close>

definition getValue :: "env \<Rightarrow> layer \<Rightarrow> string \<Rightarrow> string \<Rightarrow> real \<Rightarrow> farg \<Rightarrow> jsval js" where
  "getValue env layer layoutOrPaint property zoom feature s =
     (let layerId = layer_id layer;
          functions = (case functionCache s layerId of None \<Rightarrow> Map.empty | Some fs \<Rightarrow> fs);
          s1 = s\<lparr>functionCache := (functionCache s)(layerId \<mapsto> functions)\<rparr>
      in case functions property of
           Some fn \<Rightarrow> (Inr (fn zoom feature), s1)
         | None \<Rightarrow>
             (case compile_property env layer layoutOrPaint property of
                Inl e \<Rightarrow> (Inl e, s1)
              | Inr fn \<Rightarrow>
                  (Inr (fn zoom feature),
                   s1\<lparr>functionCache :=
                        (functionCache s1)(layerId \<mapsto> functions(property \<mapsto> fn))\<rparr>)))"

section \<open>Fonts, filters, templates\<close>

text \<open>The loop of \<^verbatim>\<open>chooseFont\<close> over the font stack: the first available font.\<close>

fun first_available :: "jsval list \<Rightarrow> jsval list \<Rightarrow> jsval option" where
  "first_available [] availableFonts = None"
| "first_available (font # fonts) availableFonts =
     (if font \<in> set availableFonts then Some font else first_available fonts availableFonts)"

definition js_elems :: "jsval \<Rightarrow> jsval list" where
  "js_elems v = (case v of JArr xs \<Rightarrow> xs | JStr s \<Rightarrow> map (\<lambda>c. JStr [c]) s | _ \<Rightarrow> [])"

definition last_elem :: "jsval \<Rightarrow> jsval" where
  "last_elem v = (if js_elems v = [] then JUndef else last (js_elems v))"

definition chooseFont :: "env \<Rightarrow> jsval \<Rightarrow> jsval list option \<Rightarrow> jsval js" where
  "chooseFont env fonts availableFonts s =
     (let key = to_string env fonts;
          cached = (case fontMap s key of None \<Rightarrow> JUndef | Some v \<Rightarrow> v)
      in if truthy cached then (Inr cached, s)
         else if fonts = JUndef \<or> fonts = JNull then (Inl TypeError, s)
         else
           (let chosen =
                  (case availableFonts of
                     Some avail \<Rightarrow>
                       (case first_available (js_elems fonts) avail of
                          Some font \<Rightarrow> if truthy font then font else last_elem fonts
                        | None \<Rightarrow> last_elem fonts)
                   | None \<Rightarrow> idx fonts 0)
            in (Inr chosen, s\<lparr>fontMap := (fontMap s)(key \<mapsto> chosen)\<rparr>)))"

definition evaluateFilter :: "env \<Rightarrow> jstring \<Rightarrow> jsval \<Rightarrow> farg \<Rightarrow> real \<Rightarrow> jsval js" where
  "evaluateFilter env layerId flt feature zoom s =
     (case filterCache s layerId of
        Some compiled \<Rightarrow> (Inr (compiled zoom feature), s)
      | None \<Rightarrow>
          (case createFilter env flt of
             Inl e \<Rightarrow> (Inl e, s)
           | Inr compiled \<Rightarrow>
               (Inr (compiled zoom feature),
                s\<lparr>filterCache := (filterCache s)(layerId \<mapsto> compiled)\<rparr>)))"

text \<open>
  The regular expression \<^verbatim>\<open>/^([^]*)\{(.*)\}([^]*)$/\<close>: the first group is greedy, so the
  last opening brace that has a closing brace on its line is taken; the second group is
  greedy too and stops at a line terminator, so the last closing brace before one is taken.
\<close>

definition line_terminator :: "nat \<Rightarrow> bool" where
  "line_terminator c = (c = 10 \<or> c = 13 \<or> c = 8232 \<or> c = 8233)"

definition match_rest :: "jstring \<Rightarrow> (jstring \<times> jstring) option" where
  "match_rest cs =
     (let run = takeWhile (\<lambda>c. \<not> line_terminator c) cs;
          closing = filter (\<lambda>j. run ! j = 125) [0..<length run]
      in if closing = [] then None
         else Some (take (last closing) cs, drop (Suc (last closing)) cs))"

fun template_match :: "jstring \<Rightarrow> (jstring \<times> jstring \<times> jstring) option" where
  "template_match [] = None"
| "template_match (c # cs) =
     (case template_match cs of
        Some (p, k, q) \<Rightarrow> Some (c # p, k, q)
      | None \<Rightarrow>
          if c = 123 then (case match_rest cs of Some (k, q) \<Rightarrow> Some ([], k, q) | None \<Rightarrow> None)
          else None)"

text \<open>
  \<^verbatim>\<open>fromTemplate\<close> substitutes until no placeholder is left; a property whose value
  holds a placeholder of its own name keeps the loop running for ever, which is \<open>None\<close>.
\<close>

partial_function (option) fromTemplate :: "env \<Rightarrow> props \<Rightarrow> jstring \<Rightarrow> jstring option" where
  "fromTemplate env properties txt =
     (case template_match txt of
        None \<Rightarrow> Some txt
      | Some (p, k, q) \<Rightarrow>
          (let found = (case properties k of None \<Rightarrow> JUndef | Some v \<Rightarrow> v);
               val = (if truthy found then to_string env found else [])
           in fromTemplate env properties (p @ val @ q)))"

definition fromTemplate_js :: "env \<Rightarrow> jsval \<Rightarrow> props \<Rightarrow> jstring js" where
  "fromTemplate_js env v properties =
     (case v of
        JStr txt \<Rightarrow>
          (case fromTemplate env properties txt of
             None \<Rightarrow> throw Diverges
           | Some r \<Rightarrow> ret r)
      | _ \<Rightarrow> throw TypeError)"

section \<open>Text wrapping\<close>

text \<open>
  The per-character packing of \<^verbatim>\<open>wrapChineseText\<close> (the \<^verbatim>\<open>forEach\<close> loop over
  the code units of the text).
\<close>

fun chinese_loop ::
  "env \<Rightarrow> (jstring \<Rightarrow> real) \<Rightarrow> jsval \<Rightarrow> jstring \<Rightarrow> jstring list \<Rightarrow> jstring \<Rightarrow> jstring list" where
  "chinese_loop env widthOf maxWidth [] res temp = res @ [temp]"
| "chinese_loop env widthOf maxWidth (singleText # rest) res temp =
     (if js_lt env maxWidth (widthOf (temp @ [singleText]))
      then chinese_loop env widthOf maxWidth rest (res @ [temp]) [singleText]
      else chinese_loop env widthOf maxWidth rest res (temp @ [singleText]))"

definition wrapChineseText :: "env \<Rightarrow> (jstring \<Rightarrow> real) \<Rightarrow> jstring \<Rightarrow> jsval \<Rightarrow> jstring list" where
  "wrapChineseText env widthOf txt maxWidth =
     (if js_lt env maxWidth (widthOf txt) then chinese_loop env widthOf maxWidth txt [] []
      else [txt])"

text \<open>The line-packing loop of \<^verbatim>\<open>wrapText\<close>, with its final push.\<close>

fun wrap_loop ::
  "env \<Rightarrow> (jstring \<Rightarrow> real) \<Rightarrow> jsval \<Rightarrow> jstring list \<Rightarrow> jstring \<Rightarrow> jstring list \<Rightarrow> jstring list" where
  "wrap_loop env widthOf width [] line lines = (if line \<noteq> [] then lines @ [line] else lines)"
| "wrap_loop env widthOf width (word # words) line lines =
     (if js_ge env width (widthOf (line @ word))
      then wrap_loop env widthOf width words
             (line @ (if line \<noteq> [] then [32] else []) @ word) lines
      else wrap_loop env widthOf width words word (if line \<noteq> [] then lines @ [line] else lines))"

text \<open>
  The range the source tests the code units of the text for: 4E00 to 9FA5. A text with
  a code unit in it is packed unit by unit, any other is split at its spaces.
\<close>

definition cjk :: "nat \<Rightarrow> bool" where
  "cjk c = (19968 \<le> c \<and> c \<le> 40869)"

definition wrap_words :: "env \<Rightarrow> jstring \<Rightarrow> jstring \<Rightarrow> jsval \<Rightarrow> jstring list" where
  "wrap_words env txt font em =
     (let oneEm = measureText env font (u ''M'');
          width = js_mul env (JNum oneEm) em
      in if \<exists>c \<in> set txt. cjk c then wrapChineseText env (measureText env font) txt width
         else split_on 32 txt)"

definition wrap_lines :: "env \<Rightarrow> jstring \<Rightarrow> jstring \<Rightarrow> jsval \<Rightarrow> jstring list" where
  "wrap_lines env txt font em =
     (let oneEm = measureText env font (u ''M'');
          width = js_mul env (JNum oneEm) em
      in wrap_loop env (measureText env font) width (wrap_words env txt font em) [] [])"

text \<open>
  \<^verbatim>\<open>wrapText\<close>: the cache is keyed by the concatenation
  \<^verbatim>\<open>em + ',' + font + ',' + text\<close>, and an empty cached string counts as a miss.
\<close>

definition wrap_key :: "env \<Rightarrow> jstring \<Rightarrow> jstring \<Rightarrow> jsval \<Rightarrow> jstring" where
  "wrap_key env txt font em = to_string env em @ u '','' @ font @ u '','' @ txt"

definition wrapText :: "env \<Rightarrow> jstring \<Rightarrow> jstring \<Rightarrow> jsval \<Rightarrow> jstring js" where
  "wrapText env txt font em s =
     (let key = wrap_key env txt font em;
          cached = (case measureCache s key of None \<Rightarrow> [] | Some w \<Rightarrow> w)
      in if cached \<noteq> [] then (Inr cached, s)
         else (let wrappedText = join [10] (wrap_lines env txt font em)
               in (Inr wrappedText, s\<lparr>measureCache := (measureCache s)(key \<mapsto> wrappedText)\<rparr>)))"

section \<open>The constructed style function\<close>

text \<open>
  What the closure of one style function holds and never changes: the resolutions, the
  sprite data and the layers grouped by source layer, each with its index in the document.
\<close>

record layerdata =
  ld_layer :: layer
  ld_index :: nat

record closure =
  resolutions :: "real list"
  spriteData :: "(jstring \<rightharpoonup> sprite_entry) option"
  layersBySourceLayer :: "jstring \<rightharpoonup> layerdata list"

subsection \<open>Slots of the reused array\<close>

definition styles_get :: "style option list \<Rightarrow> int \<Rightarrow> style option" where
  "styles_get xs k = (if 0 \<le> k \<and> nat k < length xs then xs ! nat k else None)"

definition styles_set :: "style option list \<Rightarrow> int \<Rightarrow> style \<Rightarrow> style option list" where
  "styles_set xs k v =
     (if k < 0 then xs
      else if nat k < length xs then xs[nat k := Some v]
      else xs @ replicate (nat k - length xs) None @ [Some v])"

text \<open>\<^verbatim>\<open>styles.length = n\<close>.\<close>

definition set_length :: "style option list \<Rightarrow> nat \<Rightarrow> style option list" where
  "set_length xs n = take n xs @ replicate (n - length xs) None"

text \<open>
  \<^verbatim>\<open>++stylesLength\<close> and the entry of the layer id in \<^verbatim>\<open>feature.styleIds[zoom]\<close>.
\<close>

definition advance :: "jstring \<Rightarrow> real \<Rightarrow> st \<Rightarrow> st" where
  "advance layerId zoom s =
     (let m = (case styleIds s of None \<Rightarrow> Map.empty | Some m \<Rightarrow> m);
          ids = (case m zoom of None \<Rightarrow> [] | Some l \<Rightarrow> l)
      in s\<lparr>stylesLength := stylesLength s + 1,
           styleIds := Some (m(zoom \<mapsto> (if layerId \<in> set ids then ids else ids @ [layerId])))\<rparr>)"

definition next_slot :: "jstring \<Rightarrow> real \<Rightarrow> unit js" where
  "next_slot layerId zoom = modify (advance layerId zoom)"

text \<open>The four tests that decide whether the style in the slot is reused.\<close>

definition fill_shape :: "style \<Rightarrow> bool" where
  "fill_shape y = (s_fill y \<noteq> None \<and> s_stroke y = None \<and> s_text y = None)"

definition stroke_shape :: "style \<Rightarrow> bool" where
  "stroke_shape y = (s_stroke y \<noteq> None \<and> s_fill y = None \<and> s_text y = None)"

definition image_shape :: "style \<Rightarrow> bool" where
  "image_shape y = (s_image y \<noteq> None \<and> s_fill y = None \<and> s_stroke y = None)"

definition text_shape :: "style \<Rightarrow> bool" where
  "text_shape y = (s_text y \<noteq> None \<and> s_fill y = None \<and> s_stroke y = None)"

definition slot_or_new :: "(style \<Rightarrow> bool) \<Rightarrow> style \<Rightarrow> st \<Rightarrow> style" where
  "slot_or_new shape fresh s =
     (case styles_get (styles s) (stylesLength s) of
        Some y \<Rightarrow> if shape y then y else fresh
      | None \<Rightarrow> fresh)"

definition put_style :: "style \<Rightarrow> st \<Rightarrow> st" where
  "put_style y s = s\<lparr>styles := styles_set (styles s) (stylesLength s) y\<rparr>"

text \<open>The variable \<^verbatim>\<open>style\<close> after an emission: the object in the current slot.\<close>

definition cur_style :: "st \<Rightarrow> style" where
  "cur_style s = (case styles_get (styles s) (stylesLength s) of Some y \<Rightarrow> y | None \<Rightarrow> new_Style)"

definition upd_style :: "(style \<Rightarrow> style) \<Rightarrow> unit js" where
  "upd_style g = modify (\<lambda>s. put_style (g (cur_style s)) s)"

definition upd_fill :: "(fill_style \<Rightarrow> fill_style) \<Rightarrow> unit js" where
  "upd_fill g =
     upd_style (\<lambda>y. y\<lparr>s_fill := Some (g (case s_fill y of Some f \<Rightarrow> f | None \<Rightarrow> new_Fill))\<rparr>)"

definition upd_stroke :: "(stroke_style \<Rightarrow> stroke_style) \<Rightarrow> unit js" where
  "upd_stroke g =
     upd_style (\<lambda>y. y\<lparr>s_stroke := Some (g (case s_stroke y of Some k \<Rightarrow> k | None \<Rightarrow> new_Stroke))\<rparr>)"

definition upd_text :: "(text_style \<Rightarrow> text_style) \<Rightarrow> unit js" where
  "upd_text g =
     upd_style (\<lambda>y. y\<lparr>s_text := Some (g (case s_text y of Some t \<Rightarrow> t | None \<Rightarrow> new_Text))\<rparr>)"

subsection \<open>Fill layers\<close>

definition icon_name :: "env \<Rightarrow> jsval \<Rightarrow> props \<Rightarrow> jstring js" where
  "icon_name env iconImage properties =
     (case iconImage of
        JStr t \<Rightarrow> fromTemplate_js env iconImage properties
      | _ \<Rightarrow> ret (tostr env iconImage))"

definition sprite_lookup :: "closure \<Rightarrow> jstring \<Rightarrow> sprite_entry option" where
  "sprite_lookup cl icon = (case spriteData cl of None \<Rightarrow> None | Some d \<Rightarrow> d icon)"

definition emit_pattern :: "env \<Rightarrow> jstring \<Rightarrow> nat \<Rightarrow> real \<Rightarrow> jstring \<Rightarrow> image \<Rightarrow> sprite_entry \<Rightarrow> jsval \<Rightarrow> unit js" where
  "emit_pattern env layerId index zoom icon img spriteImageData opacity =
     bnd (next_slot layerId zoom) (\<lambda>_.
     bnd (modify (\<lambda>s. put_style (slot_or_new fill_shape (new_Style\<lparr>s_fill := Some new_Fill\<rparr>) s) s)) (\<lambda>_.
     bnd (upd_style (\<lambda>y. y\<lparr>s_zIndex := Some (int index)\<rparr>)) (\<lambda>_.
     (\<lambda>s.
        let icon_cache_key = icon @ u ''.'' @ to_string env opacity
        in case patternCache s icon_cache_key of
             Some pattern \<Rightarrow> upd_fill (\<lambda>f. f\<lparr>fill_color := Some (FPattern pattern)\<rparr>) s
           | None \<Rightarrow>
               (let pattern = Pattern img spriteImageData opacity
                in upd_fill (\<lambda>f. f\<lparr>fill_color := Some (FPattern pattern)\<rparr>)
                     (s\<lparr>patternCache := (patternCache s)(icon_cache_key \<mapsto> pattern)\<rparr>))))))"

definition emit_fill :: "jstring \<Rightarrow> nat \<Rightarrow> real \<Rightarrow> css \<Rightarrow> unit js" where
  "emit_fill layerId index zoom color =
     bnd (next_slot layerId zoom) (\<lambda>_.
     bnd (modify (\<lambda>s. put_style (slot_or_new fill_shape (new_Style\<lparr>s_fill := Some new_Fill\<rparr>) s) s)) (\<lambda>_.
     bnd (upd_fill (\<lambda>f. f\<lparr>fill_color := Some (FCss color)\<rparr>)) (\<lambda>_.
     upd_style (\<lambda>y. y\<lparr>s_zIndex := Some (int index)\<rparr>))))"

definition emit_outline :: "jstring \<Rightarrow> nat \<Rightarrow> real \<Rightarrow> css \<Rightarrow> unit js" where
  "emit_outline layerId index zoom strokeColor =
     bnd (next_slot layerId zoom) (\<lambda>_.
     bnd (modify (\<lambda>s. put_style (slot_or_new stroke_shape (new_Style\<lparr>s_stroke := Some new_Stroke\<rparr>) s) s)) (\<lambda>_.
     bnd (upd_stroke (\<lambda>k. k\<lparr>stroke_color := Some strokeColor\<rparr>)) (\<lambda>_.
     bnd (upd_stroke (\<lambda>k. k\<lparr>stroke_width := JNum 1\<rparr>)) (\<lambda>_.
     upd_style (\<lambda>y. y\<lparr>s_zIndex := Some (int index)\<rparr>)))))"

text \<open>The branch \<^verbatim>\<open>if (type == 3 && layer.type == 'fill')\<close>.\<close>

definition fill_part :: "env \<Rightarrow> closure \<Rightarrow> layerdata \<Rightarrow> real \<Rightarrow> nat option \<Rightarrow> props \<Rightarrow> unit js" where
  "fill_part env cl layerData zoom type properties =
     (let layer = ld_layer layerData;
          layerId = layer_id layer;
          index = ld_index layerData;
          paint = bag_or_empty (paint layer);
          f = FView properties type
      in if type = Some 3 \<and> layer_type layer = u ''fill'' then
           bnd (getValue env layer ''paint'' ''fill-opacity'' zoom f) (\<lambda>opacity.
           if ''fill-pattern'' \<in> dom paint then
             bnd (getValue env layer ''paint'' ''fill-pattern'' zoom f) (\<lambda>iconImage.
             if truthy iconImage then
               bnd (icon_name env iconImage properties) (\<lambda>icon.
               (\<lambda>s. case (spriteImage s, sprite_lookup cl icon) of
                       (Some img, Some spriteImageData) \<Rightarrow>
                         emit_pattern env layerId index zoom icon img spriteImageData opacity s
                     | _ \<Rightarrow> (Inr (), s)))
             else ret ())
           else if ''fill-color'' \<in> dom paint then
             bnd (getValue env layer ''paint'' ''fill-color'' zoom f) (\<lambda>fillColor.
             let color = colorWithOpacity env fillColor opacity in
             bnd (case color of Some c \<Rightarrow> emit_fill layerId index zoom c | None \<Rightarrow> ret ()) (\<lambda>_.
             bnd (if ''fill-outline-color'' \<in> dom paint then
                    bnd (getValue env layer ''paint'' ''fill-outline-color'' zoom (FProps properties))
                        (\<lambda>outlineColor. ret (colorWithOpacity env outlineColor opacity))
                  else if ''fill-antialias'' \<in> dom paint then ret color
                  else ret None) (\<lambda>strokeColor.
             case strokeColor of
               Some c \<Rightarrow> emit_outline layerId index zoom c
             | None \<Rightarrow> ret ())))
           else ret ())
         else ret ())"

subsection \<open>Line layers\<close>

text \<open>\<^verbatim>\<open>getValue(...).map(function(x) { return x * width; })\<close>.\<close>

definition scale_dashes :: "env \<Rightarrow> jsval \<Rightarrow> jsval \<Rightarrow> jsval list js" where
  "scale_dashes env dashes width =
     (case dashes of
        JArr xs \<Rightarrow> ret (map (\<lambda>x. js_mul env x width) xs)
      | _ \<Rightarrow> throw TypeError)"

definition emit_line :: "env \<Rightarrow> layerdata \<Rightarrow> real \<Rightarrow> farg \<Rightarrow> css \<Rightarrow> jsval \<Rightarrow> unit js" where
  "emit_line env layerData zoom f color width =
     (let layer = ld_layer layerData;
          layerId = layer_id layer;
          index = ld_index layerData;
          paint = bag_or_empty (paint layer)
      in bnd (next_slot layerId zoom) (\<lambda>_.
         bnd (modify (\<lambda>s. put_style (slot_or_new stroke_shape (new_Style\<lparr>s_stroke := Some new_Stroke\<rparr>) s) s)) (\<lambda>_.
         bnd (getValue env layer ''layout'' ''line-cap'' zoom f) (\<lambda>cap.
         bnd (upd_stroke (\<lambda>k. k\<lparr>lineCap := cap\<rparr>)) (\<lambda>_.
         bnd (getValue env layer ''layout'' ''line-join'' zoom f) (\<lambda>joinv.
         bnd (upd_stroke (\<lambda>k. k\<lparr>lineJoin := joinv\<rparr>)) (\<lambda>_.
         bnd (getValue env layer ''layout'' ''line-miter-limit'' zoom f) (\<lambda>miter.
         bnd (upd_stroke (\<lambda>k. k\<lparr>miterLimit := miter\<rparr>)) (\<lambda>_.
         bnd (upd_stroke (\<lambda>k. k\<lparr>stroke_color := Some color\<rparr>)) (\<lambda>_.
         bnd (upd_stroke (\<lambda>k. k\<lparr>stroke_width := width\<rparr>)) (\<lambda>_.
         bnd (if truthy (lookup paint ''line-dasharray'') then
                bnd (getValue env layer ''paint'' ''line-dasharray'' zoom f) (\<lambda>dashes.
                bnd (scale_dashes env dashes width) (\<lambda>scaled. ret (Some scaled)))
              else ret None) (\<lambda>dash.
         bnd (upd_stroke (\<lambda>k. k\<lparr>lineDash := dash\<rparr>)) (\<lambda>_.
         upd_style (\<lambda>y. y\<lparr>s_zIndex := Some (int index)\<rparr>))))))))))))))"

text \<open>The branch \<^verbatim>\<open>if (type != 1 && layer.type == 'line')\<close>.\<close>

definition line_part :: "env \<Rightarrow> layerdata \<Rightarrow> real \<Rightarrow> nat option \<Rightarrow> props \<Rightarrow> unit js" where
  "line_part env layerData zoom type properties =
     (let layer = ld_layer layerData;
          paint = bag_or_empty (paint layer);
          f = FView properties type
      in if type \<noteq> Some 1 \<and> layer_type layer = u ''line'' then
           bnd (if ''line-pattern'' \<notin> dom paint \<and> ''line-color'' \<in> dom paint then
                  bnd (getValue env layer ''paint'' ''line-color'' zoom f) (\<lambda>lineColor.
                  bnd (getValue env layer ''paint'' ''line-opacity'' zoom f) (\<lambda>lineOpacity.
                  ret (colorWithOpacity env lineColor lineOpacity)))
                else ret None) (\<lambda>color.
           bnd (getValue env layer ''paint'' ''line-width'' zoom f) (\<lambda>width.
           case color of
             Some c \<Rightarrow> if js_gt env width 0 then emit_line env layerData zoom f c width else ret ()
           | None \<Rightarrow> ret ()))
         else ret ())"

subsection \<open>Icons\<close>

text \<open>
  For a line, the icon goes to the midpoint, and only when the larger side of the extent
  is more than 150 pixels at this resolution. With a resolution of 0 the quotients are
  infinite (or NaN when the side is 0, and then so is the maximum).
\<close>

definition extent_size_over_150 :: "real \<times> real \<times> real \<times> real \<Rightarrow> real \<Rightarrow> bool" where
  "extent_size_over_150 extent resolution =
     (case extent of (x0, y0, x1, y1) \<Rightarrow>
        if resolution = 0 then x1 - x0 \<noteq> 0 \<and> y1 - y0 \<noteq> 0
        else sqrt (max (((x1 - x0) / resolution)\<^sup>2) (((y1 - y0) / resolution)\<^sup>2)) > 150)"

definition icon_geometry :: "feature \<Rightarrow> real \<Rightarrow> nat option \<Rightarrow> real list option" where
  "icon_geometry feature resolution type =
     (if type = Some 2 then
        (case flatMidpoint (getGeometry feature) of
           Some midpoint \<Rightarrow>
             if extent_size_over_150 (geom_extent (getGeometry feature)) resolution
             then Some midpoint else None
         | None \<Rightarrow> None)
      else None)"

definition icon_key ::
  "env \<Rightarrow> jstring \<Rightarrow> jsval \<Rightarrow> jsval \<Rightarrow> jsval \<Rightarrow> jsval \<Rightarrow> jsval \<Rightarrow> real \<times> real \<Rightarrow> jsval \<Rightarrow> jstring" where
  "icon_key env icon iconSize iconTranslate iconTranslateAnchor anchorName iconOffset offs iconColor =
     (let icon_cache_key =
            icon @ u ''.'' @ to_string env iconSize @ u ''.'' @ to_string env iconTranslate @ u ''.'' @
            to_string env iconTranslateAnchor @ u ''.'' @ to_string env anchorName @ u ''.'' @
            to_string env iconOffset @ u ''.'' @
            to_string env (JArr [JNum (fst offs), JNum (snd offs)])
      in if iconColor \<noteq> JNull then icon_cache_key @ u ''.'' @ to_string env iconColor
         else icon_cache_key)"

text \<open>
  The body of \<^verbatim>\<open>if (!iconImg)\<close>. A colour that resolves to nothing makes the pixel
  loop read an index of \<^verbatim>\<open>undefined\<close> (sprite rectangles have a positive size), and
  so do the reads \<^verbatim>\<open>iconTranslate[0]\<close> and \<^verbatim>\<open>iconOffset[0]\<close> of a value that is
  \<^verbatim>\<open>undefined\<close> or \<^verbatim>\<open>null\<close>.
\<close>

definition make_icon ::
  "env \<Rightarrow> image \<Rightarrow> sprite_entry \<Rightarrow> jsval \<Rightarrow> jsval \<Rightarrow> jsval \<Rightarrow> jsval \<Rightarrow> real \<times> real \<Rightarrow> jsval \<Rightarrow> error + icon" where
  "make_icon env img spriteImageData iconSize iconTranslate anchorName iconOffset offs iconColor =
     (let tint = (if iconColor \<noteq> JNull then Some (colorWithOpacity env iconColor (JNum 1)) else None)
      in if tint = Some None \<or> nullish iconTranslate \<or> nullish iconOffset then Inl TypeError
         else
           (let translateOffset =
                  (js_div env (idx iconTranslate 0) (JNum (sp_width spriteImageData)),
                   js_div env (idx iconTranslate 1) (JNum (sp_height spriteImageData)))
            in Inr \<lparr>i_img = Canvas img spriteImageData (case tint of Some c \<Rightarrow> c | None \<Rightarrow> None),
                    i_anchorOrigin = anchorName,
                    i_anchor =
                      (js_add env (js_add env (idx iconOffset 0) (JNum (fst offs))) (fst translateOffset),
                       js_sub env (js_add env (idx iconOffset 1) (JNum (snd offs))) (snd translateOffset)),
                    i_imgSize = (sp_width spriteImageData, sp_height spriteImageData),
                    i_scale = js_div env iconSize (JNum (sp_pixelRatio spriteImageData)),
                    i_rotation = None,
                    i_opacity = JUndef\<rparr>))"

definition ensure_icon :: "jstring \<Rightarrow> error + icon \<Rightarrow> unit js" where
  "ensure_icon icon_cache_key made s =
     (case iconImageCache s icon_cache_key of
        Some iconImg \<Rightarrow> (Inr (), s)
      | None \<Rightarrow>
          (case made of
             Inl e \<Rightarrow> (Inl e, s)
           | Inr iconImg \<Rightarrow>
               (Inr (), s\<lparr>iconImageCache := (iconImageCache s)(icon_cache_key \<mapsto> iconImg)\<rparr>)))"

definition upd_icon :: "jstring \<Rightarrow> (icon \<Rightarrow> icon) \<Rightarrow> unit js" where
  "upd_icon icon_cache_key g =
     modify (\<lambda>s. case iconImageCache s icon_cache_key of
                    Some iconImg \<Rightarrow> s\<lparr>iconImageCache := (iconImageCache s)(icon_cache_key \<mapsto> g iconImg)\<rparr>
                  | None \<Rightarrow> s)"

text \<open>
  \<^verbatim>\<open>icon-rotate\<close>: a string that starts with a brace is a template, and the rotation is
  360 minus its substitution; the result is \<open>None\<close> when that is not a number.
\<close>

definition rotate_value :: "env \<Rightarrow> jsval \<Rightarrow> props \<Rightarrow> real option js" where
  "rotate_value env rotateValue properties =
     (case rotateValue of
        JUndef \<Rightarrow> throw TypeError
      | JNull \<Rightarrow> throw TypeError
      | JStr t \<Rightarrow>
          if starts_with t (u ''{'') then
            bnd (fromTemplate_js env rotateValue properties) (\<lambda>r.
            ret (map_option (\<lambda>x. 360 - x) (str_to_num env r)))
          else ret (str_to_num env t)
      | JArr xs \<Rightarrow>
          if xs \<noteq> [] \<and> hd xs = JStr (u ''{'') then throw TypeError
          else ret (to_number env rotateValue)
      | _ \<Rightarrow> ret (to_number env rotateValue))"

text \<open>
  The result of the image branches: \<^verbatim>\<open>hasImage\<close>, the text object taken off the
  style (\<^verbatim>\<open>text\<close>) and \<^verbatim>\<open>skipLabel\<close>.
\<close>

type_synonym image_vars = "bool \<times> text_style option \<times> bool"

definition emit_icon ::
  "env \<Rightarrow> layerdata \<Rightarrow> real \<Rightarrow> farg \<Rightarrow> props \<Rightarrow> jstring \<Rightarrow> image \<Rightarrow> sprite_entry \<Rightarrow> real list option \<Rightarrow> image_vars js" where
  "emit_icon env layerData zoom f properties icon img spriteImageData styleGeom =
     (let layer = ld_layer layerData;
          layerId = layer_id layer;
          index = ld_index layerData;
          paint = bag_or_empty (paint layer)
      in bnd (next_slot layerId zoom) (\<lambda>_.
         bnd (modify (\<lambda>s. put_style (slot_or_new image_shape new_Style s) s)) (\<lambda>_.
         bnd (upd_style (\<lambda>y. y\<lparr>s_geometry := styleGeom\<rparr>)) (\<lambda>_.
         bnd (getValue env layer ''layout'' ''icon-size'' zoom f) (\<lambda>iconSize.
         bnd (if lookup paint ''icon-color'' \<noteq> JUndef
              then getValue env layer ''paint'' ''icon-color'' zoom f else ret JNull) (\<lambda>iconColor.
         bnd (getValue env layer ''paint'' ''icon-translate'' zoom f) (\<lambda>iconTranslate.
         bnd (getValue env layer ''paint'' ''icon-translate-anchor'' zoom f) (\<lambda>iconTranslateAnchor.
         bnd (getValue env layer ''layout'' ''icon-anchor'' zoom f) (\<lambda>iconAnchorValue.
         bnd (getValue env layer ''layout'' ''icon-offset'' zoom f) (\<lambda>iconOffset.
         let converted = covertIconAnchor iconAnchorValue;
             icon_cache_key =
               icon_key env icon iconSize iconTranslate iconTranslateAnchor (iconAnchor converted)
                 iconOffset (anchorOffset converted) iconColor
         in
         bnd (ensure_icon icon_cache_key
                (make_icon env img spriteImageData iconSize iconTranslate (iconAnchor converted)
                   iconOffset (anchorOffset converted) iconColor)) (\<lambda>_.
         bnd (getValue env layer ''layout'' ''icon-rotate'' zoom f) (\<lambda>rotateValue.
         bnd (rotate_value env rotateValue properties) (\<lambda>rotation.
         bnd (upd_icon icon_cache_key (\<lambda>i. i\<lparr>i_rotation := map_option (deg2rad env) rotation\<rparr>)) (\<lambda>_.
         bnd (getValue env layer ''paint'' ''icon-opacity'' zoom f) (\<lambda>iconOpacity.
         bnd (upd_icon icon_cache_key (\<lambda>i. i\<lparr>i_opacity := iconOpacity\<rparr>)) (\<lambda>_.
         bnd (upd_style (\<lambda>y. y\<lparr>s_image := Some (CachedImage icon_cache_key)\<rparr>)) (\<lambda>_.
         (\<lambda>s. let txt = s_text (cur_style s)
               in bnd (upd_style (\<lambda>y. y\<lparr>s_text := None\<rparr>)) (\<lambda>_.
                  bnd (upd_style (\<lambda>y. y\<lparr>s_zIndex := Some (99999 - int index)\<rparr>)) (\<lambda>_.
                  ret (True, txt, False))) s))))))))))))))))))"

text \<open>The branch \<^verbatim>\<open>if ((type == 1 || type == 2) && 'icon-image' in layout)\<close>.\<close>

definition icon_part ::
  "env \<Rightarrow> closure \<Rightarrow> layerdata \<Rightarrow> feature \<Rightarrow> real \<Rightarrow> real \<Rightarrow> nat option \<Rightarrow> image_vars js" where
  "icon_part env cl layerData feature resolution zoom type =
     (let layer = ld_layer layerData;
          layout = bag_or_empty (layout layer);
          properties = getProperties feature;
          f = FView properties type
      in if (type = Some 1 \<or> type = Some 2) \<and> ''icon-image'' \<in> dom layout then
           bnd (getValue env layer ''layout'' ''icon-image'' zoom f) (\<lambda>iconImage.
           if truthy iconImage then
             bnd (icon_name env iconImage properties) (\<lambda>icon.
             (\<lambda>s. case (spriteImage s, sprite_lookup cl icon) of
                     (Some img, Some spriteImageData) \<Rightarrow>
                       (let styleGeom = icon_geometry feature resolution type
                        in if type \<noteq> Some 2 \<or> styleGeom \<noteq> None
                           then emit_icon env layerData zoom f properties icon img
                                  spriteImageData styleGeom s
                           else (Inr (False, None, True), s))
                   | _ \<Rightarrow> (Inr (False, None, False), s)))
           else ret (False, None, False))
         else ret (False, None, False))"

subsection \<open>Circles\<close>

definition circle_key :: "env \<Rightarrow> jsval \<Rightarrow> jsval \<Rightarrow> jsval \<Rightarrow> jsval \<Rightarrow> jsval \<Rightarrow> jsval \<Rightarrow> jstring" where
  "circle_key env circleRadius circleStrokeColor circleColor circleOpacity circleStrokeWidth
      circleStrokeOpacity =
     to_string env circleRadius @ u ''.'' @ to_string env circleStrokeColor @ u ''.'' @
     to_string env circleColor @ u ''.'' @ to_string env circleOpacity @ u ''.'' @
     to_string env circleStrokeWidth @ u ''.'' @ to_string env circleStrokeOpacity"

definition new_Circle :: "env \<Rightarrow> jsval \<Rightarrow> jsval \<Rightarrow> jsval \<Rightarrow> jsval \<Rightarrow> jsval \<Rightarrow> jsval \<Rightarrow> circle" where
  "new_Circle env circleRadius circleStrokeColor circleColor circleOpacity circleStrokeWidth
      circleStrokeOpacity =
     \<lparr>c_radius = circleRadius,
      c_stroke =
        (if circleStrokeWidth = JNum 0 then None
         else Some (new_Stroke\<lparr>stroke_width := circleStrokeWidth,
                      stroke_color := colorWithOpacity env circleStrokeColor circleStrokeOpacity\<rparr>)),
      c_fill = new_Fill\<lparr>fill_color := map_option FCss (colorWithOpacity env circleColor circleOpacity)\<rparr>\<rparr>"

text \<open>
  The branch \<^verbatim>\<open>if (type == 1 && 'circle-radius' in paint)\<close>. The cache is read under
  the circle's key; nothing is stored under it.
\<close>

definition circle_part :: "env \<Rightarrow> layerdata \<Rightarrow> real \<Rightarrow> nat option \<Rightarrow> props \<Rightarrow> image_vars \<Rightarrow> image_vars js" where
  "circle_part env layerData zoom type properties vars =
     (let layer = ld_layer layerData;
          layerId = layer_id layer;
          index = ld_index layerData;
          paint = bag_or_empty (paint layer);
          f = FView properties type
      in if type = Some 1 \<and> ''circle-radius'' \<in> dom paint then
           bnd (next_slot layerId zoom) (\<lambda>_.
           bnd (modify (\<lambda>s. put_style (slot_or_new image_shape new_Style s) s)) (\<lambda>_.
           bnd (getValue env layer ''paint'' ''circle-radius'' zoom f) (\<lambda>circleRadius.
           bnd (getValue env layer ''paint'' ''circle-stroke-color'' zoom f) (\<lambda>circleStrokeColor.
           bnd (getValue env layer ''paint'' ''circle-color'' zoom f) (\<lambda>circleColor.
           bnd (getValue env layer ''paint'' ''circle-opacity'' zoom f) (\<lambda>circleOpacity.
           bnd (getValue env layer ''paint'' ''circle-stroke-width'' zoom f) (\<lambda>circleStrokeWidth.
           bnd (getValue env layer ''paint'' ''circle-stroke-opacity'' zoom f) (\<lambda>circleStrokeOpacity.
           (\<lambda>s.
              let cache_key = circle_key env circleRadius circleStrokeColor circleColor
                                circleOpacity circleStrokeWidth circleStrokeOpacity;
                  iconImg =
                    (case iconImageCache s cache_key of
                       Some cached \<Rightarrow> CachedImage cache_key
                     | None \<Rightarrow>
                         OwnCircle (new_Circle env circleRadius circleStrokeColor circleColor
                                      circleOpacity circleStrokeWidth circleStrokeOpacity));
                  txt = s_text (cur_style s)
              in bnd (upd_style (\<lambda>y. y\<lparr>s_image := Some iconImg\<rparr>)) (\<lambda>_.
                 bnd (upd_style (\<lambda>y. y\<lparr>s_text := None\<rparr>)) (\<lambda>_.
                 bnd (upd_style (\<lambda>y. y\<lparr>s_geometry := None\<rparr>)) (\<lambda>_.
                 bnd (upd_style (\<lambda>y. y\<lparr>s_zIndex := Some (99999 - int index)\<rparr>)) (\<lambda>_.
                 ret (True, txt, snd (snd vars)))))) s)))))))))
         else ret vars)"

subsection \<open>Labels\<close>

text \<open>
  \<^verbatim>\<open>textAnchor.indexOf(t) !== -1\<close> and \<^verbatim>\<open>textAnchor.indexOf(t) == 0\<close>: the substring
  search of a string, the element search of an array. Any other value has no
  \<^verbatim>\<open>indexOf\<close>, and the call throws.
\<close>

definition has_indexOf :: "jsval \<Rightarrow> bool" where
  "has_indexOf v = (case v of JStr a \<Rightarrow> True | JArr xs \<Rightarrow> True | _ \<Rightarrow> False)"

definition anchor_has :: "jsval \<Rightarrow> jstring \<Rightarrow> bool" where
  "anchor_has textAnchor t =
     (case textAnchor of JStr a \<Rightarrow> contains a t | JArr xs \<Rightarrow> JStr t \<in> set xs | _ \<Rightarrow> False)"

definition anchor_starts :: "jsval \<Rightarrow> jstring \<Rightarrow> bool" where
  "anchor_starts textAnchor t =
     (case textAnchor of
        JStr a \<Rightarrow> starts_with a t
      | JArr xs \<Rightarrow> xs \<noteq> [] \<and> hd xs = JStr t
      | _ \<Rightarrow> False)"

text \<open>
  \<^verbatim>\<open>deg2rad(angle) * label.length / wrappedLabel.length\<close>; with an angle that is not
  a number, or an empty wrapped label, the result is not a finite number.
\<close>

definition max_angle :: "env \<Rightarrow> jsval \<Rightarrow> jstring \<Rightarrow> jstring \<Rightarrow> real option" where
  "max_angle env angle label wrappedLabel =
     (case to_number env angle of
        None \<Rightarrow> None
      | Some a \<Rightarrow>
          if length wrappedLabel = 0 then None
          else Some (deg2rad env a * real (length label) / real (length wrappedLabel)))"

text \<open>The statements from \<^verbatim>\<open>text = style.getText()\<close> to the end of the label block.\<close>

definition label_text ::
  "env \<Rightarrow> layerdata \<Rightarrow> real \<Rightarrow> nat option \<Rightarrow> farg \<Rightarrow> bool \<Rightarrow> jstring \<Rightarrow> unit js" where
  "label_text env layerData zoom type f hasImage label0 =
     (let layer = ld_layer layerData;
          index = ld_index layerData;
          layout = bag_or_empty (layout layer)
      in bnd (getValue env layer ''layout'' ''text-size'' zoom f) (\<lambda>textSize.
         bnd (getValue env layer ''layout'' ''text-line-height'' zoom f) (\<lambda>textLineHeight.
         bnd (getValue env layer ''layout'' ''text-font'' zoom f) (\<lambda>fonts.
         bnd (chooseFont env fonts None) (\<lambda>chosen.
         let font = mb2css env chosen textSize;
             textTransform = lookup layout ''text-transform'';
             label = (if loose_eq_str env textTransform (u ''uppercase'') then to_upper env label0
                      else if loose_eq_str env textTransform (u ''lowercase'') then to_lower env label0
                      else label0)
         in
         bnd (if type = Some 2 then ret label
              else bnd (getValue env layer ''layout'' ''text-max-width'' zoom f) (\<lambda>em.
                   wrapText env label font em)) (\<lambda>wrappedLabel.
         bnd (upd_text (\<lambda>t. t\<lparr>t_text := Some wrappedLabel\<rparr>)) (\<lambda>_.
         bnd (upd_text (\<lambda>t. t\<lparr>t_font := Some font\<rparr>)) (\<lambda>_.
         bnd (getValue env layer ''layout'' ''text-rotate'' zoom f) (\<lambda>textRotate.
         bnd (upd_text (\<lambda>t. t\<lparr>t_rotation := map_option (deg2rad env) (to_number env textRotate)\<rparr>)) (\<lambda>_.
         bnd (getValue env layer ''layout'' ''text-anchor'' zoom f) (\<lambda>textAnchor.
         bnd (if hasImage \<or> type = Some 1 then ret (JStr (u ''point''))
              else getValue env layer ''layout'' ''symbol-placement'' zoom f) (\<lambda>placement.
         bnd (upd_text (\<lambda>t. t\<lparr>t_placement := placement\<rparr>)) (\<lambda>_.
         bnd (getValue env layer ''paint'' ''text-halo-width'' zoom f) (\<lambda>textHaloWidth.
         bnd (getValue env layer ''layout'' ''text-offset'' zoom f) (\<lambda>textOffset.
         bnd (getValue env layer ''paint'' ''text-translate'' zoom f) (\<lambda>textTranslate.
         bnd (if has_indexOf textAnchor then ret () else throw TypeError) (\<lambda>_.
         let (textAlign, hOffset) =
               (if anchor_has textAnchor (u ''left'') then (u ''left'', textHaloWidth)
                else if anchor_has textAnchor (u ''right'') then (u ''right'', js_neg env textHaloWidth)
                else (u ''center'', JNum 0))
         in
         bnd (if loose_eq_str env placement (u ''point'')
              then upd_text (\<lambda>t. t\<lparr>t_textAlign := Some textAlign\<rparr>)
              else bnd (getValue env layer ''layout'' ''text-max-angle'' zoom f) (\<lambda>angle.
                   bnd (upd_text (\<lambda>t. t\<lparr>t_maxAngle := max_angle env angle label wrappedLabel\<rparr>)) (\<lambda>_.
                   upd_text (\<lambda>t. t\<lparr>t_textAlign := None\<rparr>)))) (\<lambda>_.
         let (textBaseline, vOffset) =
               (if anchor_starts textAnchor (u ''bottom'')
                then (u ''bottom'',
                      js_sub env (js_neg env textHaloWidth)
                        (js_mul env (js_mul env (JNum (1 / 2)) (js_sub env textLineHeight (JNum 1)))
                           textSize))
                else if anchor_starts textAnchor (u ''top'')
                then (u ''top'',
                      js_add env textHaloWidth
                        (js_mul env (js_mul env (JNum (1 / 2)) (js_sub env textLineHeight (JNum 1)))
                           textSize))
                else (u ''middle'', JNum 0))
         in
         bnd (upd_text (\<lambda>t. t\<lparr>t_textBaseline := Some textBaseline\<rparr>)) (\<lambda>_.
         bnd (if nullish textOffset \<or> nullish textTranslate then throw TypeError else ret ()) (\<lambda>_.
         bnd (upd_text (\<lambda>t. t\<lparr>t_offsetX :=
                Some (js_add env (js_add env (js_mul env (idx textOffset 0) textSize) hOffset)
                        (idx textTranslate 0))\<rparr>)) (\<lambda>_.
         bnd (upd_text (\<lambda>t. t\<lparr>t_offsetY :=
                Some (js_add env (js_add env (js_mul env (idx textOffset 1) textSize) vOffset)
                        (idx textTranslate 1))\<rparr>)) (\<lambda>_.
         bnd (getValue env layer ''paint'' ''text-opacity'' zoom f) (\<lambda>opacity.
         bnd (getValue env layer ''paint'' ''text-color'' zoom f) (\<lambda>textColor.
         bnd (upd_text (\<lambda>t. t\<lparr>t_fill := Some (new_Fill\<lparr>fill_color :=
                Some (FCss (case colorWithOpacity env textColor opacity of
                              Some c \<Rightarrow> c | None \<Rightarrow> Rgba 0 0 0 (JNum 0)))\<rparr>)\<rparr>)) (\<lambda>_.
         bnd (getValue env layer ''paint'' ''text-halo-color'' zoom f) (\<lambda>textHaloColor.
         bnd (case colorWithOpacity env textHaloColor opacity of
                Some haloColor \<Rightarrow>
                  bnd (getValue env layer ''paint'' ''text-halo-width'' zoom f) (\<lambda>haloWidth.
                  upd_text (\<lambda>t. t\<lparr>t_stroke :=
                    Some (new_Stroke\<lparr>stroke_color := Some haloColor, stroke_width := haloWidth\<rparr>)\<rparr>))
              | None \<Rightarrow> upd_text (\<lambda>t. t\<lparr>t_stroke := None\<rparr>)) (\<lambda>_.
         upd_style (\<lambda>y. y\<lparr>s_zIndex := Some (99999 - int index)\<rparr>))))))))))))))))))))))))))))"

text \<open>The label of the layer and the block \<^verbatim>\<open>if (label && !skipLabel)\<close>.\<close>

definition label_part ::
  "env \<Rightarrow> layerdata \<Rightarrow> real \<Rightarrow> nat option \<Rightarrow> props \<Rightarrow> image_vars \<Rightarrow> unit js" where
  "label_part env layerData zoom type properties vars =
     (let layer = ld_layer layerData;
          layerId = layer_id layer;
          layout = bag_or_empty (layout layer);
          f = FView properties type;
          hasImage = fst vars;
          txt = fst (snd vars);
          skipLabel = snd (snd vars)
      in bnd (if ''text-field'' \<in> dom layout then
                bnd (getValue env layer ''layout'' ''text-field'' zoom f) (\<lambda>textField.
                fromTemplate_js env textField properties)
              else ret []) (\<lambda>label.
         if label \<noteq> [] \<and> \<not> skipLabel then
           bnd (if \<not> hasImage then
                  bnd (next_slot layerId zoom) (\<lambda>_.
                  bnd (modify (\<lambda>s. put_style (slot_or_new text_shape new_Style s) s)) (\<lambda>_.
                  bnd (upd_style (\<lambda>y. y\<lparr>s_image := None\<rparr>)) (\<lambda>_.
                  upd_style (\<lambda>y. y\<lparr>s_geometry := None\<rparr>))))
                else ret ()) (\<lambda>_.
           bnd (modify (\<lambda>s. if s_text (cur_style s) = None
                             then put_style ((cur_style s)\<lparr>s_text :=
                                    Some (case txt of Some t \<Rightarrow> t | None \<Rightarrow> new_Text)\<rparr>) s
                             else s)) (\<lambda>_.
           label_text env layerData zoom type f hasImage label))
         else ret ()))"

subsection \<open>One layer\<close>

text \<open>The test that ends the iteration with \<^verbatim>\<open>continue\<close>.\<close>

definition skip_layer :: "layer \<Rightarrow> real \<Rightarrow> bool" where
  "skip_layer layer zoom =
     (lookup (bag_or_empty (layout layer)) ''visibility'' = JStr (u ''none'') \<or>
      (case minzoom layer of None \<Rightarrow> False | Some m \<Rightarrow> zoom < m) \<or>
      (case maxzoom layer of None \<Rightarrow> False | Some m \<Rightarrow> zoom \<ge> m))"

text \<open>The statements guarded by the filter.\<close>

definition layer_emit ::
  "env \<Rightarrow> closure \<Rightarrow> layerdata \<Rightarrow> feature \<Rightarrow> real \<Rightarrow> real \<Rightarrow> nat option \<Rightarrow> unit js" where
  "layer_emit env cl layerData feature resolution zoom type =
     (let properties = getProperties feature
      in bnd (fill_part env cl layerData zoom type properties) (\<lambda>_.
         bnd (line_part env layerData zoom type properties) (\<lambda>_.
         bnd (icon_part env cl layerData feature resolution zoom type) (\<lambda>vars.
         bnd (circle_part env layerData zoom type properties vars) (\<lambda>vars'.
         label_part env layerData zoom type properties vars')))))"

text \<open>The body of the loop after the zoom and visibility test.\<close>

definition layer_body ::
  "env \<Rightarrow> closure \<Rightarrow> layerdata \<Rightarrow> feature \<Rightarrow> real \<Rightarrow> real \<Rightarrow> nat option \<Rightarrow> unit js" where
  "layer_body env cl layerData feature resolution zoom type =
     (let layer = ld_layer layerData;
          f = FView (getProperties feature) type
      in bnd (modify (\<lambda>s.
                let m = (case styleIds s of None \<Rightarrow> Map.empty | Some m \<Rightarrow> m)
                in s\<lparr>styleIds := Some (m(zoom \<mapsto> (case m zoom of None \<Rightarrow> [] | Some l \<Rightarrow> l)))\<rparr>)) (\<lambda>_.
         bnd (if \<not> truthy (layer_filter layer) then ret True
              else bnd (evaluateFilter env (layer_id layer) (layer_filter layer) f zoom)
                       (\<lambda>r. ret (truthy r))) (\<lambda>pass.
         if pass then layer_emit env cl layerData feature resolution zoom type else ret ())))"

definition layer_step ::
  "env \<Rightarrow> closure \<Rightarrow> layerdata \<Rightarrow> feature \<Rightarrow> real \<Rightarrow> real \<Rightarrow> nat option \<Rightarrow> unit js" where
  "layer_step env cl layerData feature resolution zoom type =
     (if skip_layer (ld_layer layerData) zoom then ret ()
      else layer_body env cl layerData feature resolution zoom type)"

fun run_layers ::
  "env \<Rightarrow> closure \<Rightarrow> layerdata list \<Rightarrow> feature \<Rightarrow> real \<Rightarrow> real \<Rightarrow> nat option \<Rightarrow> unit js" where
  "run_layers env cl [] feature resolution zoom type = ret ()"
| "run_layers env cl (layerData # rest) feature resolution zoom type =
     bnd (layer_step env cl layerData feature resolution zoom type)
         (\<lambda>_. run_layers env cl rest feature resolution zoom type)"

subsection \<open>styleFunction\<close>

text \<open>\<^verbatim>\<open>resolutions.indexOf(resolution)\<close>, \<open>None\<close> for -1.\<close>

fun index_of :: "real list \<Rightarrow> real \<Rightarrow> nat option" where
  "index_of [] x = None"
| "index_of (y # ys) x = (if y = x then Some 0 else map_option Suc (index_of ys x))"

definition resolve_zoom :: "env \<Rightarrow> closure \<Rightarrow> real \<Rightarrow> real" where
  "resolve_zoom env cl resolution =
     (case index_of (resolutions cl) resolution of
        Some i \<Rightarrow> real i
      | None \<Rightarrow> real_of_int (math_round (getZoomForResolution env resolution (resolutions cl))))"

text \<open>
  The per-feature function. Its result is the reused array itself, or \<open>None\<close> when it
  returns nothing.
\<close>

definition styleFunction :: "env \<Rightarrow> closure \<Rightarrow> feature \<Rightarrow> real \<Rightarrow> style option list option js" where
  "styleFunction env cl feature resolution =
     (let properties = getProperties feature
      in bnd (modify (\<lambda>s. s\<lparr>styleIds := Some (case styleIds s of None \<Rightarrow> Map.empty | Some m \<Rightarrow> m)\<rparr>)) (\<lambda>_.
         case layersBySourceLayer cl
                (to_string env (case properties (u ''layer'') of None \<Rightarrow> JUndef | Some v \<Rightarrow> v)) of
           None \<Rightarrow> ret None
         | Some layers \<Rightarrow>
             (let zoom = resolve_zoom env cl resolution;
                  type = types (geom_type (getGeometry feature))
              in bnd (modify (\<lambda>s. s\<lparr>stylesLength := - 1\<rparr>)) (\<lambda>_.
                 bnd (run_layers env cl layers feature resolution zoom type) (\<lambda>_.
                 (\<lambda>s. if stylesLength s > - 1
                       then (let s' = s\<lparr>styles := set_length (styles s) (nat (stylesLength s + 1))\<rparr>
                             in (Inr (Some (styles s')), s'))
                       else (Inr None, s)))))))"

section \<open>Construction\<close>

datatype source_sel = SourceName jstring | LayerIds "jstring list"

text \<open>
  \<^verbatim>\<open>typeof source == 'string' && layer.source == source || source.indexOf(layerId) !== -1\<close>:
  with a source name, the second test is the substring search of strings.
\<close>

definition selects :: "env \<Rightarrow> source_sel \<Rightarrow> layer \<Rightarrow> bool" where
  "selects env source layer =
     (case source of
        SourceName name \<Rightarrow>
          loose_eq_str env (layer_source layer) name \<or> contains name (layer_id layer)
      | LayerIds ids \<Rightarrow> layer_id layer \<in> set ids)"

record group_acc =
  acc_groups :: "jstring \<rightharpoonup> layerdata list"
  acc_layers :: "jstring list"
  acc_source :: jsval

text \<open>The loop over all layers: grouping, and the deletion of the cached functions.\<close>

fun group_layers ::
  "env \<Rightarrow> source_sel \<Rightarrow> layer list \<Rightarrow> nat \<Rightarrow> group_acc \<Rightarrow> st \<Rightarrow> group_acc \<times> st" where
  "group_layers env source [] i acc s = (acc, s)"
| "group_layers env source (layer # rest) i acc s =
     (let layerId = layer_id layer;
          acc' =
            (if selects env source layer then
               (let sourceLayer = to_string env (source_layer layer);
                    layers = (case acc_groups acc sourceLayer of None \<Rightarrow> [] | Some l \<Rightarrow> l)
                in acc\<lparr>acc_groups := (acc_groups acc)(sourceLayer \<mapsto>
                                          layers @ [\<lparr>ld_layer = layer, ld_index = i\<rparr>]),
                        acc_layers := acc_layers acc @ [layerId],
                        acc_source := (if \<not> truthy (acc_source acc) then layer_source layer
                                       else acc_source acc)\<rparr>)
             else acc);
          s' = s\<lparr>functionCache := (functionCache s)(layerId := None),
                 filterCache := (filterCache s)(layerId := None)\<rparr>
      in group_layers env source rest (Suc i) acc' s')"

text \<open>The default resolutions: 21 levels, each half of the one before.\<close>

fun default_resolutions :: "nat \<Rightarrow> real \<Rightarrow> real list" where
  "default_resolutions 0 res = []"
| "default_resolutions (Suc n) res = res # default_resolutions n (res / 2)"

text \<open>
  The target layer: whether \<^verbatim>\<open>setStyle\<close> has been called with a style function (and
  which), and the properties set on it.
\<close>

record ol_layer =
  ol_style :: "closure option"
  ol_props :: "string \<rightharpoonup> jsval"

text \<open>
  The exported constructor. It returns the closure of the style function; the result
  state holds the fresh caches of that closure. \<open>spriteImage0\<close> is the image handed in
  (the asynchronous load of \<^verbatim>\<open>spriteImageUrl\<close> sets \<open>spriteImage\<close> later, see
  \<open>sprite_loaded\<close>).
\<close>

definition stylefunction ::
  "env \<Rightarrow> ol_layer \<Rightarrow> jstring + style_doc \<Rightarrow> source_sel \<Rightarrow> real list option \<Rightarrow>
   (jstring \<rightharpoonup> sprite_entry) option \<Rightarrow> image option \<Rightarrow> st \<Rightarrow>
   (error + closure) \<times> ol_layer \<times> st" where
  "stylefunction env olLayer glStyle source resolutions0 spriteData0 spriteImage0 s =
     (let resolutions1 =
            (case resolutions0 of
               None \<Rightarrow> default_resolutions 21 (7827151696402048 / 100000000000)
             | Some rs \<Rightarrow> rs);
          parsed =
            (case glStyle of
               Inl str \<Rightarrow> json_parse env str
             | Inr doc \<Rightarrow> Inr (Some doc))
      in case parsed of
           Inl e \<Rightarrow> (Inl e, olLayer, s)
         | Inr None \<Rightarrow> (Inl TypeError, olLayer, s)
         | Inr (Some doc) \<Rightarrow>
             if \<not> loose_eq_num env (version doc) 8
             then (Inl (Error (u ''glStyle version 8 required.'')), olLayer, s)
             else
               (let allLayers = derefLayers env (doc_layers doc);
                    (acc, s1) =
                      group_layers env source allLayers 0
                        \<lparr>acc_groups = Map.empty, acc_layers = [], acc_source = JUndef\<rparr> s;
                    cl = \<lparr>resolutions = resolutions1, spriteData = spriteData0,
                          layersBySourceLayer = acc_groups acc\<rparr>;
                    s2 = s1\<lparr>measureCache := Map.empty, iconImageCache := Map.empty,
                            patternCache := Map.empty, styles := [], spriteImage := spriteImage0\<rparr>;
                    olLayer' =
                      olLayer\<lparr>ol_style := Some cl,
                              ol_props := (ol_props olLayer)
                                (''mapbox-source'' \<mapsto> acc_source acc,
                                 ''mapbox-layers'' \<mapsto> JArr (map JStr (acc_layers acc)))\<rparr>
                in (Inr cl, olLayer', s2)))"

text \<open>The \<^verbatim>\<open>onload\<close> handler of the sprite image.\<close>

definition sprite_loaded :: "image \<Rightarrow> st \<Rightarrow> st" where
  "sprite_loaded img s = s\<lparr>spriteImage := Some img\<rparr>"

section \<open>Auxiliary notions\<close>

text \<open>
  What \<open>getValue\<close> computes from the function cache alone: the value it returns and the
  cache it leaves.
\<close>

type_synonym fcache = "jstring \<rightharpoonup> (string \<rightharpoonup> evaluator)"

definition gv_res :: "env \<Rightarrow> layer \<Rightarrow> string \<Rightarrow> string \<Rightarrow> real \<Rightarrow> farg \<Rightarrow> fcache \<Rightarrow> error + jsval" where
  "gv_res env layer layoutOrPaint property zoom feature fc =
     (let functions = (case fc (layer_id layer) of None \<Rightarrow> Map.empty | Some fs \<Rightarrow> fs)
      in case functions property of
           Some fn \<Rightarrow> Inr (fn zoom feature)
         | None \<Rightarrow>
             (case compile_property env layer layoutOrPaint property of
                Inl e \<Rightarrow> Inl e
              | Inr fn \<Rightarrow> Inr (fn zoom feature)))"

definition gv_upd :: "env \<Rightarrow> layer \<Rightarrow> string \<Rightarrow> string \<Rightarrow> fcache \<Rightarrow> fcache" where
  "gv_upd env layer layoutOrPaint property fc =
     (let functions = (case fc (layer_id layer) of None \<Rightarrow> Map.empty | Some fs \<Rightarrow> fs)
      in fc(layer_id layer \<mapsto>
           (case functions property of
              Some fn \<Rightarrow> functions
            | None \<Rightarrow>
                (case compile_property env layer layoutOrPaint property of
                   Inl e \<Rightarrow> functions
                 | Inr fn \<Rightarrow> functions(property \<mapsto> fn)))))"

text \<open>A computation leaves a component of the state as it was, however it ends.\<close>

definition keeps :: "(st \<Rightarrow> 'b) \<Rightarrow> 'a js \<Rightarrow> bool" where
  "keeps X m \<longleftrightarrow> (\<forall>s r s'. m s = (r, s') \<longrightarrow> X s' = X s)"

section \<open>A concrete setting\<close>

text \<open>
  An environment, a state and a few layers and features on which the statements below
  are exercised. \<open>tostr_ex\<close> is the engine's string conversion on the values that occur
  here (strings, small non-negative integers, flat arrays of them), and \<open>str_to_num_ex\<close>
  its conversion of a string to a number on the empty string and on decimal numerals
  without sign or exponent (any other string is taken for one that does not convert);
  every raw value is a constant, and the specification table gives the defaults of the
  properties used.
\<close>

fun dec :: "nat \<Rightarrow> nat \<Rightarrow> jstring" where
  "dec 0 n = []"
| "dec (Suc fuel) n = (if n < 10 then [48 + n] else dec fuel (n div 10) @ [48 + n mod 10])"

definition prim_str :: "jsval \<Rightarrow> jstring" where
  "prim_str v =
     (case v of
        JStr s \<Rightarrow> s
      | JNum x \<Rightarrow> (if 0 \<le> x \<and> real_of_int \<lfloor>x\<rfloor> = x then dec 20 (nat \<lfloor>x\<rfloor>) else u ''NaN'')
      | JBool b \<Rightarrow> (if b then u ''true'' else u ''false'')
      | JNull \<Rightarrow> u ''null''
      | JNaN \<Rightarrow> u ''NaN''
      | JUndef \<Rightarrow> u ''undefined''
      | JCol c \<Rightarrow> u ''rgba''
      | _ \<Rightarrow> u ''[object Object]'')"

fun digits_value :: "jstring \<Rightarrow> nat \<Rightarrow> nat option" where
  "digits_value [] acc = Some acc"
| "digits_value (c # cs) acc =
     (if 48 \<le> c \<and> c \<le> 57 then digits_value cs (10 * acc + (c - 48)) else None)"

definition str_to_num_ex :: "jstring \<Rightarrow> real option" where
  "str_to_num_ex s =
     (let whole = takeWhile (\<lambda>c. c \<noteq> 46) s;
          rest = dropWhile (\<lambda>c. c \<noteq> 46) s
      in if s = [] then Some 0
         else if rest = [] then map_option real (digits_value whole 0)
         else if whole = [] \<and> tl rest = [] then None
         else (case (digits_value whole 0, digits_value (tl rest) 0) of
                 (Some a, Some b) \<Rightarrow> Some (real a + real b / 10 ^ length (tl rest))
               | _ \<Rightarrow> None))"

definition tostr_ex :: "jsval \<Rightarrow> jstring" where
  "tostr_ex v = (case v of JArr xs \<Rightarrow> join (u '','') (map prim_str xs) | _ \<Rightarrow> prim_str v)"

definition default_ex :: "string \<Rightarrow> jsval" where
  "default_ex p =
     (if p = ''text-max-width'' then JNum 10
      else if p = ''text-size'' then JNum 16
      else if p = ''text-font'' then JArr [JStr (u ''Open Sans Regular'')]
      else if p = ''text-anchor'' then JStr (u ''center'')
      else if p = ''symbol-placement'' then JStr (u ''point'')
      else if p = ''text-offset'' \<or> p = ''text-translate'' then JArr [JNum 0, JNum 0]
      else if p = ''text-color'' \<or> p = ''circle-color'' \<or> p = ''circle-stroke-color''
        then JStr (u ''black'')
      else if p = ''text-halo-color'' then JStr (u ''transparent'')
      else if p = ''text-halo-width'' \<or> p = ''circle-stroke-width'' \<or> p = ''text-rotate''
        then JNum 0
      else if p = ''line-cap'' then JStr (u ''butt'')
      else if p = ''line-join'' then JStr (u ''miter'')
      else if p = ''line-miter-limit'' then JNum 2
      else if p = ''circle-radius'' then JNum 5
      else JNum 1)"

definition color_prop :: "string \<Rightarrow> bool" where
  "color_prop p =
     (p \<in> set [''fill-color'', ''fill-outline-color'', ''line-color'', ''circle-color'',
               ''circle-stroke-color'', ''text-color'', ''text-halo-color'', ''icon-color''])"

definition color_parse_ex :: "jsval \<Rightarrow> jsval" where
  "color_parse_ex v =
     (if v = JStr (u ''red'') then JCol (Color 1 0 0 1)
      else if v = JStr (u ''black'') then JCol (Color 0 0 0 1)
      else if v = JStr (u ''transparent'') then JCol (Color 0 0 0 0)
      else JUndef)"

definition env_ex :: env where
  "env_ex =
     \<lparr>tostr = tostr_ex,
      str_to_num = str_to_num_ex,
      to_upper = (\<lambda>s. map (\<lambda>c. if 97 \<le> c \<and> c \<le> 122 then c - 32 else c) s),
      to_lower = (\<lambda>s. map (\<lambda>c. if 65 \<le> c \<and> c \<le> 90 then c + 32 else c) s),
      measureText = (\<lambda>font s. 10 * real (length s)),
      mb2css = (\<lambda>chosen size. u ''normal 400 '' @ tostr_ex size @ u ''px '' @ tostr_ex chosen),
      deg2rad = (\<lambda>x. x * pi / 180),
      getZoomForResolution = (\<lambda>resolution rs. 0),
      spec_lookup = (\<lambda>group p. Some \<lparr>ps_default = default_ex p,
                                        ps_type = JStr (if color_prop p then u ''color'' else u ''number'')\<rparr>),
      isExpression = (\<lambda>v. False),
      isFunction = (\<lambda>v. False),
      convertFunction = (\<lambda>v ps. v),
      createPropertyExpression = (\<lambda>v ps. Inl []),
      color_parse = color_parse_ex,
      createFilter = (\<lambda>v. Inr (\<lambda>zoom f. JBool True)),
      derefLayers = (\<lambda>ls. ls),
      json_parse = (\<lambda>str. Inl SyntaxError)\<rparr>"

definition s_init :: st where
  "s_init =
     \<lparr>functionCache = Map.empty, filterCache = Map.empty, fontMap = Map.empty,
      measureCache = Map.empty, iconImageCache = Map.empty, patternCache = Map.empty,
      styles = [], stylesLength = - 1, styleIds = None, spriteImage = None\<rparr>"

definition layer_ex :: "string \<Rightarrow> string \<Rightarrow> bag option \<Rightarrow> bag option \<Rightarrow> layer" where
  "layer_ex name kind lay pnt =
     \<lparr>layer_id = u name, layer_type = u kind, layer_source = JStr (u ''src''),
      source_layer = JUndef, minzoom = Some 5, maxzoom = Some 10,
      layout = lay, paint = pnt, layer_filter = JUndef\<rparr>"

definition feature_ex :: "string \<Rightarrow> feature" where
  "feature_ex kind =
     \<lparr>getProperties = Map.empty,
      getGeometry = \<lparr>geom_type = u kind, geom_extent = (0, 0, 1, 1), flatMidpoint = None\<rparr>\<rparr>"

definition closure_ex :: "layer list \<Rightarrow> closure" where
  "closure_ex ls =
     \<lparr>resolutions = [1024, 512, 256, 128, 64, 32, 16, 8, 4, 2, 1],
      spriteData = None,
      layersBySourceLayer =
        [u ''undefined'' \<mapsto> map (\<lambda>(l, i). \<lparr>ld_layer = l, ld_index = i\<rparr>) (zip ls [0..<length ls])]\<rparr>"

definition fill_red :: layerdata where
  "fill_red =
     \<lparr>ld_layer = layer_ex ''land'' ''fill'' None (Some [''fill-color'' \<mapsto> JStr (u ''red'')]),
      ld_index = 0\<rparr>"

definition fill_red_antialias :: layerdata where
  "fill_red_antialias =
     \<lparr>ld_layer = layer_ex ''land'' ''fill'' None
                   (Some [''fill-color'' \<mapsto> JStr (u ''red''), ''fill-antialias'' \<mapsto> JBool True]),
      ld_index = 0\<rparr>"

definition fill_clear :: layerdata where
  "fill_clear =
     \<lparr>ld_layer = layer_ex ''land'' ''fill'' None (Some [''fill-color'' \<mapsto> JStr (u ''transparent'')]),
      ld_index = 0\<rparr>"

definition line_dashed :: layerdata where
  "line_dashed =
     \<lparr>ld_layer = layer_ex ''road'' ''line'' None
                   (Some [''line-color'' \<mapsto> JStr (u ''red''), ''line-width'' \<mapsto> JNum 3,
                          ''line-dasharray'' \<mapsto> JArr [JNum 2, JNum 1]]),
      ld_index = 1\<rparr>"

definition line_zero :: layerdata where
  "line_zero =
     \<lparr>ld_layer = layer_ex ''road'' ''line'' None
                   (Some [''line-color'' \<mapsto> JStr (u ''red''), ''line-width'' \<mapsto> JNum 0]),
      ld_index = 1\<rparr>"

definition line_patterned :: layerdata where
  "line_patterned =
     \<lparr>ld_layer = layer_ex ''road'' ''line'' None
                   (Some [''line-color'' \<mapsto> JStr (u ''red''), ''line-width'' \<mapsto> JNum 3,
                          ''line-pattern'' \<mapsto> JStr (u ''stripes'')]),
      ld_index = 1\<rparr>"

definition circle_plain :: layerdata where
  "circle_plain =
     \<lparr>ld_layer = layer_ex ''dots'' ''circle'' None (Some [''circle-radius'' \<mapsto> JNum 5]),
      ld_index = 2\<rparr>"

definition circle_ringed :: layerdata where
  "circle_ringed =
     \<lparr>ld_layer = layer_ex ''dots'' ''circle'' None
                   (Some [''circle-radius'' \<mapsto> JNum 5, ''circle-stroke-width'' \<mapsto> JNum 2]),
      ld_index = 2\<rparr>"

definition line_text_width :: layerdata where
  "line_text_width =
     \<lparr>ld_layer = layer_ex ''road'' ''line'' None
                   (Some [''line-color'' \<mapsto> JStr (u ''red''), ''line-width'' \<mapsto> JStr (u ''3''),
                          ''line-dasharray'' \<mapsto> JArr [JNum 2, JStr (u ''1''), JStr (u ''x'')]]),
      ld_index = 1\<rparr>"

definition circle_clear :: layerdata where
  "circle_clear =
     \<lparr>ld_layer = layer_ex ''dots'' ''circle'' None
                   (Some [''circle-radius'' \<mapsto> JNum 5, ''circle-color'' \<mapsto> JStr (u ''transparent'')]),
      ld_index = 2\<rparr>"

text \<open>A state whose icon cache holds an icon, under the key of an icon layer.\<close>

definition icon_ex :: icon where
  "icon_ex =
     \<lparr>i_img = Canvas 0 \<lparr>sp_x = 0, sp_y = 0, sp_width = 16, sp_height = 16, sp_pixelRatio = 1\<rparr> None,
      i_anchorOrigin = JStr (u ''top-left''), i_anchor = (JNum (1 / 2), JNum (1 / 2)),
      i_imgSize = (16, 16), i_scale = JNum 1, i_rotation = None, i_opacity = JNum 1\<rparr>"

definition s_marker :: st where
  "s_marker = s_init\<lparr>iconImageCache := [u ''marker.1.0,0.map.top-left.0,0.0,0'' \<mapsto> icon_ex]\<rparr>"

definition text_a :: layerdata where
  "text_a =
     \<lparr>ld_layer = layer_ex ''a'' ''symbol''
                   (Some [''text-field'' \<mapsto> JStr (u '' ''), ''text-font'' \<mapsto> JArr [JStr (u ''A,B'')]])
                   None,
      ld_index = 0\<rparr>"

definition text_b :: layerdata where
  "text_b =
     \<lparr>ld_layer = layer_ex ''b'' ''symbol''
                   (Some [''text-field'' \<mapsto> JStr (u ''B, ''), ''text-font'' \<mapsto> JArr [JStr (u ''A'')]])
                   None,
      ld_index = 1\<rparr>"

text \<open>The texts of the labels in the array a call returns.\<close>

definition label_of :: "style option \<Rightarrow> jstring option" where
  "label_of y =
     (case y of
        None \<Rightarrow> None
      | Some y' \<Rightarrow> (case s_text y' of None \<Rightarrow> None | Some t \<Rightarrow> t_text t))"

definition labels :: "(error + style option list option) \<times> st \<Rightarrow> jstring option list" where
  "labels r = (case fst r of Inr (Some arr) \<Rightarrow> map label_of arr | _ \<Rightarrow> [])"

section \<open>Basic facts\<close>

lemma inj_of_char_nat: "inj (of_char :: char \<Rightarrow> nat)"
  by (rule injI) simp

lemma u_eq_iff [simp]: "u s = u t \<longleftrightarrow> s = t"
  by (simp add: u_def inj_map_eq_map [OF inj_of_char_nat])

lemma ret_Pair [simp]: "ret x = Pair (Inr x)"
  by (simp add: ret_def)

lemma throw_Pair [simp]: "throw e = Pair (Inl e)"
  by (simp add: throw_def)

lemma bnd_Inr [simp]: "bnd (Pair (Inr x)) k = k x"
  by (simp add: bnd_def)

lemma bnd_Inl [simp]: "bnd (Pair (Inl e)) k = Pair (Inl e)"
  by (simp add: bnd_def)

lemma modify_apply [simp]: "modify g s = (Inr (), g s)"
  by (simp add: modify_def)

lemma bnd_apply_Inr: "m s = (Inr x, s') \<Longrightarrow> bnd m k s = k x s'"
  by (simp add: bnd_def)

lemma bnd_apply_Inl: "m s = (Inl e, s') \<Longrightarrow> bnd m k s = (Inl e, s')"
  by (simp add: bnd_def)

lemma bnd_modify [simp]: "bnd (modify g) k s = k () (g s)"
  by (simp add: bnd_def)

lemma stylefunction_failure_no_effect:
  "fst (stylefunction env olLayer glStyle source resolutions0 spriteData0 spriteImage0 s) = Inl e \<Longrightarrow>
   snd (stylefunction env olLayer glStyle source resolutions0 spriteData0 spriteImage0 s) = (olLayer, s)"
  by (auto simp: stylefunction_def Let_def split: sum.splits option.splits prod.splits if_splits)

lemma to_number_simps [simp]:
  "to_number env (JNum x) = Some x" "to_number env JNaN = None" "to_number env JUndef = None"
  "to_number env JNull = Some 0" "to_number env (JStr t) = str_to_num env t"
  by (simp_all add: to_number_def)

lemma js_compare_num [simp]:
  "js_gt env (JNum y) x \<longleftrightarrow> x < y" "js_lt env (JNum y) x \<longleftrightarrow> y < x"
  "js_ge env (JNum y) x \<longleftrightarrow> x \<le> y"
  "\<not> js_gt env JNaN x" "\<not> js_lt env JNaN x" "\<not> js_ge env JNaN x"
  by (simp_all add: js_gt_def js_lt_def js_ge_def)

lemma js_mul_num [simp]: "js_mul env (JNum x) (JNum y) = JNum (x * y)"
  by (simp add: js_mul_def)

lemma js_mul_to_number:
  "to_number env a = Some x \<Longrightarrow> to_number env b = Some y \<Longrightarrow> js_mul env a b = JNum (x * y)"
  by (simp add: js_mul_def)

lemma js_mul_nan:
  "to_number env a = None \<or> to_number env b = None \<Longrightarrow> js_mul env a b = JNaN"
  by (auto simp: js_mul_def split: option.splits)

lemma loose_eq_num_simps:
  "loose_eq_num env (JNum x) n \<longleftrightarrow> x = n"
  "\<not> loose_eq_num env JUndef n"
  "\<not> loose_eq_num env JNull n"
  "loose_eq_num env (JBool b) n \<longleftrightarrow> (if b then 1 else 0) = n"
  by (simp_all add: loose_eq_num_def to_number_def)

lemma run_layers_append:
  "run_layers env cl (xs @ ys) feature resolution zoom type =
     bnd (run_layers env cl xs feature resolution zoom type)
         (\<lambda>_. run_layers env cl ys feature resolution zoom type)"
  by (induction xs) (auto simp: bnd_def fun_eq_iff split: prod.splits sum.splits)

lemma run_layers_skip:
  "skip_layer (ld_layer layerData) zoom \<Longrightarrow>
   run_layers env cl (xs @ layerData # ys) feature resolution zoom type =
   run_layers env cl (xs @ ys) feature resolution zoom type"
  by (simp add: run_layers_append layer_step_def)

lemma getValue_alt:
  "getValue env layer b p zoom f s =
     (gv_res env layer b p zoom f (functionCache s),
      s\<lparr>functionCache := gv_upd env layer b p (functionCache s)\<rparr>)"
  by (auto simp: getValue_def gv_res_def gv_upd_def Let_def split: option.splits sum.splits)

lemma gv_res_upd [simp]:
  "(p' = p \<longrightarrow> b' = b) \<Longrightarrow>
   gv_res env layer b' p' zoom' f' (gv_upd env layer b p fc) = gv_res env layer b' p' zoom' f' fc"
  by (auto simp: gv_res_def gv_upd_def Let_def split: option.splits sum.splits)

lemma styles_get_set [simp]: "0 \<le> k \<Longrightarrow> styles_get (styles_set xs k v) k = Some v"
  by (auto simp: styles_get_def styles_set_def nth_append)

lemma styles_set_set [simp]: "styles_set (styles_set xs k v) k w = styles_set xs k w"
  by (auto simp: styles_set_def nth_append list_update_append)

lemma cur_style_put [simp]: "0 \<le> stylesLength s \<Longrightarrow> cur_style (put_style y s) = y"
  by (simp add: cur_style_def put_style_def)

lemma put_style_put [simp]: "put_style y (put_style y' s) = put_style y s"
  by (simp add: put_style_def)

lemma put_style_fields [simp]:
  "functionCache (put_style y s) = functionCache s"
  "filterCache (put_style y s) = filterCache s"
  "fontMap (put_style y s) = fontMap s"
  "measureCache (put_style y s) = measureCache s"
  "iconImageCache (put_style y s) = iconImageCache s"
  "patternCache (put_style y s) = patternCache s"
  "stylesLength (put_style y s) = stylesLength s"
  "styleIds (put_style y s) = styleIds s"
  "spriteImage (put_style y s) = spriteImage s"
  by (simp_all add: put_style_def)

lemma upd_style_apply [simp]: "upd_style g s = (Inr (), put_style (g (cur_style s)) s)"
  by (simp add: upd_style_def)

lemma bnd_upd_style [simp]: "bnd (upd_style g) k s = k () (put_style (g (cur_style s)) s)"
  by (simp add: bnd_def)

lemma styles_get_set_other [simp]:
  "k \<noteq> j \<Longrightarrow> styles_get (styles_set xs j v) k = styles_get xs k"
  by (auto simp: styles_get_def styles_set_def nth_append nth_Cons split: nat.splits)

lemma slot_or_new_fill_shape [simp]:
  "fill_shape (slot_or_new fill_shape (new_Style\<lparr>s_fill := Some new_Fill\<rparr>) s)"
  by (simp add: slot_or_new_def fill_shape_def new_Style_def split: option.splits)

lemma slot_or_new_stroke_shape [simp]:
  "stroke_shape (slot_or_new stroke_shape (new_Style\<lparr>s_stroke := Some new_Stroke\<rparr>) s)"
  by (simp add: slot_or_new_def stroke_shape_def new_Style_def split: option.splits)

lemma slot_fill_fields [simp]:
  "s_stroke (slot_or_new fill_shape (new_Style\<lparr>s_fill := Some new_Fill\<rparr>) s) = None"
  "s_text (slot_or_new fill_shape (new_Style\<lparr>s_fill := Some new_Fill\<rparr>) s) = None"
  using slot_or_new_fill_shape [of s] by (simp_all add: fill_shape_def)

lemma slot_stroke_fields [simp]:
  "s_fill (slot_or_new stroke_shape (new_Style\<lparr>s_stroke := Some new_Stroke\<rparr>) s) = None"
  "s_text (slot_or_new stroke_shape (new_Style\<lparr>s_stroke := Some new_Stroke\<rparr>) s) = None"
  using slot_or_new_stroke_shape [of s] by (simp_all add: stroke_shape_def)

lemma advance_fields [simp]:
  "functionCache (advance layerId zoom s) = functionCache s"
  "filterCache (advance layerId zoom s) = filterCache s"
  "fontMap (advance layerId zoom s) = fontMap s"
  "measureCache (advance layerId zoom s) = measureCache s"
  "iconImageCache (advance layerId zoom s) = iconImageCache s"
  "patternCache (advance layerId zoom s) = patternCache s"
  "stylesLength (advance layerId zoom s) = stylesLength s + 1"
  "styles (advance layerId zoom s) = styles s"
  "spriteImage (advance layerId zoom s) = spriteImage s"
  by (simp_all add: advance_def Let_def)

lemma next_slot_apply [simp]: "bnd (next_slot layerId zoom) k s = k () (advance layerId zoom s)"
  by (simp add: next_slot_def)

lemma upd_fill_apply [simp]:
  "bnd (upd_fill g) k s =
     k () (put_style ((cur_style s)\<lparr>s_fill := Some (g (case s_fill (cur_style s) of Some f \<Rightarrow> f | None \<Rightarrow> new_Fill))\<rparr>) s)"
  by (simp add: upd_fill_def)

lemma upd_stroke_apply [simp]:
  "bnd (upd_stroke g) k s =
     k () (put_style ((cur_style s)\<lparr>s_stroke := Some (g (case s_stroke (cur_style s) of Some f \<Rightarrow> f | None \<Rightarrow> new_Stroke))\<rparr>) s)"
  by (simp add: upd_stroke_def)

lemma fill_style_upd [simp]: "(f :: fill_style)\<lparr>fill_color := x\<rparr> = \<lparr>fill_color = x\<rparr>"
  by (cases f) simp

lemma emit_fill_eq:
  "- 1 \<le> stylesLength s \<Longrightarrow>
   emit_fill layerId index zoom c s =
     (Inr (), put_style ((slot_or_new fill_shape (new_Style\<lparr>s_fill := Some new_Fill\<rparr>) (advance layerId zoom s))
                \<lparr>s_fill := Some \<lparr>fill_color = Some (FCss c)\<rparr>, s_zIndex := Some (int index)\<rparr>)
              (advance layerId zoom s))"
  by (simp add: emit_fill_def)

lemma emit_outline_eq:
  "- 1 \<le> stylesLength s \<Longrightarrow>
   emit_outline layerId index zoom c s =
     (Inr (), put_style ((slot_or_new stroke_shape (new_Style\<lparr>s_stroke := Some new_Stroke\<rparr>) (advance layerId zoom s))
                \<lparr>s_stroke := Some ((case s_stroke (slot_or_new stroke_shape (new_Style\<lparr>s_stroke := Some new_Stroke\<rparr>) (advance layerId zoom s)) of Some k \<Rightarrow> k | None \<Rightarrow> new_Stroke)
                              \<lparr>stroke_color := Some c, stroke_width := JNum 1\<rparr>),
                  s_zIndex := Some (int index)\<rparr>)
              (advance layerId zoom s))"
  by (simp add: emit_outline_def)

lemma bnd_emit_fill:
  "- 1 \<le> stylesLength s \<Longrightarrow>
   bnd (emit_fill layerId index zoom c) k s =
     k () (put_style ((slot_or_new fill_shape (new_Style\<lparr>s_fill := Some new_Fill\<rparr>) (advance layerId zoom s))
                \<lparr>s_fill := Some \<lparr>fill_color = Some (FCss c)\<rparr>, s_zIndex := Some (int index)\<rparr>)
              (advance layerId zoom s))"
  by (simp add: bnd_def emit_fill_eq)

lemma bnd_getValue:
  "gv_res env layer b p zoom f (functionCache s) = Inr v \<Longrightarrow>
   bnd (getValue env layer b p zoom f) k s =
     k v (s\<lparr>functionCache := gv_upd env layer b p (functionCache s)\<rparr>)"
  by (simp add: bnd_def getValue_alt)

lemma fst_getValue: "fst (getValue env layer b p zoom f s) = gv_res env layer b p zoom f (functionCache s)"
  by (simp add: getValue_alt)

lemma put_style_fc [simp]:
  "put_style y (s\<lparr>functionCache := fc\<rparr>) = (put_style y s)\<lparr>functionCache := fc\<rparr>"
  by (simp add: put_style_def)

lemma advance_fc [simp]:
  "advance layerId zoom (s\<lparr>functionCache := fc\<rparr>) = (advance layerId zoom s)\<lparr>functionCache := fc\<rparr>"
  by (simp add: advance_def Let_def)

lemma slot_or_new_fc [simp]:
  "slot_or_new shape fresh (s\<lparr>functionCache := fc\<rparr>) = slot_or_new shape fresh s"
  by (simp add: slot_or_new_def)

lemma line_part_other [simp]:
  "layer_type (ld_layer layerData) = u ''fill'' \<Longrightarrow>
   line_part env layerData zoom type properties = ret ()"
  by (simp add: line_part_def Let_def)

lemma icon_part_polygon [simp]:
  "icon_part env cl layerData feature resolution zoom (Some 3) = ret (False, None, False)"
  by (simp add: icon_part_def Let_def)

lemma circle_part_polygon [simp]:
  "circle_part env layerData zoom (Some 3) properties vars = ret vars"
  by (simp add: circle_part_def Let_def)

lemma label_part_none [simp]:
  "''text-field'' \<notin> dom (bag_or_empty (layout (ld_layer layerData))) \<Longrightarrow>
   label_part env layerData zoom type properties vars = ret ()"
  by (simp add: label_part_def Let_def fun_eq_iff)

lemma layer_emit_fill_layer:
  "layer_type (ld_layer layerData) = u ''fill'' \<Longrightarrow>
   ''text-field'' \<notin> dom (bag_or_empty (layout (ld_layer layerData))) \<Longrightarrow>
   layer_emit env cl layerData feature resolution zoom (Some 3) =
   fill_part env cl layerData zoom (Some 3) (getProperties feature)"
  by (simp add: layer_emit_def Let_def bnd_def fun_eq_iff split: prod.splits sum.splits)

lemma emit_fill_post:
  assumes "- 1 \<le> stylesLength s"
  shows "\<exists>s1 y. emit_fill layerId index zoom c s = (Inr (), s1) \<and>
           stylesLength s1 = stylesLength s + 1 \<and>
           styles_get (styles s1) (stylesLength s + 1) = Some y \<and>
           s_fill y = Some \<lparr>fill_color = Some (FCss c)\<rparr> \<and> s_stroke y = None \<and>
           (\<forall>k. k \<noteq> stylesLength s + 1 \<longrightarrow> styles_get (styles s1) k = styles_get (styles s) k)"
  using assms by (simp add: emit_fill_eq put_style_def)

lemma emit_outline_post:
  assumes "- 1 \<le> stylesLength s"
  shows "\<exists>s1 y k. emit_outline layerId index zoom c s = (Inr (), s1) \<and>
           stylesLength s1 = stylesLength s + 1 \<and>
           styles_get (styles s1) (stylesLength s + 1) = Some y \<and>
           s_stroke y = Some k \<and> stroke_color k = Some c \<and> stroke_width k = JNum 1 \<and>
           s_fill y = None \<and>
           (\<forall>k. k \<noteq> stylesLength s + 1 \<longrightarrow> styles_get (styles s1) k = styles_get (styles s) k)"
  using assms by (simp add: emit_outline_eq put_style_def)

lemma fill_part_color_eq:
  assumes "layer_type (ld_layer layerData) = u ''fill''"
    and "''fill-color'' \<in> dom (bag_or_empty (paint (ld_layer layerData)))"
    and "''fill-pattern'' \<notin> dom (bag_or_empty (paint (ld_layer layerData)))"
    and "''fill-outline-color'' \<notin> dom (bag_or_empty (paint (ld_layer layerData)))"
    and "fst (getValue env (ld_layer layerData) ''paint'' ''fill-opacity'' zoom
               (FView properties (Some 3)) s) = Inr opacity"
    and "fst (getValue env (ld_layer layerData) ''paint'' ''fill-color'' zoom
               (FView properties (Some 3)) s) = Inr fillColor"
    and "colorWithOpacity env fillColor opacity = Some c"
  shows "fill_part env cl layerData zoom (Some 3) properties s =
           bnd (emit_fill (layer_id (ld_layer layerData)) (ld_index layerData) zoom c)
               (\<lambda>_. if ''fill-antialias'' \<in> dom (bag_or_empty (paint (ld_layer layerData)))
                     then emit_outline (layer_id (ld_layer layerData)) (ld_index layerData) zoom c
                     else ret ())
             (s\<lparr>functionCache :=
                  gv_upd env (ld_layer layerData) ''paint'' ''fill-color''
                    (gv_upd env (ld_layer layerData) ''paint'' ''fill-opacity'' (functionCache s))\<rparr>)"
  using assms
  by (simp add: fill_part_def Let_def fst_getValue bnd_getValue)

lemma getValue_ex_const:
  "functionCache s (u name) = None \<Longrightarrow>
   fst (getValue env_ex (layer_ex name kind lay pnt) b p zoom f s) =
     Inr (let v0 = lookup (bag_or_empty (if b = ''layout'' then lay else if b = ''paint'' then pnt else None)) p;
              v1 = (if v0 = JUndef then default_ex p else v0)
          in if color_prop p then color_parse_ex v1 else v1)"
  by (simp add: getValue_def compile_property_def env_ex_def layer_ex_def Let_def loose_eq_str_def)

lemma s_init_simps [simp]:
  "functionCache s_init = Map.empty" "stylesLength s_init = - 1" "styles s_init = []"
  "iconImageCache s_init = Map.empty" "measureCache s_init = Map.empty"
  by (simp_all add: s_init_def)

lemma layer_ex_simps [simp]:
  "layer_id (layer_ex name kind lay pnt) = u name"
  "layer_type (layer_ex name kind lay pnt) = u kind"
  "layout (layer_ex name kind lay pnt) = lay"
  "paint (layer_ex name kind lay pnt) = pnt"
  "minzoom (layer_ex name kind lay pnt) = Some 5"
  "maxzoom (layer_ex name kind lay pnt) = Some 10"
  "layer_filter (layer_ex name kind lay pnt) = JUndef"
  by (simp_all add: layer_ex_def)

lemma pair_collapse: "m = (fst m, snd m)"
  by simp

lemma fill_part_clear:
  assumes "layer_type (ld_layer layerData) = u ''fill''"
    and "''fill-color'' \<in> dom (bag_or_empty (paint (ld_layer layerData)))"
    and "''fill-pattern'' \<notin> dom (bag_or_empty (paint (ld_layer layerData)))"
    and "''fill-outline-color'' \<notin> dom (bag_or_empty (paint (ld_layer layerData)))"
    and "fst (getValue env (ld_layer layerData) ''paint'' ''fill-opacity'' zoom
               (FView properties (Some 3)) s) = Inr opacity"
    and "fst (getValue env (ld_layer layerData) ''paint'' ''fill-color'' zoom
               (FView properties (Some 3)) s) = Inr fillColor"
    and "colorWithOpacity env fillColor opacity = None"
  shows "fill_part env cl layerData zoom (Some 3) properties s =
           (Inr (), s\<lparr>functionCache :=
                  gv_upd env (ld_layer layerData) ''paint'' ''fill-color''
                    (gv_upd env (ld_layer layerData) ''paint'' ''fill-opacity'' (functionCache s))\<rparr>)"
  using assms
  by (simp add: fill_part_def Let_def fst_getValue bnd_getValue)

lemma bnd_assoc [simp]: "bnd (bnd m f) g = bnd m (\<lambda>x. bnd (f x) g)"
  by (auto simp: bnd_def fun_eq_iff split: prod.splits sum.splits)

lemma cur_style_fc [simp]: "cur_style (s\<lparr>functionCache := fc\<rparr>) = cur_style s"
  by (simp add: cur_style_def)

lemma fill_part_other_type:
  "layer_type (ld_layer layerData) \<noteq> u ''fill'' \<Longrightarrow>
   fill_part env cl layerData zoom type properties = ret ()"
  by (simp add: fill_part_def Let_def)

lemma line_part_no_pattern_frame:
  assumes "''line-pattern'' \<in> dom (bag_or_empty (paint (ld_layer layerData)))"
    and "line_part env layerData zoom type properties s = (r, s')"
  shows "stylesLength s' = stylesLength s \<and> styles s' = styles s"
  using assms
  by (auto simp: line_part_def Let_def getValue_alt bnd_def split: if_splits sum.splits)

lemma line_part_width_frame:
  assumes "fst (getValue env (ld_layer layerData) ''paint'' ''line-width'' zoom (FView properties type) s) = Inr w"
    and "\<not> js_gt env w 0"
    and "line_part env layerData zoom type properties s = (r, s')"
  shows "stylesLength s' = stylesLength s \<and> styles s' = styles s"
  using assms
  by (auto simp: line_part_def Let_def getValue_alt bnd_def split: if_splits sum.splits option.splits)

lemma stroke_updates:
  "(k :: stroke_style)\<lparr>lineCap := a, lineJoin := b, miterLimit := c, stroke_color := d, stroke_width := e, lineDash := f\<rparr> =
   \<lparr>stroke_color = d, stroke_width = e, lineCap = a, lineJoin = b, miterLimit = c, lineDash = f\<rparr>"
  by (cases k) simp

lemma emit_line_eq:
  assumes "- 1 \<le> stylesLength s"
    and "fst (getValue env (ld_layer layerData) ''layout'' ''line-cap'' zoom f s) = Inr cap"
    and "fst (getValue env (ld_layer layerData) ''layout'' ''line-join'' zoom f s) = Inr joinv"
    and "fst (getValue env (ld_layer layerData) ''layout'' ''line-miter-limit'' zoom f s) = Inr miter"
    and "truthy (lookup (bag_or_empty (paint (ld_layer layerData))) ''line-dasharray'')"
    and "fst (getValue env (ld_layer layerData) ''paint'' ''line-dasharray'' zoom f s) = Inr (JArr dashes)"
  shows "\<exists>s' y k. emit_line env layerData zoom f c width s = (Inr (), s') \<and>
           stylesLength s' = stylesLength s + 1 \<and>
           styles_get (styles s') (stylesLength s + 1) = Some y \<and>
           s_stroke y = Some k \<and> stroke_color k = Some c \<and> stroke_width k = width \<and>
           lineDash k = Some (map (\<lambda>x. js_mul env x width) dashes) \<and>
           s_fill y = None"
  using assms
  apply (simp add: emit_line_def Let_def fst_getValue bnd_getValue scale_dashes_def)
  apply (simp add: put_style_def)
  done

lemma bnd_Inr_E:
  assumes "bnd m k s = (Inr x, s')"
  obtains v s1 where "m s = (Inr v, s1)" and "k v s1 = (Inr x, s')"
  using assms by (auto simp: bnd_def split: prod.splits sum.splits)

lemma getValue_Inr_E:
  assumes "getValue env layer b p zoom f s = (Inr v, s1)"
  obtains "gv_res env layer b p zoom f (functionCache s) = Inr v"
    and "s1 = s\<lparr>functionCache := gv_upd env layer b p (functionCache s)\<rparr>"
  using assms by (simp add: getValue_alt)

lemma next_slot_run [simp]: "next_slot layerId zoom s = (Inr (), advance layerId zoom s)"
  by (simp add: next_slot_def)

lemma upd_stroke_run [simp]:
  "upd_stroke g s =
     (Inr (), put_style ((cur_style s)\<lparr>s_stroke := Some (g (case s_stroke (cur_style s) of Some f \<Rightarrow> f | None \<Rightarrow> new_Stroke))\<rparr>) s)"
  by (simp add: upd_stroke_def)

lemma emit_line_Inr:
  assumes "emit_line env layerData zoom f c width s = (Inr (), s')"
    and "- 1 \<le> stylesLength s"
  shows "stylesLength s' = stylesLength s + 1 \<and>
         (\<exists>y k. styles_get (styles s') (stylesLength s + 1) = Some y \<and> s_stroke y = Some k \<and>
                stroke_width k = width \<and> stroke_color k = Some c \<and>
                (\<forall>dashes. truthy (lookup (bag_or_empty (paint (ld_layer layerData))) ''line-dasharray'') \<and>
                   gv_res env (ld_layer layerData) ''paint'' ''line-dasharray'' zoom f (functionCache s) = Inr (JArr dashes) \<longrightarrow>
                   lineDash k = Some (map (\<lambda>x. js_mul env x width) dashes)))"
  using assms
  apply (simp add: emit_line_def Let_def)
  apply (elim bnd_Inr_E getValue_Inr_E)
  apply (auto simp: scale_dashes_def split: if_splits jsval.splits elim!: bnd_Inr_E getValue_Inr_E)
  apply (simp_all add: put_style_def)
  done

lemma line_part_dash:
  assumes "line_part env layerData zoom type properties s = (Inr (), s')"
    and "stylesLength s' \<noteq> stylesLength s"
    and "- 1 \<le> stylesLength s"
    and "fst (getValue env (ld_layer layerData) ''paint'' ''line-width'' zoom (FView properties type) s) = Inr w"
  shows "stylesLength s' = stylesLength s + 1 \<and> js_gt env w 0 \<and>
         ''line-pattern'' \<notin> dom (bag_or_empty (paint (ld_layer layerData))) \<and>
         (\<exists>y k. styles_get (styles s') (stylesLength s + 1) = Some y \<and> s_stroke y = Some k \<and>
                stroke_width k = w \<and>
                (\<forall>dashes. truthy (lookup (bag_or_empty (paint (ld_layer layerData))) ''line-dasharray'') \<and>
                   fst (getValue env (ld_layer layerData) ''paint'' ''line-dasharray'' zoom (FView properties type) s) = Inr (JArr dashes) \<longrightarrow>
                   lineDash k = Some (map (\<lambda>x. js_mul env x w) dashes)))"
  using assms
  apply (simp add: line_part_def Let_def fst_getValue split: if_splits)
  apply (elim bnd_Inr_E getValue_Inr_E)
  apply (auto simp:  split: sum.splits option.splits if_splits elim!:  bnd_Inr_E getValue_Inr_E dest!: emit_line_Inr)
  done

lemma layer_emit_fill_color:
  assumes "type = Some 3" and "layer_type (ld_layer layerData) = u ''fill''"
    and "''fill-color'' \<in> dom (bag_or_empty (paint (ld_layer layerData)))"
    and "''fill-pattern'' \<notin> dom (bag_or_empty (paint (ld_layer layerData)))"
    and "''fill-outline-color'' \<notin> dom (bag_or_empty (paint (ld_layer layerData)))"
    and "''text-field'' \<notin> dom (bag_or_empty (layout (ld_layer layerData)))"
    and "fst (getValue env (ld_layer layerData) ''paint'' ''fill-opacity'' zoom
               (FView (getProperties feature) type) s) = Inr opacity"
    and "fst (getValue env (ld_layer layerData) ''paint'' ''fill-color'' zoom
               (FView (getProperties feature) type) s) = Inr fillColor"
    and "colorWithOpacity env fillColor opacity = Some c"
    and "- 1 \<le> stylesLength s"
    and "layer_emit env cl layerData feature resolution zoom type s = (r, s')"
  shows "r = Inr () \<and>
         (''fill-antialias'' \<notin> dom (bag_or_empty (paint (ld_layer layerData))) \<longrightarrow>
            stylesLength s' = stylesLength s + 1 \<and>
            (\<exists>y. styles_get (styles s') (stylesLength s + 1) = Some y \<and>
                 s_fill y = Some \<lparr>fill_color = Some (FCss c)\<rparr> \<and> s_stroke y = None)) \<and>
         (''fill-antialias'' \<in> dom (bag_or_empty (paint (ld_layer layerData))) \<longrightarrow>
            stylesLength s' = stylesLength s + 2 \<and>
            (\<exists>y. styles_get (styles s') (stylesLength s + 1) = Some y \<and>
                 s_fill y = Some \<lparr>fill_color = Some (FCss c)\<rparr> \<and> s_stroke y = None) \<and>
            (\<exists>y k. styles_get (styles s') (stylesLength s + 2) = Some y \<and>
                 s_stroke y = Some k \<and> stroke_color k = Some c \<and> s_fill y = None))"
proof -
  define s0 where "s0 = s\<lparr>functionCache :=
                  gv_upd env (ld_layer layerData) ''paint'' ''fill-color''
                    (gv_upd env (ld_layer layerData) ''paint'' ''fill-opacity'' (functionCache s))\<rparr>"
  have len0: "stylesLength s0 = stylesLength s" and sty0: "styles s0 = styles s"
    by (simp_all add: s0_def)
  have emit: "bnd (emit_fill (layer_id (ld_layer layerData)) (ld_index layerData) zoom c)
               (\<lambda>_. if ''fill-antialias'' \<in> dom (bag_or_empty (paint (ld_layer layerData)))
                     then emit_outline (layer_id (ld_layer layerData)) (ld_index layerData) zoom c
                     else ret ()) s0 = (r, s')"
    using assms fill_part_color_eq [of layerData env zoom "getProperties feature" s opacity fillColor c cl]
    by (simp add: layer_emit_fill_layer s0_def)
  obtain s1 y1 where fill:
    "emit_fill (layer_id (ld_layer layerData)) (ld_index layerData) zoom c s0 = (Inr (), s1)"
    "stylesLength s1 = stylesLength s + 1"
    "styles_get (styles s1) (stylesLength s + 1) = Some y1"
    "s_fill y1 = Some \<lparr>fill_color = Some (FCss c)\<rparr>" "s_stroke y1 = None"
    using emit_fill_post [of s0 "layer_id (ld_layer layerData)" "ld_index layerData" zoom c]
      assms(10) len0 by auto
  show ?thesis
  proof (cases "''fill-antialias'' \<in> dom (bag_or_empty (paint (ld_layer layerData)))")
    case False
    with emit fill show ?thesis
      by (auto simp: bnd_apply_Inr)
  next
    case True
    obtain s2 y2 k2 where outline:
      "emit_outline (layer_id (ld_layer layerData)) (ld_index layerData) zoom c s1 = (Inr (), s2)"
      "stylesLength s2 = stylesLength s1 + 1"
      "styles_get (styles s2) (stylesLength s1 + 1) = Some y2"
      "s_stroke y2 = Some k2" "stroke_color k2 = Some c" "s_fill y2 = None"
      "\<forall>k. k \<noteq> stylesLength s1 + 1 \<longrightarrow> styles_get (styles s2) k = styles_get (styles s1) k"
      using emit_outline_post [of s1 "layer_id (ld_layer layerData)" "ld_index layerData" zoom c]
        assms(10) fill(2) by auto
    from emit fill(1) outline(1) True have "r = Inr ()" "s' = s2"
      by (simp_all add: bnd_apply_Inr)
    with True fill outline show ?thesis
      by (auto simp: add.commute)
  qed
qed

lemma keepsI: "(\<And>s r s'. m s = (r, s') \<Longrightarrow> X s' = X s) \<Longrightarrow> keeps X m"
  by (simp add: keeps_def)

lemma keepsD: "keeps X m \<Longrightarrow> m s = (r, s') \<Longrightarrow> X s' = X s"
  by (simp add: keeps_def)

lemma keeps_bnd: "keeps X m \<Longrightarrow> (\<And>x. keeps X (k x)) \<Longrightarrow> keeps X (bnd m k)"
  by (fastforce simp: keeps_def bnd_def split: prod.splits sum.splits)

lemma keeps_Pair: "keeps X (Pair r)"
  by (simp add: keeps_def)

lemma keeps_modify: "(\<And>s. X (g s) = X s) \<Longrightarrow> keeps X (modify g)"
  by (simp add: keeps_def)

lemma keeps_getValue: "(\<And>s fc. X (s\<lparr>functionCache := fc\<rparr>) = X s) \<Longrightarrow> keeps X (getValue env layer b p zoom f)"
  by (simp add: keeps_def getValue_alt)

lemma keeps_if: "(c \<Longrightarrow> keeps X m) \<Longrightarrow> (\<not> c \<Longrightarrow> keeps X n) \<Longrightarrow> keeps X (if c then m else n)"
  by simp

lemma keeps_next_slot: "(\<And>s. X (advance layerId zoom s) = X s) \<Longrightarrow> keeps X (next_slot layerId zoom)"
  by (simp add: keeps_def)

lemma keeps_upd_style: "(\<And>s y. X (put_style y s) = X s) \<Longrightarrow> keeps X (upd_style g)"
  by (simp add: keeps_def)

lemma circle_part_keeps_cache: "keeps iconImageCache (circle_part env layerData zoom type properties vars)"
  unfolding circle_part_def Let_def
  apply (intro keeps_if keeps_bnd keeps_getValue keeps_modify keeps_next_slot keeps_Pair)
  apply (simp_all add: keeps_Pair)
  apply (simp add: keeps_def)
  done

lemma image_shape_cur [simp]:
  "s_fill (slot_or_new image_shape new_Style s) = None"
  "s_stroke (slot_or_new image_shape new_Style s) = None"
  by (simp_all add: slot_or_new_def image_shape_def new_Style_def split: option.splits)

lemma circle_part_Inr:
  assumes "circle_part env layerData zoom type properties vars s = (Inr res, s')"
    and "type = Some 1" and "''circle-radius'' \<in> dom (bag_or_empty (paint (ld_layer layerData)))"
    and "- 1 \<le> stylesLength s"
    and "fst (getValue env (ld_layer layerData) ''paint'' ''circle-radius'' zoom
               (FView properties type) s) = Inr radius"
    and "fst (getValue env (ld_layer layerData) ''paint'' ''circle-stroke-color'' zoom
               (FView properties type) s) = Inr strokeColor"
    and "fst (getValue env (ld_layer layerData) ''paint'' ''circle-color'' zoom
               (FView properties type) s) = Inr color"
    and "fst (getValue env (ld_layer layerData) ''paint'' ''circle-opacity'' zoom
               (FView properties type) s) = Inr opacity"
    and "fst (getValue env (ld_layer layerData) ''paint'' ''circle-stroke-width'' zoom
               (FView properties type) s) = Inr strokeWidth"
    and "fst (getValue env (ld_layer layerData) ''paint'' ''circle-stroke-opacity'' zoom
               (FView properties type) s) = Inr strokeOpacity"
  shows "stylesLength s' = stylesLength s + 1 \<and>
         (\<exists>y. styles_get (styles s') (stylesLength s + 1) = Some y \<and>
              s_image y =
                Some (if iconImageCache s (circle_key env radius strokeColor color opacity
                                             strokeWidth strokeOpacity) = None
                      then OwnCircle (new_Circle env radius strokeColor color opacity
                                        strokeWidth strokeOpacity)
                      else CachedImage (circle_key env radius strokeColor color opacity
                                          strokeWidth strokeOpacity)))"
  using assms
  apply (simp add: circle_part_def Let_def fst_getValue)
  apply (elim bnd_Inr_E getValue_Inr_E)
  apply (auto split: option.splits)
  apply (auto simp: put_style_def)
  done

lemma new_Circle_stroke:
  "c_radius (new_Circle env radius strokeColor color opacity strokeWidth strokeOpacity) = radius \<and>
   (strokeWidth = JNum 0 \<longrightarrow>
      c_stroke (new_Circle env radius strokeColor color opacity strokeWidth strokeOpacity) = None) \<and>
   (strokeWidth \<noteq> JNum 0 \<longrightarrow>
      c_stroke (new_Circle env radius strokeColor color opacity strokeWidth strokeOpacity) =
        Some \<lparr>stroke_color = colorWithOpacity env strokeColor strokeOpacity,
              stroke_width = strokeWidth, lineCap = JUndef, lineJoin = JUndef,
              miterLimit = JUndef, lineDash = None\<rparr>)"
  by (simp add: new_Circle_def new_Stroke_def)

lemma wrap_loop_keeps_lines:
  "x \<in> set lines \<Longrightarrow> x \<in> set (wrap_loop env widthOf (JNum width) words line lines)"
  by (induction words arbitrary: line lines) auto

lemma wrap_loop_long_line:
  assumes "\<forall>a b. widthOf b \<le> widthOf (a @ b) \<and> widthOf a \<le> widthOf (a @ b)"
    and "widthOf line > width" and "line \<noteq> []"
  shows "line \<in> set (wrap_loop env widthOf (JNum width) words line lines)"
proof (cases words)
  case Nil
  with assms show ?thesis by simp
next
  case (Cons v vs)
  from assms(1) have "widthOf line \<le> widthOf (line @ v)" by blast
  with assms(2) have "\<not> widthOf (line @ v) \<le> width" by simp
  with Cons assms(3) show ?thesis
    by (simp add: wrap_loop_keeps_lines)
qed

lemma wrap_loop_long_word:
  assumes "\<forall>a b. widthOf b \<le> widthOf (a @ b) \<and> widthOf a \<le> widthOf (a @ b)"
    and "w \<in> set words" and "widthOf w > width" and "w \<noteq> []"
  shows "w \<in> set (wrap_loop env widthOf (JNum width) words line lines)"
  using assms(2)
proof (induction words arbitrary: line lines)
  case Nil
  then show ?case by simp
next
  case (Cons v vs)
  show ?case
  proof (cases "v = w")
    case True
    from assms(1) have "widthOf w \<le> widthOf (line @ w)" by blast
    with assms(3) have "\<not> widthOf (line @ w) \<le> width" by simp
    with True show ?thesis
      using wrap_loop_long_line [OF assms(1) assms(3) assms(4)] by simp
  next
    case False
    with Cons.prems have "w \<in> set vs" by simp
    then show ?thesis
      using Cons.IH by simp
  qed
qed

lemma chinese_loop_keeps_res:
  "x \<in> set res \<Longrightarrow> x \<in> set (chinese_loop env widthOf (JNum maxWidth) txt res temp)"
  by (induction "txt" arbitrary: res temp) auto

lemma chinese_loop_long_temp:
  assumes "\<forall>a b. widthOf b \<le> widthOf (a @ b) \<and> widthOf a \<le> widthOf (a @ b)"
    and "widthOf temp > maxWidth"
  shows "temp \<in> set (chinese_loop env widthOf (JNum maxWidth) txt res temp)"
proof (cases "txt")
  case Nil
  then show ?thesis by simp
next
  case (Cons c cs)
  from assms(1) have "widthOf temp \<le> widthOf (temp @ [c])" by blast
  with assms(2) have "widthOf (temp @ [c]) > maxWidth" by simp
  with Cons show ?thesis
    by (simp add: chinese_loop_keeps_res)
qed

lemma chinese_loop_long_char:
  assumes "\<forall>a b. widthOf b \<le> widthOf (a @ b) \<and> widthOf a \<le> widthOf (a @ b)"
    and "c \<in> set txt" and "widthOf [c] > maxWidth"
  shows "[c] \<in> set (chinese_loop env widthOf (JNum maxWidth) txt res temp)"
  using assms(2)
proof (induction "txt" arbitrary: res temp)
  case Nil
  then show ?case by simp
next
  case (Cons d ds)
  show ?case
  proof (cases "d = c")
    case True
    from assms(1) have "widthOf [c] \<le> widthOf (temp @ [c])" by blast
    with assms(3) have "widthOf (temp @ [c]) > maxWidth" by simp
    with True show ?thesis
      using chinese_loop_long_temp [OF assms(1) assms(3)] by simp
  next
    case False
    with Cons.prems have "c \<in> set ds" by simp
    then show ?thesis
      using Cons.IH by simp
  qed
qed

lemma width_of_member:
  fixes widthOf :: "jstring \<Rightarrow> real"
  assumes "\<forall>a b. widthOf b \<le> widthOf (a @ b) \<and> widthOf a \<le> widthOf (a @ b)"
    and "c \<in> set txt"
  shows "widthOf [c] \<le> widthOf txt"
proof -
  from assms(2) obtain pre post where "txt = pre @ c # post"
    by (auto simp: in_set_conv_decomp)
  then have t: "txt = pre @ ([c] @ post)" by simp
  from assms(1) have "widthOf [c] \<le> widthOf ([c] @ post)" by blast
  also from assms(1) have "\<dots> \<le> widthOf (pre @ ([c] @ post))" by blast
  finally show ?thesis using t by simp
qed

lemma wrapChineseText_long_char:
  assumes "\<forall>a b. widthOf b \<le> widthOf (a @ b) \<and> widthOf a \<le> widthOf (a @ b)"
    and "c \<in> set txt" and "widthOf [c] > maxWidth"
  shows "[c] \<in> set (wrapChineseText env widthOf txt (JNum maxWidth))"
proof -
  from width_of_member [OF assms(1) assms(2)] assms(3) have "widthOf txt > maxWidth" by simp
  then show ?thesis
    by (simp add: wrapChineseText_def chinese_loop_long_char [OF assms])
qed

lemma split_on_single: "sep \<notin> set txt \<Longrightarrow> split_on sep txt = [txt]"
  by (induction "txt") auto

lemma wrap_loop_single: "w \<noteq> [] \<Longrightarrow> wrap_loop env widthOf (JNum width) [w] [] [] = [w]"
  by simp

lemma wrap_lines_long:
  assumes mono: "\<forall>a b. measureText env font b \<le> measureText env font (a @ b) \<and>
                      measureText env font a \<le> measureText env font (a @ b)"
    and over: "measureText env font w > measureText env font (u ''M'') * e"
    and "w \<noteq> []"
    and em: "to_number env em = Some e"
  shows "(\<not> (\<exists>c \<in> set txt. cjk c) \<and> w \<in> set (split_on 32 txt) \<longrightarrow>
            w \<in> set (wrap_lines env txt font em)) \<and>
         ((\<exists>c \<in> set txt. cjk c) \<and> (\<exists>c \<in> set txt. w = [c]) \<longrightarrow>
            w \<in> set (wrap_lines env txt font em)) \<and>
         (\<not> (\<exists>c \<in> set txt. cjk c) \<and> 32 \<notin> set txt \<and> txt = w \<longrightarrow>
            wrap_lines env txt font em = [w])"
proof (intro conjI impI)
  assume a: "\<not> (\<exists>c \<in> set txt. cjk c) \<and> w \<in> set (split_on 32 txt)"
  then show "w \<in> set (wrap_lines env txt font em)"
    using wrap_loop_long_word [OF mono _ over assms(3)]
    by (simp add: wrap_lines_def wrap_words_def js_mul_to_number [OF _ em])
next
  assume a: "(\<exists>c \<in> set txt. cjk c) \<and> (\<exists>c \<in> set txt. w = [c])"
  then obtain c where c: "c \<in> set txt" "w = [c]" by blast
  with over have "[c] \<in> set (wrapChineseText env (measureText env font) txt (JNum (measureText env font (u ''M'') * e)))"
    using wrapChineseText_long_char [OF mono] by simp
  with a c show "w \<in> set (wrap_lines env txt font em)"
    using wrap_loop_long_word [OF mono _ over assms(3)]
    by (simp add: wrap_lines_def wrap_words_def js_mul_to_number [OF _ em])
next
  assume a: "\<not> (\<exists>c \<in> set txt. cjk c) \<and> 32 \<notin> set txt \<and> txt = w"
  then have "32 \<notin> set w" and "txt = w"
    by blast+
  then have "split_on 32 txt = [w]"
    using split_on_single [of 32 w] by simp
  with a assms(3) show "wrap_lines env txt font em = [w]"
    by (simp add: wrap_lines_def wrap_words_def Let_def js_mul_to_number [OF _ em])
qed

lemma wrapText_miss:
  "measureCache s (wrap_key env txt font em) = None \<Longrightarrow>
   wrapText env txt font em s =
     (Inr (join [10] (wrap_lines env txt font em)),
      s\<lparr>measureCache := (measureCache s)(wrap_key env txt font em \<mapsto> join [10] (wrap_lines env txt font em))\<rparr>)"
  by (simp add: wrapText_def Let_def)

lemma line_part_emit:
  assumes "layer_type (ld_layer layerData) = u ''line''" and "type \<noteq> Some 1"
    and "''line-pattern'' \<notin> dom (bag_or_empty (paint (ld_layer layerData)))"
    and "''line-color'' \<in> dom (bag_or_empty (paint (ld_layer layerData)))"
    and "fst (getValue env (ld_layer layerData) ''paint'' ''line-color'' zoom (FView properties type) s) = Inr lineColor"
    and "fst (getValue env (ld_layer layerData) ''paint'' ''line-opacity'' zoom (FView properties type) s) = Inr lineOpacity"
    and "fst (getValue env (ld_layer layerData) ''paint'' ''line-width'' zoom (FView properties type) s) = Inr w"
    and "colorWithOpacity env lineColor lineOpacity = Some c" and "js_gt env w 0"
    and "- 1 \<le> stylesLength s"
    and "fst (getValue env (ld_layer layerData) ''layout'' ''line-cap'' zoom (FView properties type) s) = Inr cap"
    and "fst (getValue env (ld_layer layerData) ''layout'' ''line-join'' zoom (FView properties type) s) = Inr joinv"
    and "fst (getValue env (ld_layer layerData) ''layout'' ''line-miter-limit'' zoom (FView properties type) s) = Inr miter"
    and "truthy (lookup (bag_or_empty (paint (ld_layer layerData))) ''line-dasharray'')"
    and "fst (getValue env (ld_layer layerData) ''paint'' ''line-dasharray'' zoom (FView properties type) s) = Inr (JArr dashes)"
  shows "\<exists>s'. line_part env layerData zoom type properties s = (Inr (), s') \<and>
              stylesLength s' = stylesLength s + 1"
proof -
  let ?s3 = "s\<lparr>functionCache :=
       gv_upd env (ld_layer layerData) ''paint'' ''line-width''
        (gv_upd env (ld_layer layerData) ''paint'' ''line-opacity''
          (gv_upd env (ld_layer layerData) ''paint'' ''line-color'' (functionCache s)))\<rparr>"
  have eq: "line_part env layerData zoom type properties s =
            emit_line env layerData zoom (FView properties type) c w ?s3"
    using assms(1-9) by (simp add: line_part_def Let_def fst_getValue bnd_getValue)
  have "\<exists>s' y k. emit_line env layerData zoom (FView properties type) c w ?s3 = (Inr (), s') \<and>
           stylesLength s' = stylesLength ?s3 + 1 \<and>
           styles_get (styles s') (stylesLength ?s3 + 1) = Some y \<and>
           s_stroke y = Some k \<and> stroke_color k = Some c \<and> stroke_width k = w \<and>
           lineDash k = Some (map (\<lambda>x. js_mul env x w) dashes) \<and>
           s_fill y = None"
    using assms(10-15) by (intro emit_line_eq) (simp_all add: fst_getValue)
  with eq show ?thesis by auto
qed

lemma ex_defaults [simp]:
  "default_ex ''line-opacity'' = JNum 1"
  "default_ex ''line-cap'' = JStr (u ''butt'')"
  "default_ex ''line-join'' = JStr (u ''miter'')"
  "default_ex ''line-miter-limit'' = JNum 2"
  "default_ex ''circle-stroke-width'' = JNum 0"
  "default_ex ''circle-color'' = JStr (u ''black'')"
  "default_ex ''circle-stroke-color'' = JStr (u ''black'')"
  "default_ex ''circle-opacity'' = JNum 1"
  "default_ex ''circle-stroke-opacity'' = JNum 1"
  by (simp_all add: default_ex_def)

lemma ex_color_props [simp]:
  "color_prop ''line-color''" "color_prop ''circle-color''" "color_prop ''circle-stroke-color''"
  "\<not> color_prop ''line-opacity''" "\<not> color_prop ''line-width''" "\<not> color_prop ''line-cap''"
  "\<not> color_prop ''line-join''" "\<not> color_prop ''line-miter-limit''" "\<not> color_prop ''line-dasharray''"
  "\<not> color_prop ''circle-radius''" "\<not> color_prop ''circle-opacity''"
  "\<not> color_prop ''circle-stroke-width''" "\<not> color_prop ''circle-stroke-opacity''"
  by (simp_all add: color_prop_def)

lemma ex_colors [simp]:
  "color_parse_ex (JStr (u ''red'')) = JCol (Color 1 0 0 1)"
  "color_parse_ex (JStr (u ''black'')) = JCol (Color 0 0 0 1)"
  by (simp_all add: color_parse_ex_def)

lemma gv_res_ex_total: "\<exists>v. gv_res env_ex layer b p zoom f fc = Inr v"
  by (simp add: gv_res_def compile_property_def env_ex_def Let_def split: option.splits)

lemma circle_part_ex_runs:
  assumes "''circle-radius'' \<in> dom (bag_or_empty (paint (ld_layer layerData)))"
  shows "\<exists>res s'. circle_part env_ex layerData zoom (Some 1) properties vars s = (Inr res, s')"
proof -
  let ?g = "\<lambda>p. gv_res env_ex (ld_layer layerData) ''paint'' p zoom (FView properties (Some 1)) (functionCache s)"
  obtain v1 v2 v3 v4 v5 v6 where
    "?g ''circle-radius'' = Inr v1" "?g ''circle-stroke-color'' = Inr v2"
    "?g ''circle-color'' = Inr v3" "?g ''circle-opacity'' = Inr v4"
    "?g ''circle-stroke-width'' = Inr v5" "?g ''circle-stroke-opacity'' = Inr v6"
    using gv_res_ex_total by metis
  with assms show ?thesis
    by (auto simp: circle_part_def Let_def bnd_getValue)
qed

lemma measure_ex_mono:
  "\<forall>a b. measureText env_ex font b \<le> measureText env_ex font (a @ b) \<and>
         measureText env_ex font a \<le> measureText env_ex font (a @ b)"
  by (simp add: env_ex_def)


lemma closure_ex_single:
  "layersBySourceLayer (closure_ex [l]) (u ''undefined'') = Some [\<lparr>ld_layer = l, ld_index = 0\<rparr>]"
  "resolutions (closure_ex ls) = [1024, 512, 256, 128, 64, 32, 16, 8, 4, 2, 1]"
  by (simp_all add: closure_ex_def)

lemma to_string_ex_undef: "to_string env_ex JUndef = u ''undefined''"
  by (simp add: to_string_def env_ex_def tostr_ex_def prim_str_def)


lemma length_set_length [simp]: "length (set_length xs n) = n"
  by (simp add: set_length_def)

lemma resolve_zoom_ex:
  "resolve_zoom env_ex (closure_ex ls) 64 = 4" "resolve_zoom env_ex (closure_ex ls) 32 = 5"
  "resolve_zoom env_ex (closure_ex ls) 2 = 9" "resolve_zoom env_ex (closure_ex ls) 1 = 10"
  by (simp_all add: resolve_zoom_def closure_ex_single)


lemma dec_numeral:
  "dec (numeral k) n = (if n < 10 then [48 + n] else dec (pred_numeral k) (n div 10) @ [48 + n mod 10])"
  by (simp add: numeral_eq_Suc)

lemma circle_key_ex:
  "circle_key env_ex (JNum 5) (JCol a) (JCol b) (JNum 1) (JNum 0) (JNum 1) = u ''5.rgba.rgba.1.0.1''"
  "circle_key env_ex (JNum 5) (JCol a) (JCol b) (JNum 1) (JNum 2) (JNum 1) = u ''5.rgba.rgba.1.2.1''"
  by (simp_all add: circle_key_def to_string_def env_ex_def tostr_ex_def prim_str_def dec_numeral u_def)


lemma str_to_num_ex_simps:
  "str_to_num env_ex = str_to_num_ex"
  "str_to_num_ex (u ''8'') = Some 8" "str_to_num_ex (u ''7'') = Some 7"
  "str_to_num_ex (u ''3'') = Some 3" "str_to_num_ex (u ''1'') = Some 1"
  "str_to_num_ex (u ''0.5'') = Some (1 / 2)" "str_to_num_ex (u ''x'') = None"
  by (simp_all add: env_ex_def str_to_num_ex_def u_def)

text \<open>
  Rules for running the model on a state that is written out field by field: a bind
  runs its first computation to the end before the continuation is looked at.
\<close>

lemma bnd_app:
  "bnd m k s = (case m s of (Inl e, s') \<Rightarrow> (Inl e, s') | (Inr x, s') \<Rightarrow> k x s')"
  by (simp add: bnd_def)

lemma bnd_cong3: "m = m' \<Longrightarrow> s = s' \<Longrightarrow> bnd m k s = bnd m' k s'"
  by simp

lemma st_put_style:
  "put_style y
     \<lparr>functionCache = fc, filterCache = flc, fontMap = fm, measureCache = mc,
      iconImageCache = ic, patternCache = pc, styles = xs, stylesLength = k,
      styleIds = ids, spriteImage = sp\<rparr> =
     \<lparr>functionCache = fc, filterCache = flc, fontMap = fm, measureCache = mc,
      iconImageCache = ic, patternCache = pc, styles = styles_set xs k y, stylesLength = k,
      styleIds = ids, spriteImage = sp\<rparr>"
  by (simp add: put_style_def)

lemma st_cur_style:
  "cur_style
     \<lparr>functionCache = fc, filterCache = flc, fontMap = fm, measureCache = mc,
      iconImageCache = ic, patternCache = pc, styles = xs, stylesLength = k,
      styleIds = ids, spriteImage = sp\<rparr> =
     (case styles_get xs k of Some y \<Rightarrow> y | None \<Rightarrow> new_Style)"
  by (simp add: cur_style_def)

lemma st_slot_or_new:
  "slot_or_new shape fresh
     \<lparr>functionCache = fc, filterCache = flc, fontMap = fm, measureCache = mc,
      iconImageCache = ic, patternCache = pc, styles = xs, stylesLength = k,
      styleIds = ids, spriteImage = sp\<rparr> =
     (case styles_get xs k of Some y \<Rightarrow> if shape y then y else fresh | None \<Rightarrow> fresh)"
  by (simp add: slot_or_new_def)

lemma st_advance:
  "advance layerId zoom
     \<lparr>functionCache = fc, filterCache = flc, fontMap = fm, measureCache = mc,
      iconImageCache = ic, patternCache = pc, styles = xs, stylesLength = k,
      styleIds = ids, spriteImage = sp\<rparr> =
     \<lparr>functionCache = fc, filterCache = flc, fontMap = fm, measureCache = mc,
      iconImageCache = ic, patternCache = pc, styles = xs, stylesLength = k + 1,
      styleIds = Some ((case ids of None \<Rightarrow> Map.empty | Some m \<Rightarrow> m)(zoom \<mapsto>
          (if layerId \<in> set (case (case ids of None \<Rightarrow> Map.empty | Some m \<Rightarrow> m) zoom of None \<Rightarrow> [] | Some l \<Rightarrow> l)
           then (case (case ids of None \<Rightarrow> Map.empty | Some m \<Rightarrow> m) zoom of None \<Rightarrow> [] | Some l \<Rightarrow> l)
           else (case (case ids of None \<Rightarrow> Map.empty | Some m \<Rightarrow> m) zoom of None \<Rightarrow> [] | Some l \<Rightarrow> l) @ [layerId]))),
      spriteImage = sp\<rparr>"
  by (simp add: advance_def Let_def)

lemma st_upd_style:
  "upd_style g
     \<lparr>functionCache = fc, filterCache = flc, fontMap = fm, measureCache = mc,
      iconImageCache = ic, patternCache = pc, styles = xs, stylesLength = k,
      styleIds = ids, spriteImage = sp\<rparr> =
     (Inr (),
      \<lparr>functionCache = fc, filterCache = flc, fontMap = fm, measureCache = mc,
       iconImageCache = ic, patternCache = pc,
       styles = styles_set xs k (g (case styles_get xs k of Some y \<Rightarrow> y | None \<Rightarrow> new_Style)),
       stylesLength = k, styleIds = ids, spriteImage = sp\<rparr>)"
  by (simp add: upd_style_def put_style_def cur_style_def)

lemma st_upd_text:
  "upd_text g
     \<lparr>functionCache = fc, filterCache = flc, fontMap = fm, measureCache = mc,
      iconImageCache = ic, patternCache = pc, styles = xs, stylesLength = k,
      styleIds = ids, spriteImage = sp\<rparr> =
     (Inr (),
      \<lparr>functionCache = fc, filterCache = flc, fontMap = fm, measureCache = mc,
       iconImageCache = ic, patternCache = pc,
       styles = styles_set xs k
          ((case styles_get xs k of Some y \<Rightarrow> y | None \<Rightarrow> new_Style)\<lparr>s_text :=
             Some (g (case s_text (case styles_get xs k of Some y \<Rightarrow> y | None \<Rightarrow> new_Style) of
                        Some t \<Rightarrow> t | None \<Rightarrow> new_Text))\<rparr>),
       stylesLength = k, styleIds = ids, spriteImage = sp\<rparr>)"
  by (simp add: upd_text_def upd_style_def put_style_def cur_style_def)

lemma st_getValue:
  "getValue env layer b p zoom f
     \<lparr>functionCache = fc, filterCache = flc, fontMap = fm, measureCache = mc,
      iconImageCache = ic, patternCache = pc, styles = xs, stylesLength = k,
      styleIds = ids, spriteImage = sp\<rparr> =
     (gv_res env layer b p zoom f fc,
      \<lparr>functionCache = gv_upd env layer b p fc, filterCache = flc, fontMap = fm,
       measureCache = mc, iconImageCache = ic, patternCache = pc, styles = xs,
       stylesLength = k, styleIds = ids, spriteImage = sp\<rparr>)"
  by (simp add: getValue_alt)

lemma st_chooseFont:
  "chooseFont env fonts None
     \<lparr>functionCache = fc, filterCache = flc, fontMap = fm, measureCache = mc,
      iconImageCache = ic, patternCache = pc, styles = xs, stylesLength = k,
      styleIds = ids, spriteImage = sp\<rparr> =
     (let cached = (case fm (to_string env fonts) of None \<Rightarrow> JUndef | Some v \<Rightarrow> v)
      in if truthy cached
         then (Inr cached,
               \<lparr>functionCache = fc, filterCache = flc, fontMap = fm, measureCache = mc,
                iconImageCache = ic, patternCache = pc, styles = xs, stylesLength = k,
                styleIds = ids, spriteImage = sp\<rparr>)
         else if fonts = JUndef \<or> fonts = JNull
         then (Inl TypeError,
               \<lparr>functionCache = fc, filterCache = flc, fontMap = fm, measureCache = mc,
                iconImageCache = ic, patternCache = pc, styles = xs, stylesLength = k,
                styleIds = ids, spriteImage = sp\<rparr>)
         else (Inr (idx fonts 0),
               \<lparr>functionCache = fc, filterCache = flc,
                fontMap = fm(to_string env fonts \<mapsto> idx fonts 0), measureCache = mc,
                iconImageCache = ic, patternCache = pc, styles = xs, stylesLength = k,
                styleIds = ids, spriteImage = sp\<rparr>))"
  by (simp add: chooseFont_def Let_def)

lemma st_wrapText:
  "wrapText env txt font em
     \<lparr>functionCache = fc, filterCache = flc, fontMap = fm, measureCache = mc,
      iconImageCache = ic, patternCache = pc, styles = xs, stylesLength = k,
      styleIds = ids, spriteImage = sp\<rparr> =
     (let cached = (case mc (wrap_key env txt font em) of None \<Rightarrow> [] | Some w \<Rightarrow> w)
      in if cached \<noteq> []
         then (Inr cached,
               \<lparr>functionCache = fc, filterCache = flc, fontMap = fm, measureCache = mc,
                iconImageCache = ic, patternCache = pc, styles = xs, stylesLength = k,
                styleIds = ids, spriteImage = sp\<rparr>)
         else (Inr (join [10] (wrap_lines env txt font em)),
               \<lparr>functionCache = fc, filterCache = flc, fontMap = fm,
                measureCache = mc(wrap_key env txt font em \<mapsto> join [10] (wrap_lines env txt font em)),
                iconImageCache = ic, patternCache = pc, styles = xs, stylesLength = k,
                styleIds = ids, spriteImage = sp\<rparr>))"
  by (simp add: wrapText_def Let_def)

lemmas st_rules = st_put_style st_cur_style st_slot_or_new st_advance st_upd_style st_upd_text
  st_getValue st_chooseFont st_wrapText

lemma env_ex_fields:
  "tostr env_ex = tostr_ex"
  "measureText env_ex font str = 10 * real (length str)"
  "mb2css env_ex chosen sz = u ''normal 400 '' @ tostr_ex sz @ u ''px '' @ tostr_ex chosen"
  "deg2rad env_ex x = x * pi / 180"
  "str_to_num env_ex = str_to_num_ex"
  by (simp_all add: env_ex_def)

lemma gv_res_ex:
  "gv_res env_ex layer b p zoom f Map.empty =
     Inr (let v0 = lookup (bag_or_empty (if b = ''layout'' then layout layer
                                         else if b = ''paint'' then paint layer else None)) p;
              v1 = (if v0 = JUndef then default_ex p else v0)
          in if color_prop p then color_parse_ex v1 else v1)"
  by (simp add: gv_res_def compile_property_def env_ex_def Let_def loose_eq_str_def)

lemma gv_res_other:
  "layer_id layer' \<noteq> layer_id layer \<Longrightarrow>
   gv_res env layer' b' p' zoom f (gv_upd env layer b p fc) = gv_res env layer' b' p' zoom f fc"
  by (simp add: gv_res_def gv_upd_def Let_def)

lemma text_facts:
  "layer_id (ld_layer text_a) = u ''a''" "layer_type (ld_layer text_a) = u ''symbol''"
  "layout (ld_layer text_a) = Some [''text-field'' \<mapsto> JStr (u '' ''), ''text-font'' \<mapsto> JArr [JStr (u ''A,B'')]]"
  "paint (ld_layer text_a) = None" "minzoom (ld_layer text_a) = Some 5" "maxzoom (ld_layer text_a) = Some 10"
  "layer_filter (ld_layer text_a) = JUndef" "ld_index text_a = 0"
  "layer_id (ld_layer text_b) = u ''b''" "layer_type (ld_layer text_b) = u ''symbol''"
  "layout (ld_layer text_b) = Some [''text-field'' \<mapsto> JStr (u ''B, ''), ''text-font'' \<mapsto> JArr [JStr (u ''A'')]]"
  "paint (ld_layer text_b) = None" "minzoom (ld_layer text_b) = Some 5" "maxzoom (ld_layer text_b) = Some 10"
  "layer_filter (ld_layer text_b) = JUndef" "ld_index text_b = 1"
  by (simp_all add: text_a_def text_b_def)

lemma wrap_lines_blank: "wrap_lines env_ex (u '' '') (u ''normal 400 16px A,B'') (JNum 10) = []"
  by (simp add: wrap_lines_def wrap_words_def env_ex_fields u_def cjk_def)

lemma wrap_lines_b: "wrap_lines env_ex (u ''B, '') (u ''normal 400 16px A'') (JNum 10) = [u ''B, '']"
  by (simp add: wrap_lines_def wrap_words_def env_ex_fields u_def cjk_def)

lemma wrap_keys_collide:
  "wrap_key env_ex (u '' '') (u ''normal 400 16px A,B'') (JNum 10) = u ''10,normal 400 16px A,B, ''"
  "wrap_key env_ex (u ''B, '') (u ''normal 400 16px A'') (JNum 10) = u ''10,normal 400 16px A,B, ''"
  by (simp_all add: wrap_key_def to_string_def env_ex_fields tostr_ex_def prim_str_def dec_numeral u_def)

lemma fromTemplate_plain: "fromTemplate env_ex Map.empty (u '' '') = Some (u '' '')"
  "fromTemplate env_ex Map.empty (u ''B, '') = Some (u ''B, '')"
  by (subst fromTemplate.simps, simp add: u_def)+

lemma fonts_ex:
  "mb2css env_ex (JStr (u ''A,B'')) (JNum 16) = u ''normal 400 16px A,B''"
  "mb2css env_ex (JStr (u ''A'')) (JNum 16) = u ''normal 400 16px A''"
  "to_string env_ex (JArr [JStr (u ''A,B'')]) = u ''A,B''"
  "to_string env_ex (JArr [JStr (u ''A'')]) = u ''A''"
  by (simp_all add: env_ex_fields to_string_def tostr_ex_def prim_str_def u_def dec_numeral)

lemma anchors_ex:
  "has_indexOf (JStr a)"
  "\<not> anchor_has (JStr (u ''center'')) (u ''left'')" "\<not> anchor_has (JStr (u ''center'')) (u ''right'')"
  "\<not> anchor_starts (JStr (u ''center'')) (u ''bottom'')" "\<not> anchor_starts (JStr (u ''center'')) (u ''top'')"
  by (simp_all add: has_indexOf_def anchor_has_def anchor_starts_def starts_with_def u_def)

lemma u_Nil: "u s = [] \<longleftrightarrow> s = []"
  by (simp add: u_def)

lemma join_simps: "join [10] [] = []" "join [10] [x] = x"
  by simp_all

lemmas run_defs = label_part_def label_text_def bag_or_empty_def Let_def bnd_app
  fromTemplate_js_def gv_res_ex gv_res_other lookup_def fromTemplate_plain fonts_ex wrap_lines_blank wrap_lines_b
  wrap_keys_collide anchors_ex text_facts u_Nil
  st_rules styles_get_def styles_set_def
  text_shape_def new_Style_def new_Text_def new_Fill_def new_Stroke_def
  default_ex_def color_prop_def color_parse_ex_def
  loose_eq_str_def js_add_def js_mul_def js_sub_def js_neg_def concatenates_def nullish_def
  math_round_def

lemma fold_layers:
  "\<lparr>ld_layer = ld_layer text_a, ld_index = 0\<rparr> = text_a"
  "\<lparr>ld_layer = ld_layer text_b, ld_index = Suc 0\<rparr> = text_b"
  by (simp_all add: text_a_def text_b_def)

lemma closure_two:
  "layersBySourceLayer (closure_ex [ld_layer text_a, ld_layer text_b]) (u ''undefined'') = Some [text_a, text_b]"
  by (simp add: closure_ex_def fold_layers upt_rec)

lemma types_point: "types (u ''Point'') = Some 1"
  by (simp add: types_def u_def)

lemma feature_facts:
  "getProperties (feature_ex kind) = Map.empty" "geom_type (getGeometry (feature_ex kind)) = u kind"
  by (simp_all add: feature_ex_def)

lemmas call_defs = styleFunction_def layer_step_def skip_layer_def layer_body_def layer_emit_def
  fill_part_def line_part_def icon_part_def circle_part_def closure_two types_point feature_facts
  to_string_ex_undef resolve_zoom_ex labels_def label_of_def s_init_def set_length_def

section \<open>The claims\<close>



text \<open>
  C2 (as amended). When the version of the style document is not equal to 8 under the
  comparison \<^verbatim>\<open>!=\<close> the source makes (a number other than 8, \<^verbatim>\<open>undefined\<close>,
  \<^verbatim>\<open>null\<close>, NaN, a string that does not convert to 8, or any other value that does
  not), the constructor throws \<^verbatim>\<open>Error('glStyle version 8 required.')\<close>: no style
  function is returned, and the target layer and the state are as before.
\<close>

theorem version_mismatch_throws:
  assumes "glStyle = Inr doc \<or> (\<exists>str. glStyle = Inl str \<and> json_parse env str = Inr (Some doc))"
    and "(\<exists>x. version doc = JNum x \<and> x \<noteq> 8) \<or> version doc = JUndef \<or> version doc = JNull \<or>
         version doc = JNaN \<or> (\<exists>t. version doc = JStr t \<and> str_to_num env t \<noteq> Some 8) \<or>
         \<not> loose_eq_num env (version doc) 8"
  shows "stylefunction env olLayer glStyle source resolutions0 spriteData0 spriteImage0 s =
           (Inl (Error (u ''glStyle version 8 required.'')), olLayer, s)"
proof -
  from assms(2) have "\<not> loose_eq_num env (version doc) 8"
    by (auto simp: loose_eq_num_def)
  with assms(1) show ?thesis
    by (auto simp: stylefunction_def Let_def)
qed

theorem version_mismatch_throws_witness:
  "stylefunction env_ex \<lparr>ol_style = None, ol_props = Map.empty\<rparr>
     (Inr \<lparr>version = JNum 7, doc_layers = [ld_layer fill_red]\<rparr>) (SourceName (u ''src''))
     None None None s_init =
   (Inl (Error (u ''glStyle version 8 required.'')), \<lparr>ol_style = None, ol_props = Map.empty\<rparr>, s_init) \<and>
   stylefunction env_ex \<lparr>ol_style = None, ol_props = Map.empty\<rparr>
     (Inr \<lparr>version = JUndef, doc_layers = [ld_layer fill_red]\<rparr>) (SourceName (u ''src''))
     None None None s_init =
   (Inl (Error (u ''glStyle version 8 required.'')), \<lparr>ol_style = None, ol_props = Map.empty\<rparr>, s_init) \<and>
   stylefunction env_ex \<lparr>ol_style = None, ol_props = Map.empty\<rparr>
     (Inr \<lparr>version = JStr (u ''7''), doc_layers = [ld_layer fill_red]\<rparr>) (SourceName (u ''src''))
     None None None s_init =
   (Inl (Error (u ''glStyle version 8 required.'')), \<lparr>ol_style = None, ol_props = Map.empty\<rparr>, s_init)"
proof -
  have n: "str_to_num env_ex (u ''7'') \<noteq> Some 8"
    by (simp add: str_to_num_ex_simps)
  show ?thesis
    using version_mismatch_throws [where glStyle = "Inr \<lparr>version = JNum 7, doc_layers = [ld_layer fill_red]\<rparr>"
        and doc = "\<lparr>version = JNum 7, doc_layers = [ld_layer fill_red]\<rparr>" and env = env_ex
        and olLayer = "\<lparr>ol_style = None, ol_props = Map.empty\<rparr>" and source = "SourceName (u ''src'')"
        and ?resolutions0.0 = None and ?spriteData0.0 = None and ?spriteImage0.0 = None and s = s_init]
      version_mismatch_throws [where glStyle = "Inr \<lparr>version = JUndef, doc_layers = [ld_layer fill_red]\<rparr>"
        and doc = "\<lparr>version = JUndef, doc_layers = [ld_layer fill_red]\<rparr>" and env = env_ex
        and olLayer = "\<lparr>ol_style = None, ol_props = Map.empty\<rparr>" and source = "SourceName (u ''src'')"
        and ?resolutions0.0 = None and ?spriteData0.0 = None and ?spriteImage0.0 = None and s = s_init]
      version_mismatch_throws [where glStyle = "Inr \<lparr>version = JStr (u ''7''), doc_layers = [ld_layer fill_red]\<rparr>"
        and doc = "\<lparr>version = JStr (u ''7''), doc_layers = [ld_layer fill_red]\<rparr>" and env = env_ex
        and olLayer = "\<lparr>ol_style = None, ol_props = Map.empty\<rparr>" and source = "SourceName (u ''src'')"
        and ?resolutions0.0 = None and ?spriteData0.0 = None and ?spriteImage0.0 = None and s = s_init]
      n
    by simp
qed

text \<open>
  The claim as stated fails for a version that is not the number 8 but converts to it:
  with the string \<^verbatim>\<open>'8'\<close> the constructor returns a style function and sets it on
  the layer.
\<close>

theorem version_string_accepted:
  "\<not> isl (fst (stylefunction env_ex \<lparr>ol_style = None, ol_props = Map.empty\<rparr>
     (Inr \<lparr>version = JStr (u ''8''), doc_layers = [ld_layer fill_red]\<rparr>) (SourceName (u ''src''))
     None None None s_init)) \<and>
   ol_style (fst (snd (stylefunction env_ex \<lparr>ol_style = None, ol_props = Map.empty\<rparr>
     (Inr \<lparr>version = JStr (u ''8''), doc_layers = [ld_layer fill_red]\<rparr>) (SourceName (u ''src''))
     None None None s_init))) \<noteq> None"
  by (simp add: stylefunction_def Let_def loose_eq_num_def str_to_num_ex_simps split: prod.splits)

text \<open>
  C3 (as amended). For a polygon feature and a fill layer whose paint has \<^verbatim>\<open>fill-color\<close>
  and neither \<^verbatim>\<open>fill-pattern\<close> nor \<^verbatim>\<open>fill-outline-color\<close>, and whose layout has no
  \<^verbatim>\<open>text-field\<close>: when the resolved colour is visible (\<open>colorWithOpacity\<close> gives a
  colour), the layer takes exactly one slot, a fill of that colour, if
  \<^verbatim>\<open>fill-antialias\<close> is not in the paint bag, and exactly two if it is, the second a
  stroke of the same colour.
\<close>

theorem fill_layer_primitives:
  assumes "type = Some 3" and "layer_type (ld_layer layerData) = u ''fill''"
    and "''fill-color'' \<in> dom (bag_or_empty (paint (ld_layer layerData)))"
    and "''fill-pattern'' \<notin> dom (bag_or_empty (paint (ld_layer layerData)))"
    and "''fill-outline-color'' \<notin> dom (bag_or_empty (paint (ld_layer layerData)))"
    and "''text-field'' \<notin> dom (bag_or_empty (layout (ld_layer layerData)))"
    and "fst (getValue env (ld_layer layerData) ''paint'' ''fill-opacity'' zoom
               (FView (getProperties feature) type) s) = Inr opacity"
    and "fst (getValue env (ld_layer layerData) ''paint'' ''fill-color'' zoom
               (FView (getProperties feature) type) s) = Inr fillColor"
    and "colorWithOpacity env fillColor opacity = Some c"
    and "- 1 \<le> stylesLength s"
    and "layer_emit env cl layerData feature resolution zoom type s = (r, s')"
  shows "r = Inr () \<and>
         (''fill-antialias'' \<notin> dom (bag_or_empty (paint (ld_layer layerData))) \<longrightarrow>
            stylesLength s' = stylesLength s + 1 \<and>
            (\<exists>y. styles_get (styles s') (stylesLength s + 1) = Some y \<and>
                 s_fill y = Some \<lparr>fill_color = Some (FCss c)\<rparr> \<and> s_stroke y = None)) \<and>
         (''fill-antialias'' \<in> dom (bag_or_empty (paint (ld_layer layerData))) \<longrightarrow>
            stylesLength s' = stylesLength s + 2 \<and>
            (\<exists>y. styles_get (styles s') (stylesLength s + 1) = Some y \<and>
                 s_fill y = Some \<lparr>fill_color = Some (FCss c)\<rparr> \<and> s_stroke y = None) \<and>
            (\<exists>y k. styles_get (styles s') (stylesLength s + 2) = Some y \<and>
                 s_stroke y = Some k \<and> stroke_color k = Some c \<and> s_fill y = None))"
  using assms by (rule layer_emit_fill_color)

theorem fill_layer_primitives_witness:
  "stylesLength (snd (layer_emit env_ex (closure_ex []) fill_red (feature_ex ''Polygon'') 1 5 (Some 3) s_init)) = 0 \<and>
   stylesLength (snd (layer_emit env_ex (closure_ex []) fill_red_antialias (feature_ex ''Polygon'') 1 5 (Some 3) s_init)) = 1"
proof -
  have a: "fst (getValue env_ex (ld_layer fill_red) ''paint'' ''fill-opacity'' 5
             (FView (getProperties (feature_ex ''Polygon'')) (Some 3)) s_init) = Inr (JNum 1)"
    by (simp add: fill_red_def getValue_ex_const lookup_def bag_or_empty_def default_ex_def color_prop_def)
  have b: "fst (getValue env_ex (ld_layer fill_red) ''paint'' ''fill-color'' 5
             (FView (getProperties (feature_ex ''Polygon'')) (Some 3)) s_init) = Inr (JCol (Color 1 0 0 1))"
    by (simp add: fill_red_def getValue_ex_const lookup_def bag_or_empty_def default_ex_def color_prop_def color_parse_ex_def)
  have c: "colorWithOpacity env_ex (JCol (Color 1 0 0 1)) (JNum 1) = Some (Rgba 255 0 0 (JNum 1))"
    by (simp add: math_round_def)
  have a': "fst (getValue env_ex (ld_layer fill_red_antialias) ''paint'' ''fill-opacity'' 5
             (FView (getProperties (feature_ex ''Polygon'')) (Some 3)) s_init) = Inr (JNum 1)"
    by (simp add: fill_red_antialias_def getValue_ex_const lookup_def bag_or_empty_def default_ex_def color_prop_def)
  have b': "fst (getValue env_ex (ld_layer fill_red_antialias) ''paint'' ''fill-color'' 5
             (FView (getProperties (feature_ex ''Polygon'')) (Some 3)) s_init) = Inr (JCol (Color 1 0 0 1))"
    by (simp add: fill_red_antialias_def getValue_ex_const lookup_def bag_or_empty_def default_ex_def color_prop_def color_parse_ex_def)
  show ?thesis
    using fill_layer_primitives [OF refl _ _ _ _ _ a b c _ pair_collapse, of "closure_ex []" 1]
      fill_layer_primitives [OF refl _ _ _ _ _ a' b' c _ pair_collapse, of "closure_ex []" 1]
    by (simp add: fill_red_def fill_red_antialias_def bag_or_empty_def)
qed

text \<open>
  The claim as stated fails for a fully transparent fill colour: the layer takes no slot.
\<close>

theorem transparent_fill_counterexample:
  "fst (layer_emit env_ex (closure_ex []) fill_clear (feature_ex ''Polygon'') 32 5 (Some 3) s_init) = Inr () \<and>
   stylesLength (snd (layer_emit env_ex (closure_ex []) fill_clear (feature_ex ''Polygon'') 32 5 (Some 3) s_init)) = - 1 \<and>
   styles (snd (layer_emit env_ex (closure_ex []) fill_clear (feature_ex ''Polygon'') 32 5 (Some 3) s_init)) = []"
proof -
  have a: "fst (getValue env_ex (ld_layer fill_clear) ''paint'' ''fill-opacity'' 5
             (FView (getProperties (feature_ex ''Polygon'')) (Some 3)) s_init) = Inr (JNum 1)"
    by (simp add: fill_clear_def getValue_ex_const lookup_def bag_or_empty_def default_ex_def color_prop_def)
  have b: "fst (getValue env_ex (ld_layer fill_clear) ''paint'' ''fill-color'' 5
             (FView (getProperties (feature_ex ''Polygon'')) (Some 3)) s_init) = Inr (JCol (Color 0 0 0 0))"
    by (simp add: fill_clear_def getValue_ex_const lookup_def bag_or_empty_def default_ex_def color_prop_def color_parse_ex_def)
  have c: "colorWithOpacity env_ex (JCol (Color 0 0 0 0)) (JNum 1) = None"
    by simp
  have "layer_emit env_ex (closure_ex []) fill_clear (feature_ex ''Polygon'') 32 5 (Some 3) s_init =
        fill_part env_ex (closure_ex []) fill_clear 5 (Some 3) (getProperties (feature_ex ''Polygon'')) s_init"
    by (simp add: layer_emit_fill_layer fill_clear_def bag_or_empty_def)
  also have "\<dots> = (Inr (), s_init\<lparr>functionCache :=
                  gv_upd env_ex (ld_layer fill_clear) ''paint'' ''fill-color''
                    (gv_upd env_ex (ld_layer fill_clear) ''paint'' ''fill-opacity'' (functionCache s_init))\<rparr>)"
    by (rule fill_part_clear [OF _ _ _ _ a b c]) (simp_all add: fill_clear_def bag_or_empty_def)
  finally show ?thesis by simp
qed

text \<open>
  C4. For a feature that is not a point and a line layer: the fill branch does nothing;
  with \<^verbatim>\<open>line-pattern\<close> in the paint bag the line branch takes no slot and leaves the
  array as it was; so it does when the resolved \<^verbatim>\<open>line-width\<close> is not greater than 0
  under the comparison \<^verbatim>\<open>width > 0\<close> of the source (which converts the width: for a
  number x it is 0 < x); and when it returns with a stroke emitted, the stroke has the
  resolved width, which is greater than 0, and, with a \<^verbatim>\<open>line-dasharray\<close> in the paint
  bag, a dash list whose entries are the products \<^verbatim>\<open>x * width\<close> of the resolved ones.
\<close>

theorem line_layer_stroke:
  assumes "layer_type (ld_layer layerData) = u ''line''" and "type \<noteq> Some 1"
    and "- 1 \<le> stylesLength s"
    and "line_part env layerData zoom type properties s = (r, s')"
  shows "fill_part env cl layerData zoom type properties = ret () \<and>
         (''line-pattern'' \<in> dom (bag_or_empty (paint (ld_layer layerData))) \<longrightarrow>
            stylesLength s' = stylesLength s \<and> styles s' = styles s) \<and>
         (\<forall>w. fst (getValue env (ld_layer layerData) ''paint'' ''line-width'' zoom
                     (FView properties type) s) = Inr w \<and> \<not> js_gt env w 0 \<longrightarrow>
            stylesLength s' = stylesLength s \<and> styles s' = styles s) \<and>
         (\<forall>w. r = Inr () \<and> stylesLength s' \<noteq> stylesLength s \<and>
              fst (getValue env (ld_layer layerData) ''paint'' ''line-width'' zoom
                     (FView properties type) s) = Inr w \<longrightarrow>
            stylesLength s' = stylesLength s + 1 \<and> js_gt env w 0 \<and>
            ''line-pattern'' \<notin> dom (bag_or_empty (paint (ld_layer layerData))) \<and>
            (\<exists>y k. styles_get (styles s') (stylesLength s + 1) = Some y \<and> s_stroke y = Some k \<and>
               stroke_width k = w \<and>
               (\<forall>dashes.
                  truthy (lookup (bag_or_empty (paint (ld_layer layerData))) ''line-dasharray'') \<and>
                  fst (getValue env (ld_layer layerData) ''paint'' ''line-dasharray'' zoom
                         (FView properties type) s) = Inr (JArr dashes) \<longrightarrow>
                  lineDash k = Some (map (\<lambda>x. js_mul env x w) dashes)))) \<and>
         (\<forall>x. js_gt env (JNum x) 0 \<longleftrightarrow> 0 < x)"
proof (intro conjI allI impI)
  show "fill_part env cl layerData zoom type properties = ret ()"
    using assms(1) by (simp add: fill_part_other_type)
next
  assume "''line-pattern'' \<in> dom (bag_or_empty (paint (ld_layer layerData)))"
  then show "stylesLength s' = stylesLength s" "styles s' = styles s"
    using line_part_no_pattern_frame [OF _ assms(4)] by simp_all
next
  fix w
  assume "fst (getValue env (ld_layer layerData) ''paint'' ''line-width'' zoom
                     (FView properties type) s) = Inr w \<and> \<not> js_gt env w 0"
  then show "stylesLength s' = stylesLength s" "styles s' = styles s"
    using line_part_width_frame [OF _ _ assms(4)] by simp_all
next
  fix w
  assume a: "r = Inr () \<and> stylesLength s' \<noteq> stylesLength s \<and>
              fst (getValue env (ld_layer layerData) ''paint'' ''line-width'' zoom
                     (FView properties type) s) = Inr w"
  with assms(4) have run: "line_part env layerData zoom type properties s = (Inr (), s')"
    by simp
  from a have d: "stylesLength s' \<noteq> stylesLength s"
    and w: "fst (getValue env (ld_layer layerData) ''paint'' ''line-width'' zoom
                     (FView properties type) s) = Inr w"
    by simp_all
  note dash = line_part_dash [OF run d assms(3) w]
  from dash show "stylesLength s' = stylesLength s + 1" by simp
  from dash show "js_gt env w 0" by simp
  from dash show "''line-pattern'' \<notin> dom (bag_or_empty (paint (ld_layer layerData)))" by simp
  from dash show "\<exists>y k. styles_get (styles s') (stylesLength s + 1) = Some y \<and> s_stroke y = Some k \<and>
               stroke_width k = w \<and>
               (\<forall>dashes.
                  truthy (lookup (bag_or_empty (paint (ld_layer layerData))) ''line-dasharray'') \<and>
                  fst (getValue env (ld_layer layerData) ''paint'' ''line-dasharray'' zoom
                         (FView properties type) s) = Inr (JArr dashes) \<longrightarrow>
                  lineDash k = Some (map (\<lambda>x. js_mul env x w) dashes))"
    by simp
next
  fix x :: real
  show "js_gt env (JNum x) 0 \<longleftrightarrow> 0 < x" by simp
qed

theorem line_layer_stroke_witness:
  "(\<exists>y k. styles_get (styles (snd (line_part env_ex line_dashed 5 (Some 2) Map.empty s_init))) 0 = Some y \<and>
          s_stroke y = Some k \<and> stroke_width k = JNum 3 \<and> lineDash k = Some [JNum 6, JNum 3]) \<and>
   (\<exists>y k. styles_get (styles (snd (line_part env_ex line_text_width 5 (Some 2) Map.empty s_init))) 0 = Some y \<and>
          s_stroke y = Some k \<and> stroke_width k = JStr (u ''3'') \<and>
          lineDash k = Some [JNum 6, JNum 3, JNaN]) \<and>
   stylesLength (snd (line_part env_ex line_zero 5 (Some 2) Map.empty s_init)) = - 1 \<and>
   stylesLength (snd (line_part env_ex line_patterned 5 (Some 2) Map.empty s_init)) = - 1"
proof -
  let ?f = "FView Map.empty (Some 2)"
  have w: "fst (getValue env_ex (ld_layer line_dashed) ''paint'' ''line-width'' 5 ?f s_init) = Inr (JNum 3)"
    by (simp add: line_dashed_def getValue_ex_const lookup_def bag_or_empty_def)
  have d: "fst (getValue env_ex (ld_layer line_dashed) ''paint'' ''line-dasharray'' 5 ?f s_init) =
             Inr (JArr [JNum 2, JNum 1])"
    by (simp add: line_dashed_def getValue_ex_const lookup_def bag_or_empty_def)
  have "\<exists>s'. line_part env_ex line_dashed 5 (Some 2) Map.empty s_init = (Inr (), s') \<and>
              stylesLength s' = stylesLength s_init + 1"
    by (rule line_part_emit [where lineColor = "JCol (Color 1 0 0 1)" and lineOpacity = "JNum 1"
          and w = "JNum 3" and c = "Rgba 255 0 0 (JNum 1)" and cap = "JStr (u ''butt'')"
          and joinv = "JStr (u ''miter'')" and miter = "JNum 2" and dashes = "[JNum 2, JNum 1]"])
       (simp_all add: line_dashed_def getValue_ex_const lookup_def bag_or_empty_def math_round_def)
  then obtain s' where run: "line_part env_ex line_dashed 5 (Some 2) Map.empty s_init = (Inr (), s')"
    and len: "stylesLength s' = 0"
    by auto
  have n: "str_to_num env_ex (u ''3'') = Some 3" "str_to_num env_ex (u ''1'') = Some 1"
    "str_to_num env_ex (u ''x'') = None"
    by (simp_all add: str_to_num_ex_simps)
  have wt: "fst (getValue env_ex (ld_layer line_text_width) ''paint'' ''line-width'' 5 ?f s_init) = Inr (JStr (u ''3''))"
    by (simp add: line_text_width_def getValue_ex_const lookup_def bag_or_empty_def)
  have dt: "fst (getValue env_ex (ld_layer line_text_width) ''paint'' ''line-dasharray'' 5 ?f s_init) =
             Inr (JArr [JNum 2, JStr (u ''1''), JStr (u ''x'')])"
    by (simp add: line_text_width_def getValue_ex_const lookup_def bag_or_empty_def)
  have "\<exists>s'. line_part env_ex line_text_width 5 (Some 2) Map.empty s_init = (Inr (), s') \<and>
              stylesLength s' = stylesLength s_init + 1"
    by (rule line_part_emit [where lineColor = "JCol (Color 1 0 0 1)" and lineOpacity = "JNum 1"
          and w = "JStr (u ''3'')" and c = "Rgba 255 0 0 (JNum 1)" and cap = "JStr (u ''butt'')"
          and joinv = "JStr (u ''miter'')" and miter = "JNum 2"
          and dashes = "[JNum 2, JStr (u ''1''), JStr (u ''x'')]"])
       (simp_all add: line_text_width_def getValue_ex_const lookup_def bag_or_empty_def math_round_def
          js_gt_def n)
  then obtain t' where runt: "line_part env_ex line_text_width 5 (Some 2) Map.empty s_init = (Inr (), t')"
    and lent: "stylesLength t' = 0"
    by auto
  have m: "js_mul env_ex (JNum 2) (JStr (u ''3'')) = JNum 6"
    "js_mul env_ex (JStr (u ''1'')) (JStr (u ''3'')) = JNum 3"
    "js_mul env_ex (JStr (u ''x'')) (JStr (u ''3'')) = JNaN"
    by (simp_all add: js_mul_def n)
  have w0: "fst (getValue env_ex (ld_layer line_zero) ''paint'' ''line-width'' 5 ?f s_init) = Inr (JNum 0)"
    by (simp add: line_zero_def getValue_ex_const lookup_def bag_or_empty_def)
  have A: "\<exists>y k. styles_get (styles (snd (line_part env_ex line_dashed 5 (Some 2) Map.empty s_init))) 0 = Some y \<and>
          s_stroke y = Some k \<and> stroke_width k = JNum 3 \<and> lineDash k = Some [JNum 6, JNum 3]"
    using line_layer_stroke [of line_dashed "Some 2" s_init env_ex 5 Map.empty "Inr ()" s' "closure_ex []"]
      run len w d
    by (simp add: line_dashed_def bag_or_empty_def lookup_def)
  have B: "\<exists>y k. styles_get (styles (snd (line_part env_ex line_text_width 5 (Some 2) Map.empty s_init))) 0 = Some y \<and>
          s_stroke y = Some k \<and> stroke_width k = JStr (u ''3'') \<and>
          lineDash k = Some [JNum 6, JNum 3, JNaN]"
    using line_layer_stroke [of line_text_width "Some 2" s_init env_ex 5 Map.empty "Inr ()" t' "closure_ex []"]
      runt lent wt dt m
    by (simp add: line_text_width_def bag_or_empty_def lookup_def)
  have C: "stylesLength (snd (line_part env_ex line_zero 5 (Some 2) Map.empty s_init)) = - 1"
    using line_layer_stroke [OF _ _ _ pair_collapse, where layerData = line_zero and type = "Some 2"
        and s = s_init and env = env_ex and zoom = 5 and properties = Map.empty and cl = "closure_ex []"]
      w0
    by (simp add: line_zero_def)
  have D: "stylesLength (snd (line_part env_ex line_patterned 5 (Some 2) Map.empty s_init)) = - 1"
    using line_layer_stroke [OF _ _ _ pair_collapse, where layerData = line_patterned and type = "Some 2"
        and s = s_init and env = env_ex and zoom = 5 and properties = Map.empty and cl = "closure_ex []"]
    by (simp add: line_patterned_def bag_or_empty_def)
  from A B C D show ?thesis by simp
qed

text \<open>
  C5. The circle branch reads the icon cache under the circle's key and never writes it:
  after a first evaluation of a circle layer the cache is still empty, and a second
  evaluation with the same resolved values builds a circle again.
\<close>

theorem circle_never_stored:
  "iconImageCache (snd (circle_part env_ex circle_plain 5 (Some 1) Map.empty (False, None, False) s_init)) = Map.empty \<and>
   (\<exists>y circ. styles_get (styles (snd (circle_part env_ex circle_plain 5 (Some 1) Map.empty (False, None, False)
        ((snd (circle_part env_ex circle_plain 5 (Some 1) Map.empty (False, None, False) s_init))
           \<lparr>stylesLength := - 1\<rparr>)))) 0 = Some y \<and>
      s_image y = Some (OwnCircle circ))"
proof -
  let ?s1 = "snd (circle_part env_ex circle_plain 5 (Some 1) Map.empty (False, None, False) s_init)"
  let ?s2 = "?s1\<lparr>stylesLength := - 1\<rparr>"
  let ?g = "\<lambda>p. fst (getValue env_ex (ld_layer circle_plain) ''paint'' p 5 (FView Map.empty (Some 1)) ?s2)"
  have c1: "iconImageCache ?s1 = Map.empty"
    using keepsD [OF circle_part_keeps_cache pair_collapse, of env_ex circle_plain 5 "Some 1" Map.empty "(False, None, False)" s_init]
    by simp
  obtain res s3 where r: "circle_part env_ex circle_plain 5 (Some 1) Map.empty (False, None, False) ?s2 = (Inr res, s3)"
    using circle_part_ex_runs [of circle_plain 5 Map.empty "(False, None, False)" ?s2]
    by (auto simp: circle_plain_def bag_or_empty_def)
  have ex: "\<exists>v. ?g p = Inr v" for p
    by (simp add: fst_getValue gv_res_ex_total)
  obtain v1 where v1: "?g ''circle-radius'' = Inr v1" using ex by blast
  obtain v2 where v2: "?g ''circle-stroke-color'' = Inr v2" using ex by blast
  obtain v3 where v3: "?g ''circle-color'' = Inr v3" using ex by blast
  obtain v4 where v4: "?g ''circle-opacity'' = Inr v4" using ex by blast
  obtain v5 where v5: "?g ''circle-stroke-width'' = Inr v5" using ex by blast
  obtain v6 where v6: "?g ''circle-stroke-opacity'' = Inr v6" using ex by blast
  note v = v1 v2 v3 v4 v5 v6
  from circle_part_Inr [OF r refl _ _ v] c1 r show ?thesis
    by (auto simp: circle_plain_def bag_or_empty_def)
qed

text \<open>
  C6. For a point feature and a layer with \<^verbatim>\<open>circle-radius\<close> in its paint bag, when the
  circle branch returns it has taken one slot. Unless an object is cached under the key
  of this circle (the branch itself never stores one), the image of the slot is a new
  circle of the resolved radius, which has no stroke when the resolved
  \<^verbatim>\<open>circle-stroke-width\<close> is 0 and a stroke of that width, in the resolved stroke
  colour, otherwise; and if an object is cached under that key, the image is that object.
\<close>

theorem circle_stroke_width:
  assumes "circle_part env layerData zoom type properties vars s = (Inr res, s')"
    and "type = Some 1" and "''circle-radius'' \<in> dom (bag_or_empty (paint (ld_layer layerData)))"
    and "- 1 \<le> stylesLength s"
    and "fst (getValue env (ld_layer layerData) ''paint'' ''circle-radius'' zoom
               (FView properties type) s) = Inr radius"
    and "fst (getValue env (ld_layer layerData) ''paint'' ''circle-stroke-color'' zoom
               (FView properties type) s) = Inr strokeColor"
    and "fst (getValue env (ld_layer layerData) ''paint'' ''circle-color'' zoom
               (FView properties type) s) = Inr color"
    and "fst (getValue env (ld_layer layerData) ''paint'' ''circle-opacity'' zoom
               (FView properties type) s) = Inr opacity"
    and "fst (getValue env (ld_layer layerData) ''paint'' ''circle-stroke-width'' zoom
               (FView properties type) s) = Inr strokeWidth"
    and "fst (getValue env (ld_layer layerData) ''paint'' ''circle-stroke-opacity'' zoom
               (FView properties type) s) = Inr strokeOpacity"
  shows "stylesLength s' = stylesLength s + 1 \<and>
         (\<exists>y. styles_get (styles s') (stylesLength s + 1) = Some y \<and>
              (iconImageCache s (circle_key env radius strokeColor color opacity
                                   strokeWidth strokeOpacity) = None \<longrightarrow>
                 (\<exists>circ. s_image y = Some (OwnCircle circ) \<and> c_radius circ = radius \<and>
                    (strokeWidth = JNum 0 \<longrightarrow> c_stroke circ = None) \<and>
                    (strokeWidth \<noteq> JNum 0 \<longrightarrow>
                       (\<exists>k. c_stroke circ = Some k \<and> stroke_width k = strokeWidth \<and>
                            stroke_color k = colorWithOpacity env strokeColor strokeOpacity)))) \<and>
              (iconImageCache s (circle_key env radius strokeColor color opacity
                                   strokeWidth strokeOpacity) \<noteq> None \<longrightarrow>
                 s_image y = Some (CachedImage (circle_key env radius strokeColor color opacity
                                                  strokeWidth strokeOpacity))))"
proof -
  note r = circle_part_Inr [OF assms]
  note c = new_Circle_stroke [of env radius strokeColor color opacity strokeWidth strokeOpacity]
  from r c show ?thesis
    by auto
qed

theorem circle_stroke_width_witness:
  "(\<exists>y circ. styles_get (styles (snd (circle_part env_ex circle_plain 5 (Some 1) Map.empty
                 (False, None, False) s_marker))) 0 = Some y \<and>
      s_image y = Some (OwnCircle circ) \<and> c_radius circ = JNum 5 \<and> c_stroke circ = None) \<and>
   (\<exists>y circ k. styles_get (styles (snd (circle_part env_ex circle_ringed 5 (Some 1) Map.empty
                 (False, None, False) s_marker))) 0 = Some y \<and>
      s_image y = Some (OwnCircle circ) \<and> c_stroke circ = Some k \<and> stroke_width k = JNum 2 \<and>
      stroke_color k = Some (Rgba 0 0 0 (JNum 1)))"
proof -
  let ?f = "FView Map.empty (Some 1)"
  have i: "functionCache s_marker = Map.empty" "stylesLength s_marker = - 1"
    by (simp_all add: s_marker_def)
  obtain res1 s1 where r1: "circle_part env_ex circle_plain 5 (Some 1) Map.empty (False, None, False) s_marker = (Inr res1, s1)"
    using circle_part_ex_runs [of circle_plain 5 Map.empty "(False, None, False)" s_marker]
    by (auto simp: circle_plain_def bag_or_empty_def)
  obtain res2 s2 where r2: "circle_part env_ex circle_ringed 5 (Some 1) Map.empty (False, None, False) s_marker = (Inr res2, s2)"
    using circle_part_ex_runs [of circle_ringed 5 Map.empty "(False, None, False)" s_marker]
    by (auto simp: circle_ringed_def bag_or_empty_def)
  have v1: "fst (getValue env_ex (ld_layer circle_plain) ''paint'' ''circle-radius'' 5 ?f s_marker) = Inr (JNum 5)"
    "fst (getValue env_ex (ld_layer circle_plain) ''paint'' ''circle-stroke-color'' 5 ?f s_marker) = Inr (JCol (Color 0 0 0 1))"
    "fst (getValue env_ex (ld_layer circle_plain) ''paint'' ''circle-color'' 5 ?f s_marker) = Inr (JCol (Color 0 0 0 1))"
    "fst (getValue env_ex (ld_layer circle_plain) ''paint'' ''circle-opacity'' 5 ?f s_marker) = Inr (JNum 1)"
    "fst (getValue env_ex (ld_layer circle_plain) ''paint'' ''circle-stroke-width'' 5 ?f s_marker) = Inr (JNum 0)"
    "fst (getValue env_ex (ld_layer circle_plain) ''paint'' ''circle-stroke-opacity'' 5 ?f s_marker) = Inr (JNum 1)"
    by (simp_all add: circle_plain_def getValue_ex_const lookup_def bag_or_empty_def i)
  have v2: "fst (getValue env_ex (ld_layer circle_ringed) ''paint'' ''circle-radius'' 5 ?f s_marker) = Inr (JNum 5)"
    "fst (getValue env_ex (ld_layer circle_ringed) ''paint'' ''circle-stroke-color'' 5 ?f s_marker) = Inr (JCol (Color 0 0 0 1))"
    "fst (getValue env_ex (ld_layer circle_ringed) ''paint'' ''circle-color'' 5 ?f s_marker) = Inr (JCol (Color 0 0 0 1))"
    "fst (getValue env_ex (ld_layer circle_ringed) ''paint'' ''circle-opacity'' 5 ?f s_marker) = Inr (JNum 1)"
    "fst (getValue env_ex (ld_layer circle_ringed) ''paint'' ''circle-stroke-width'' 5 ?f s_marker) = Inr (JNum 2)"
    "fst (getValue env_ex (ld_layer circle_ringed) ''paint'' ''circle-stroke-opacity'' 5 ?f s_marker) = Inr (JNum 1)"
    by (simp_all add: circle_ringed_def getValue_ex_const lookup_def bag_or_empty_def i)
  have k: "iconImageCache s_marker (u ''5.rgba.rgba.1.0.1'') = None"
    "iconImageCache s_marker (u ''5.rgba.rgba.1.2.1'') = None"
    by (simp_all add: s_marker_def)
  have c: "colorWithOpacity env_ex (JCol (Color 0 0 0 1)) (JNum 1) = Some (Rgba 0 0 0 (JNum 1))"
    by (simp add: math_round_def)
  have A: "\<exists>y circ. styles_get (styles (snd (circle_part env_ex circle_plain 5 (Some 1) Map.empty
                 (False, None, False) s_marker))) 0 = Some y \<and>
      s_image y = Some (OwnCircle circ) \<and> c_radius circ = JNum 5 \<and> c_stroke circ = None"
    using circle_stroke_width [OF r1 refl _ _ v1] r1 k
    by (auto simp: circle_plain_def bag_or_empty_def i circle_key_ex)
  have B: "\<exists>y circ k. styles_get (styles (snd (circle_part env_ex circle_ringed 5 (Some 1) Map.empty
                 (False, None, False) s_marker))) 0 = Some y \<and>
      s_image y = Some (OwnCircle circ) \<and> c_stroke circ = Some k \<and> stroke_width k = JNum 2 \<and>
      stroke_color k = Some (Rgba 0 0 0 (JNum 1))"
    using circle_stroke_width [OF r2 refl _ _ v2] r2 k c
    by (auto simp: circle_ringed_def bag_or_empty_def i circle_key_ex)
  from A B show ?thesis by simp
qed

text \<open>
  C7 (as amended). With a text measurement under which a string is at least as wide as
  each of its prefixes and suffixes, a budget \<^verbatim>\<open>em\<close> that converts to a number, and on a
  first request for the text (no wrapped string cached under its key): \<open>wrapText\<close>
  returns the lines joined by line feeds; in a text with no code unit in the range 4E00
  to 9FA5, a non-empty word (a piece between spaces) that is wider than the budget is one
  of the lines, whole; in a text with a code unit in that range, a single code unit that
  is wider than the budget is one of the lines; and a text of the first kind that is one
  such word is returned as it is.
\<close>

theorem long_word_own_line:
  assumes "\<forall>a b. measureText env font b \<le> measureText env font (a @ b) \<and>
                 measureText env font a \<le> measureText env font (a @ b)"
    and "to_number env em = Some e"
    and "measureText env font w > measureText env font (u ''M'') * e"
    and "w \<noteq> []"
    and "measureCache s (wrap_key env txt font em) = None \<or>
         measureCache s (wrap_key env txt font em) = Some []"
  shows "fst (wrapText env txt font em s) = Inr (join [10] (wrap_lines env txt font em)) \<and>
         (\<not> (\<exists>c \<in> set txt. cjk c) \<and> w \<in> set (split_on 32 txt) \<longrightarrow>
            w \<in> set (wrap_lines env txt font em)) \<and>
         ((\<exists>c \<in> set txt. cjk c) \<and> (\<exists>c \<in> set txt. w = [c]) \<longrightarrow>
            w \<in> set (wrap_lines env txt font em)) \<and>
         (\<not> (\<exists>c \<in> set txt. cjk c) \<and> 32 \<notin> set txt \<and> txt = w \<longrightarrow>
            fst (wrapText env txt font em s) = Inr w)"
proof -
  have run: "fst (wrapText env txt font em s) = Inr (join [10] (wrap_lines env txt font em))"
    using assms(5) by (auto simp: wrapText_def Let_def)
  note lines = wrap_lines_long [OF assms(1) assms(3) assms(4) assms(2), of "txt"]
  from lines have single: "\<not> (\<exists>c \<in> set txt. cjk c) \<and> 32 \<notin> set txt \<and> txt = w \<longrightarrow>
      wrap_lines env txt font em = [w]"
    by blast
  from run lines single show ?thesis
    by (auto simp del: split_paired_Ex)
qed

theorem long_word_own_line_witness:
  "fst (wrapText env_ex (u ''supercalifragilisticexpialidocious'') (u ''sans'') (JNum 4) s_init) =
     Inr (u ''supercalifragilisticexpialidocious'') \<and>
   u ''supercalifragilisticexpialidocious'' \<in>
     set (wrap_lines env_ex (u ''a supercalifragilisticexpialidocious b'') (u ''sans'') (JNum 4)) \<and>
   [20320] \<in> set (wrap_lines env_ex [20320, 22909] (u ''sans'') (JNum (1 / 2)))"
proof -
  have d: "split_on 32 (u ''a supercalifragilisticexpialidocious b'') =
            [u ''a'', u ''supercalifragilisticexpialidocious'', u ''b'']"
    by (simp add: u_def)
  have n: "32 \<notin> set (u ''supercalifragilisticexpialidocious'')"
    "\<not> (\<exists>c \<in> set (u ''supercalifragilisticexpialidocious''). cjk c)"
    "\<not> (\<exists>c \<in> set (u ''a supercalifragilisticexpialidocious b''). cjk c)"
    by (simp_all add: u_def cjk_def)
  have o: "measureText env_ex (u ''sans'') (u ''supercalifragilisticexpialidocious'') >
           measureText env_ex (u ''sans'') (u ''M'') * 4"
    "measureText env_ex (u ''sans'') [20320] > measureText env_ex (u ''sans'') (u ''M'') * (1 / 2)"
    by (simp_all add: env_ex_def u_def)
  have e: "to_number env_ex (JNum 4) = Some 4" "to_number env_ex (JNum (1 / 2)) = Some (1 / 2)"
    by simp_all
  have k: "\<exists>c \<in> set [20320, 22909]. cjk c"
    by (simp add: cjk_def)
  have ne: "u ''supercalifragilisticexpialidocious'' \<noteq> []" "[20320::nat] \<noteq> []"
    by (simp_all add: u_def)
  have miss: "\<And>k. measureCache s_init k = None \<or> measureCache s_init k = Some []"
    by simp
  have m: "u ''supercalifragilisticexpialidocious'' \<in>
             set (split_on 32 (u ''a supercalifragilisticexpialidocious b''))"
    by (simp add: d)
  have c: "\<exists>c \<in> set [20320, 22909]. [20320::nat] = [c]"
    by simp
  have A: "fst (wrapText env_ex (u ''supercalifragilisticexpialidocious'') (u ''sans'') (JNum 4) s_init) =
             Inr (u ''supercalifragilisticexpialidocious'')"
    using long_word_own_line [OF measure_ex_mono e(1) o(1) ne(1) miss, of "u ''supercalifragilisticexpialidocious''"] n
    by blast
  have B: "u ''supercalifragilisticexpialidocious'' \<in>
     set (wrap_lines env_ex (u ''a supercalifragilisticexpialidocious b'') (u ''sans'') (JNum 4))"
    using long_word_own_line [OF measure_ex_mono e(1) o(1) ne(1) miss, of "u ''a supercalifragilisticexpialidocious b''"] n m
    by blast
  have C: "[20320] \<in> set (wrap_lines env_ex [20320, 22909] (u ''sans'') (JNum (1 / 2)))"
    using long_word_own_line [OF measure_ex_mono e(2) o(2) ne(2) miss, of "[20320, 22909]"] k c
    by blast
  from A B C show ?thesis by simp
qed

text \<open>
  The claim as stated fails for a text that has both words and a code unit in the range:
  the text is then packed unit by unit, and a word wider than the budget is cut.
\<close>

theorem mixed_text_word_cut:
  "wrap_lines env_ex (u ''abcdefgh '' @ [20320]) (u ''sans'') (JNum 4) =
     [u ''abcd'', u ''efgh'', [32, 20320]] \<and>
   fst (wrapText env_ex (u ''abcdefgh '' @ [20320]) (u ''sans'') (JNum 4) s_init) =
     Inr (u ''abcd'' @ [10] @ u ''efgh'' @ [10, 32, 20320]) \<and>
   measureText env_ex (u ''sans'') (u ''abcdefgh'') > measureText env_ex (u ''sans'') (u ''M'') * 4"
proof -
  have m: "measureText env_ex font str = 10 * real (length str)" for font str
    by (simp add: env_ex_def)
  have k: "cjk 20320" by (simp add: cjk_def)
  have l: "wrap_lines env_ex (u ''abcdefgh '' @ [20320]) (u ''sans'') (JNum 4) =
     [u ''abcd'', u ''efgh'', [32, 20320]]"
    by (simp add: wrap_lines_def wrap_words_def wrapChineseText_def m k u_def)
  have "fst (wrapText env_ex (u ''abcdefgh '' @ [20320]) (u ''sans'') (JNum 4) s_init) =
          Inr (join [10] (wrap_lines env_ex (u ''abcdefgh '' @ [20320]) (u ''sans'') (JNum 4)))"
    by (simp add: wrapText_miss)
  with l show ?thesis
    by (simp add: m u_def)
qed

text \<open>
  C8. The anchor offset computed from an icon anchor keyword: the four corner keywords
  give (0,0), left gives (0,0.5), right (1,0.5), bottom (0.5,1), top (0.5,0), and
  center or any other value gives (0.5,0.5).
\<close>

theorem covertIconAnchor_offset:
  "anchorOffset (covertIconAnchor v) =
     (if v = JStr (u ''top-left'') \<or> v = JStr (u ''top-right'') \<or>
         v = JStr (u ''bottom-left'') \<or> v = JStr (u ''bottom-right'') then (0, 0)
      else if v = JStr (u ''left'') then (0, 1 / 2)
      else if v = JStr (u ''right'') then (1, 1 / 2)
      else if v = JStr (u ''bottom'') then (1 / 2, 1)
      else if v = JStr (u ''top'') then (1 / 2, 0)
      else (1 / 2, 1 / 2))"
  by (simp add: covertIconAnchor_def)

theorem covertIconAnchor_offset_witness:
  "anchorOffset (covertIconAnchor (JStr (u ''top-right''))) = (0, 0) \<and>
   anchorOffset (covertIconAnchor (JStr (u ''left''))) = (0, 1 / 2) \<and>
   anchorOffset (covertIconAnchor (JStr (u ''right''))) = (1, 1 / 2) \<and>
   anchorOffset (covertIconAnchor (JStr (u ''bottom''))) = (1 / 2, 1) \<and>
   anchorOffset (covertIconAnchor (JStr (u ''top''))) = (1 / 2, 0) \<and>
   anchorOffset (covertIconAnchor (JStr (u ''center''))) = (1 / 2, 1 / 2) \<and>
   anchorOffset (covertIconAnchor JUndef) = (1 / 2, 1 / 2)"
  using covertIconAnchor_offset [of "JStr (u ''top-right'')"]
    covertIconAnchor_offset [of "JStr (u ''left'')"]
    covertIconAnchor_offset [of "JStr (u ''right'')"]
    covertIconAnchor_offset [of "JStr (u ''bottom'')"]
    covertIconAnchor_offset [of "JStr (u ''top'')"]
    covertIconAnchor_offset [of "JStr (u ''center'')"]
    covertIconAnchor_offset [of JUndef]
  by simp

text \<open>
  C9. Two calls of the style function with the same feature and resolution do not always
  give the same labels. \<open>wrapText\<close> keys its cache by \<^verbatim>\<open>em + ',' + font + ',' + text\<close>,
  so the font \<^verbatim>\<open>A,B\<close> with the text of one blank and the font \<^verbatim>\<open>A\<close> with the text
  \<^verbatim>\<open>B, \<close> share a key; the blank wraps to the empty string, which is cached but counts
  as a miss, so the second layer overwrites the entry. The first call labels the first
  layer with the empty string, the second call with the text of the other layer.
\<close>

theorem measure_key_collision:
  "labels (styleFunction env_ex (closure_ex [ld_layer text_a, ld_layer text_b]) (feature_ex ''Point'') 32 s_init) =
     [Some [], Some (u ''B, '')] \<and>
   labels (styleFunction env_ex (closure_ex [ld_layer text_a, ld_layer text_b]) (feature_ex ''Point'') 32
     (snd (styleFunction env_ex (closure_ex [ld_layer text_a, ld_layer text_b]) (feature_ex ''Point'') 32 s_init))) =
     [Some (u ''B, ''), Some (u ''B, '')]"
  by (simp add: call_defs run_defs
     del: bnd_modify bnd_upd_style bnd_assoc put_style_fc advance_fc slot_or_new_fc cur_style_fc upd_stroke_run
     cong: bnd_cong3)

text \<open>
  C10 (as amended). For a colour object, \<open>colorWithOpacity\<close> returns nothing exactly when
  the alpha of the colour is 0 or the opacity is the number 0; an undefined opacity counts
  as 1; and otherwise the result is the colour with its channels divided by the
  (non-zero) alpha and with the alpha \<^verbatim>\<open>a * opacity\<close>, the product of the source: for
  a number it is the product of the reals, for an opacity that does not convert it is NaN.
\<close>

theorem colorWithOpacity_defined:
  "(colorWithOpacity env (JCol c) opacity = None \<longleftrightarrow> col_a c = 0 \<or> opacity = JNum 0) \<and>
   colorWithOpacity env (JCol c) JUndef = colorWithOpacity env (JCol c) (JNum 1) \<and>
   (col_a c \<noteq> 0 \<and> opacity \<noteq> JNum 0 \<longrightarrow>
      colorWithOpacity env (JCol c) opacity =
        Some (Rgba (math_round (col_r c * 255 / col_a c)) (math_round (col_g c * 255 / col_a c))
                   (math_round (col_b c * 255 / col_a c))
                   (js_mul env (JNum (col_a c)) (if opacity = JUndef then JNum 1 else opacity)))) \<and>
   (\<forall>x. js_mul env (JNum (col_a c)) (JNum x) = JNum (col_a c * x)) \<and>
   (to_number env opacity = None \<longrightarrow> js_mul env (JNum (col_a c)) opacity = JNaN)"
  by (simp add: Let_def js_mul_nan)

theorem colorWithOpacity_defined_witness:
  "colorWithOpacity env_ex (JCol (Color (1/2) (1/4) 0 (1/2))) (JNum (1/2)) = Some (Rgba 255 128 0 (JNum (1/4))) \<and>
   colorWithOpacity env_ex (JCol (Color (1/2) (1/4) 0 0)) (JNum (1/2)) = None \<and>
   colorWithOpacity env_ex (JCol (Color (1/2) (1/4) 0 (1/2))) (JNum 0) = None \<and>
   colorWithOpacity env_ex (JCol (Color (1/2) (1/4) 0 (1/2))) JUndef = Some (Rgba 255 128 0 (JNum (1/2))) \<and>
   colorWithOpacity env_ex (JCol (Color (1/2) (1/4) 0 (1/2))) (JStr (u ''0.5'')) = Some (Rgba 255 128 0 (JNum (1/4))) \<and>
   colorWithOpacity env_ex (JCol (Color (1/2) (1/4) 0 (1/2))) (JStr (u ''x'')) = Some (Rgba 255 128 0 JNaN)"
proof -
  have n: "str_to_num env_ex (u ''0.5'') = Some (1 / 2)" "str_to_num env_ex (u ''x'') = None"
    by (simp_all add: str_to_num_ex_simps)
  have m: "js_mul env_ex (JNum (1/2)) (JStr (u ''0.5'')) = JNum (1/4)"
    by (simp add: js_mul_def n)
  show ?thesis
    using colorWithOpacity_defined [of env_ex "Color (1/2) (1/4) 0 (1/2)" "JNum (1/2)"]
        colorWithOpacity_defined [of env_ex "Color (1/2) (1/4) 0 0" "JNum (1/2)"]
        colorWithOpacity_defined [of env_ex "Color (1/2) (1/4) 0 (1/2)" "JNum 0"]
        colorWithOpacity_defined [of env_ex "Color (1/2) (1/4) 0 (1/2)" "JUndef"]
        colorWithOpacity_defined [of env_ex "Color (1/2) (1/4) 0 (1/2)" "JStr (u ''0.5'')"]
        colorWithOpacity_defined [of env_ex "Color (1/2) (1/4) 0 (1/2)" "JStr (u ''x'')"]
        n m
    by (simp add: math_round_def)
qed

text \<open>
  The claim as stated fails in its remark that a transparent colour suppresses the
  primitive: a circle layer whose colour resolves to nothing still takes its slot, with
  a circle whose fill has no colour.
\<close>

theorem transparent_circle_emitted:
  "colorWithOpacity env_ex (JCol (Color 0 0 0 0)) (JNum 1) = None \<and>
   stylesLength (snd (circle_part env_ex circle_clear 5 (Some 1) Map.empty (False, None, False) s_init)) = 0 \<and>
   map_option s_image
     (styles_get (styles (snd (circle_part env_ex circle_clear 5 (Some 1) Map.empty (False, None, False) s_init))) 0) =
     Some (Some (OwnCircle \<lparr>c_radius = JNum 5, c_stroke = None, c_fill = \<lparr>fill_color = None\<rparr>\<rparr>))"
proof -
  let ?f = "FView Map.empty (Some 1)"
  obtain res s1 where r: "circle_part env_ex circle_clear 5 (Some 1) Map.empty (False, None, False) s_init = (Inr res, s1)"
    using circle_part_ex_runs [of circle_clear 5 Map.empty "(False, None, False)" s_init]
    by (auto simp: circle_clear_def bag_or_empty_def)
  have v: "fst (getValue env_ex (ld_layer circle_clear) ''paint'' ''circle-radius'' 5 ?f s_init) = Inr (JNum 5)"
    "fst (getValue env_ex (ld_layer circle_clear) ''paint'' ''circle-stroke-color'' 5 ?f s_init) = Inr (JCol (Color 0 0 0 1))"
    "fst (getValue env_ex (ld_layer circle_clear) ''paint'' ''circle-color'' 5 ?f s_init) = Inr (JCol (Color 0 0 0 0))"
    "fst (getValue env_ex (ld_layer circle_clear) ''paint'' ''circle-opacity'' 5 ?f s_init) = Inr (JNum 1)"
    "fst (getValue env_ex (ld_layer circle_clear) ''paint'' ''circle-stroke-width'' 5 ?f s_init) = Inr (JNum 0)"
    "fst (getValue env_ex (ld_layer circle_clear) ''paint'' ''circle-stroke-opacity'' 5 ?f s_init) = Inr (JNum 1)"
    by (simp_all add: circle_clear_def getValue_ex_const lookup_def bag_or_empty_def color_parse_ex_def)
  from circle_part_Inr [OF r refl _ _ v] r show ?thesis
    by (auto simp: circle_clear_def bag_or_empty_def new_Circle_def new_Fill_def)
qed

end
